theory Spec2Isabelle
  imports Main "HOL-Library.Word"
begin

section \<open>Data model\<close>

text \<open>
  The resumable multipart transfer engine of the OSS Go SDK: \<^verbatim>\<open>oss/upload.go\<close> and
  \<^verbatim>\<open>oss/multicopy.go\<close>. Go's \<^verbatim>\<open>int64\<close> is a 64-bit word read in two's complement
  (\<open>+\<close> and \<open>-\<close> wrap, comparisons are the signed ones); Go's \<^verbatim>\<open>int\<close> (part
  numbers, the routine count) is only compared, decremented by one and used as an index,
  so it is an \<open>int\<close> and every index is checked against the slice length, as the Go
  runtime does before it panics.
\<close>

type_synonym int64 = "64 word"

text \<open>An \<^verbatim>\<open>error\<close> value carries its message (\<^verbatim>\<open>errors.New\<close>, a hook's or the service's error).\<close>

datatype error = Error string

record FileChunk =
  fc_Number :: int
  fc_Offset :: int64
  fc_Size :: int64

record UploadPart =
  up_PartNumber :: int
  up_ETag :: string

record InitiateMultipartUploadResult =
  imur_Bucket :: string
  imur_Key :: string
  imur_UploadID :: string

record cpConfig =
  cpc_IsEnable :: bool
  cpc_FilePath :: string

text \<open>\<^verbatim>\<open>upload.go\<close>: \<^verbatim>\<open>cpStat\<close>, \<^verbatim>\<open>cpPart\<close>, \<^verbatim>\<open>uploadCheckpoint\<close>. A \<^verbatim>\<open>time.Time\<close> is
  an abstract value here: an integer that stands for the whole struct, instant and location.\<close>

record cpStat =
  st_Size :: int64
  st_LastModified :: int
  st_MD5 :: string

record cpPart =
  pt_Chunk :: FileChunk
  pt_Part :: UploadPart
  pt_IsCompleted :: bool

record uploadCheckpoint =
  ucp_Magic :: string
  ucp_MD5 :: string
  ucp_FilePath :: string
  ucp_FileStat :: cpStat
  ucp_ObjectKey :: string
  ucp_UploadID :: string
  ucp_Parts :: "cpPart list"

text \<open>\<^verbatim>\<open>multicopy.go\<close>: \<^verbatim>\<open>copyPart\<close>, \<^verbatim>\<open>copyCheckpoint\<close>; \<^verbatim>\<open>objectStat\<close> is declared in
  the download module and has the three fields that \<^verbatim>\<open>isValid\<close> and \<^verbatim>\<open>prepare\<close> use.\<close>

record copyPart =
  cpt_Number :: int
  cpt_Start :: int64
  cpt_End :: int64

record objectStat =
  os_Size :: int64
  os_LastModified :: string
  os_Etag :: string

record copyCheckpoint =
  ccp_Magic :: string
  ccp_MD5 :: string
  ccp_SrcBucketName :: string
  ccp_SrcObjectKey :: string
  ccp_DestBucketName :: string
  ccp_DestObjectKey :: string
  ccp_CopyID :: string
  ccp_ObjStat :: objectStat
  ccp_Parts :: "copyPart list"
  ccp_CopyParts :: "UploadPart list"
  ccp_PartStat :: "bool list"

text \<open>Go's zero values: what \<^verbatim>\<open>uploadCheckpoint{}\<close>, \<^verbatim>\<open>copyCheckpoint{}\<close>,
  \<^verbatim>\<open>UploadPart{}\<close> and \<^verbatim>\<open>&cpConfig{}\<close> hold.\<close>

definition UploadPart_zero :: UploadPart where
  "UploadPart_zero = \<lparr>up_PartNumber = 0, up_ETag = ''''\<rparr>"

definition cpConfig_zero :: cpConfig where
  "cpConfig_zero = \<lparr>cpc_IsEnable = False, cpc_FilePath = ''''\<rparr>"

definition uploadCheckpoint_zero :: uploadCheckpoint where
  "uploadCheckpoint_zero =
     \<lparr>ucp_Magic = '''', ucp_MD5 = '''', ucp_FilePath = '''',
      ucp_FileStat = \<lparr>st_Size = 0, st_LastModified = 0, st_MD5 = ''''\<rparr>,
      ucp_ObjectKey = '''', ucp_UploadID = '''', ucp_Parts = []\<rparr>"

definition copyCheckpoint_zero :: copyCheckpoint where
  "copyCheckpoint_zero =
     \<lparr>ccp_Magic = '''', ccp_MD5 = '''', ccp_SrcBucketName = '''', ccp_SrcObjectKey = '''',
      ccp_DestBucketName = '''', ccp_DestObjectKey = '''', ccp_CopyID = '''',
      ccp_ObjStat = \<lparr>os_Size = 0, os_LastModified = '''', os_Etag = ''''\<rparr>,
      ccp_Parts = [], ccp_CopyParts = [], ccp_PartStat = []\<rparr>"

subsection \<open>Constants\<close>

definition uploadCpMagic :: string where
  "uploadCpMagic = ''FE8BB4EA-B593-4FAC-AD7A-2459A36E2E62''"

definition copyCpMagic :: string where
  "copyCpMagic = ''84F1F18C-FF1D-403B-A1D8-9DEB5F65910A''"

text \<open>Modelled from the spec: the constants \<^verbatim>\<open>MinPartSize\<close> and \<^verbatim>\<open>MaxPartSize\<close> are
  declared in a file that is not part of the sources at hand; the specification gives
  100 KiB and 5 GiB.\<close>

definition MinPartSize :: int64 where
  "MinPartSize = 102400"

definition MaxPartSize :: int64 where
  "MaxPartSize = 5368709120"

text \<open>Modelled from the spec: the constant \<^verbatim>\<open>CheckpointFileSuffix\<close> is declared in a file
  that is not part of the sources at hand; the specification (and the tests, which load
  \<^verbatim>\<open>fileName + ".cp"\<close>) give \<^verbatim>\<open>".cp"\<close>.\<close>

definition CheckpointFileSuffix :: string where
  "CheckpointFileSuffix = ''.cp''"

subsection \<open>Options\<close>

text \<open>
  An option list is consumed only through \<^verbatim>\<open>findOption(options, key, nil)\<close>, which is
  declared outside the sources at hand and returns a value (or \<^verbatim>\<open>nil\<close>) and an error. The
  model takes the two lookups the transfer engine makes as given: \<open>Inl err\<close> for an
  error, \<open>Inr None\<close> for \<^verbatim>\<open>nil\<close> (the option is absent), \<open>Inr (Some v)\<close> for a value.

  The value of the checkpoint option is a pointer, \<^verbatim>\<open>*cpConfig\<close>: the option list shares the
  configuration with whoever built the option. The record holds what the pointer points to,
  and a function that writes through the pointer returns the option list as it is
  afterwards.
\<close>

record Options =
  find_routineNum :: "error + int option"
  find_checkpointConfig :: "error + cpConfig option"

text \<open>\<^verbatim>\<open>getCpConfig\<close> (upload.go): an absent option or a lookup error gives a new zero
  configuration together with the error. Otherwise the result is the option's own
  configuration, and when it is enabled with an empty path, \<^verbatim>\<open>filePath + CheckpointFileSuffix\<close>
  is stored in it (\<^verbatim>\<open>cpc.FilePath = filePath + CheckpointFileSuffix\<close>, with \<^verbatim>\<open>cpc\<close> the
  option's pointer). The second component is the option list after the call.\<close>

definition getCpConfig :: "Options \<Rightarrow> string \<Rightarrow> (cpConfig \<times> error option) \<times> Options" where
  "getCpConfig options filePath =
     (case find_checkpointConfig options of
        Inl err \<Rightarrow> ((cpConfig_zero, Some err), options)
      | Inr None \<Rightarrow> ((cpConfig_zero, None), options)
      | Inr (Some cpc) \<Rightarrow>
          (if cpc_IsEnable cpc \<and> cpc_FilePath cpc = ''''
           then (let cpc' = cpc\<lparr>cpc_FilePath := filePath @ CheckpointFileSuffix\<rparr>
                 in ((cpc', None), options\<lparr>find_checkpointConfig := Inr (Some cpc')\<rparr>))
           else ((cpc, None), options)))"

text \<open>\<^verbatim>\<open>getRoutines\<close> (upload.go).\<close>

definition getRoutines :: "Options \<Rightarrow> int" where
  "getRoutines options =
     (case find_routineNum options of
        Inl err \<Rightarrow> 1
      | Inr None \<Rightarrow> 1
      | Inr (Some rs) \<Rightarrow> (if rs < 1 then 1 else if rs > 100 then 100 else rs))"

text \<open>
  \<^verbatim>\<open>filepath.Base\<close> of Go's standard library, for the slash-separated paths of a Unix
  host (no volume names): the empty path gives \<^verbatim>\<open>"."\<close>, trailing slashes are stripped,
  the last element is kept, and a path of slashes only gives \<^verbatim>\<open>"/"\<close>.
\<close>

definition strip_trailing_slashes :: "string \<Rightarrow> string" where
  "strip_trailing_slashes path = rev (dropWhile (\<lambda>c. c = CHR ''/'') (rev path))"

definition last_element :: "string \<Rightarrow> string" where
  "last_element path = rev (takeWhile (\<lambda>c. c \<noteq> CHR ''/'') (rev path))"

definition filepath_Base :: "string \<Rightarrow> string" where
  "filepath_Base path =
     (if path = '''' then ''.''
      else (let p = last_element (strip_trailing_slashes path)
            in if p = '''' then ''/'' else p))"

section \<open>Environment and observable actions\<close>

datatype ProgressEventType =
    TransferStartedEvent
  | TransferDataEvent
  | TransferCompletedEvent
  | TransferFailedEvent

text \<open>
  What a run does to the outside, in program order: a call of \<^verbatim>\<open>publishProgress\<close> with
  \<^verbatim>\<open>newProgressEvent(type, consumed, total)\<close>; the service calls (by bucket name and key,
  or by the \<^verbatim>\<open>imur\<close> handed over); \<^verbatim>\<open>ioutil.WriteFile(name, data, perm)\<close> and
  \<^verbatim>\<open>os.Remove(name)\<close>; \<^verbatim>\<open>close(die)\<close>; and the goroutines started. The flush of a file
  to disk and \<^verbatim>\<open>os.Rename(old, new)\<close> (which the package calls when it downloads an object
  to a file) belong to the same vocabulary; no function modelled here performs them.
\<close>

datatype action =
    Publish ProgressEventType int64 int64
  | InitiateMultipartUpload string string
  | CompleteMultipartUpload InitiateMultipartUploadResult "UploadPart list"
  | AbortMultipartUpload InitiateMultipartUploadResult
  | GetObjectDetailedMeta string string
  | WriteFile string string nat
  | Sync string
  | Rename string string
  | Remove string
  | CloseDie
  | GoWorker int InitiateMultipartUploadResult
  | GoScheduler "FileChunk list"
  | GoCopyWorker int InitiateMultipartUploadResult
  | GoCopyScheduler "copyPart list"

text \<open>The three headers of a HEAD response that the copy path reads.\<close>

record meta =
  meta_ContentLength :: string
  meta_LastModified :: string
  meta_Etag :: string

text \<open>
  The world outside the engine, as the answers it gives: the file system, the service,
  the standard library (\<^verbatim>\<open>json.Marshal\<close>, \<^verbatim>\<open>json.Unmarshal\<close> into a given record,
  \<^verbatim>\<open>md5.Sum\<close> followed by \<^verbatim>\<open>base64.StdEncoding.EncodeToString\<close>, \<^verbatim>\<open>strconv.ParseInt\<close>),
  and the declarations of the package that lie outside the sources at hand
  (\<^verbatim>\<open>SplitFileByPartSize\<close>, \<^verbatim>\<open>GetPartEnd\<close>, \<^verbatim>\<open>FilePermMode\<close>, \<^verbatim>\<open>downloadCpMagic\<close>).
  The answers do not change while one run lasts.
\<close>

record world =
  w_ReadFile :: "string \<Rightarrow> error + string"
  w_WriteFile :: "string \<Rightarrow> string \<Rightarrow> nat \<Rightarrow> error option"
  w_Stat :: "string \<Rightarrow> error + int64 \<times> int"
  w_InitiateMultipartUpload :: "string \<Rightarrow> string \<Rightarrow> error + InitiateMultipartUploadResult"
  w_CompleteMultipartUpload :: "InitiateMultipartUploadResult \<Rightarrow> UploadPart list \<Rightarrow> error option"
  w_GetObjectDetailedMeta :: "string \<Rightarrow> string \<Rightarrow> error + meta"
  w_MarshalUpload :: "uploadCheckpoint \<Rightarrow> error + string"
  w_UnmarshalUpload :: "string \<Rightarrow> uploadCheckpoint \<Rightarrow> error option \<times> uploadCheckpoint"
  w_MarshalCopy :: "copyCheckpoint \<Rightarrow> error + string"
  w_UnmarshalCopy :: "string \<Rightarrow> copyCheckpoint \<Rightarrow> error option \<times> copyCheckpoint"
  w_md5_base64 :: "string \<Rightarrow> string"
  w_ParseInt :: "string \<Rightarrow> error + int64"
  w_SplitFileByPartSize :: "string \<Rightarrow> int64 \<Rightarrow> error + FileChunk list"
  w_GetPartEnd :: "int64 \<Rightarrow> int64 \<Rightarrow> int64 \<Rightarrow> int64"
  w_FilePermMode :: nat
  w_downloadCpMagic :: string

text \<open>
  What the coordinator receives on its two channels, in the order its \<^verbatim>\<open>select\<close> takes
  them: a part from \<^verbatim>\<open>results\<close> or an error from \<^verbatim>\<open>failed\<close>. The workers, the hook and
  the part requests behind the channels are not modelled; every sequence is allowed.
\<close>

datatype msg = Result UploadPart | Failure error

text \<open>How a call ends: it returns its \<^verbatim>\<open>error\<close> (\<open>None\<close> is \<^verbatim>\<open>nil\<close>), it panics on an
  index out of range, it waits forever on channels nobody writes to (\<open>Hang\<close>), or it
  never leaves the loop that computes the copy parts (\<open>Diverge\<close>).\<close>

datatype outcome = Return "error option" | Panic | Hang | Diverge

section \<open>Upload checkpoint (upload.go)\<close>

text \<open>\<^verbatim>\<open>calcFileMD5\<close>: returns the empty string and no error.\<close>

definition calcFileMD5 :: "string \<Rightarrow> error + string" where
  "calcFileMD5 filePath = Inr ''''"

text \<open>\<^verbatim>\<open>uploadCheckpoint.isValid\<close>: the error of \<^verbatim>\<open>json.Marshal\<close> is dropped, so a failed
  marshal hashes the empty byte string. \<open>w_Stat\<close> stands for \<^verbatim>\<open>os.Open\<close> and \<^verbatim>\<open>fd.Stat\<close>.
  The modification times are \<^verbatim>\<open>time.Time\<close> values compared with \<^verbatim>\<open>!=\<close>, that is field by
  field, the location included. A time is an abstract value here: which value a decoded
  checkpoint carries, and so whether it equals what \<^verbatim>\<open>Stat\<close> reports, is up to
  \<open>w_UnmarshalUpload\<close>.\<close>

definition uploadCheckpoint_isValid :: "world \<Rightarrow> uploadCheckpoint \<Rightarrow> string \<Rightarrow> bool \<times> error option" where
  "uploadCheckpoint_isValid W cp filePath =
     (let cpb = cp\<lparr>ucp_MD5 := ''''\<rparr>;
          js = (case w_MarshalUpload W cpb of Inl err \<Rightarrow> [] | Inr js \<Rightarrow> js);
          b64 = w_md5_base64 W js
      in if ucp_Magic cp \<noteq> uploadCpMagic \<or> b64 \<noteq> ucp_MD5 cp then (False, None)
         else (case w_Stat W filePath of
                 Inl err \<Rightarrow> (False, Some err)
               | Inr (sz, modTime) \<Rightarrow>
                   (case calcFileMD5 filePath of
                      Inl err \<Rightarrow> (False, Some err)
                    | Inr md \<Rightarrow>
                        if st_Size (ucp_FileStat cp) \<noteq> sz \<or>
                           st_LastModified (ucp_FileStat cp) \<noteq> modTime \<or>
                           st_MD5 (ucp_FileStat cp) \<noteq> md
                        then (False, None)
                        else (True, None))))"

text \<open>\<^verbatim>\<open>uploadCheckpoint.load\<close>: the record is unmarshalled into in place.\<close>

definition uploadCheckpoint_load :: "world \<Rightarrow> uploadCheckpoint \<Rightarrow> string \<Rightarrow> error option \<times> uploadCheckpoint" where
  "uploadCheckpoint_load W cp filePath =
     (case w_ReadFile W filePath of
        Inl err \<Rightarrow> (Some err, cp)
      | Inr contents \<Rightarrow> w_UnmarshalUpload W contents cp)"

text \<open>\<^verbatim>\<open>uploadCheckpoint.dump\<close>, in its two stages: the copy \<^verbatim>\<open>bcp\<close> with the digest of
  its blanked marshalling filled in, and the write of its second marshalling.\<close>

definition uploadCheckpoint_seal :: "world \<Rightarrow> uploadCheckpoint \<Rightarrow> error + uploadCheckpoint" where
  "uploadCheckpoint_seal W cp =
     (let bcp = cp\<lparr>ucp_MD5 := ''''\<rparr>
      in case w_MarshalUpload W bcp of
           Inl err \<Rightarrow> Inl err
         | Inr js \<Rightarrow> Inr (bcp\<lparr>ucp_MD5 := w_md5_base64 W js\<rparr>))"

definition uploadCheckpoint_dump :: "world \<Rightarrow> uploadCheckpoint \<Rightarrow> string \<Rightarrow> error option \<times> action list" where
  "uploadCheckpoint_dump W cp filePath =
     (case uploadCheckpoint_seal W cp of
        Inl err \<Rightarrow> (Some err, [])
      | Inr bcp \<Rightarrow>
          (case w_MarshalUpload W bcp of
             Inl err \<Rightarrow> (Some err, [])
           | Inr js \<Rightarrow>
               (w_WriteFile W filePath js (w_FilePermMode W),
                [WriteFile filePath js (w_FilePermMode W)])))"

text \<open>\<^verbatim>\<open>uploadCheckpoint.updatePart\<close>: \<open>None\<close> is the panic of an index out of range.\<close>

definition updatePart :: "uploadCheckpoint \<Rightarrow> UploadPart \<Rightarrow> uploadCheckpoint option" where
  "updatePart cp part =
     (let i = up_PartNumber part - 1
      in if 0 \<le> i \<and> i < int (length (ucp_Parts cp))
         then Some (cp\<lparr>ucp_Parts := (ucp_Parts cp)
                       [nat i := (ucp_Parts cp ! nat i)\<lparr>pt_Part := part, pt_IsCompleted := True\<rparr>]\<rparr>)
         else None)"

text \<open>\<^verbatim>\<open>todoParts\<close>, \<^verbatim>\<open>allParts\<close>, \<^verbatim>\<open>getCompletedBytes\<close>, \<^verbatim>\<open>getTotalBytes\<close>: one pass over
  the slice each, with the accumulator the loop has.\<close>

definition uploadCheckpoint_todoParts :: "uploadCheckpoint \<Rightarrow> FileChunk list" where
  "uploadCheckpoint_todoParts cp =
     foldl (\<lambda>fcs part. if \<not> pt_IsCompleted part then fcs @ [pt_Chunk part] else fcs) [] (ucp_Parts cp)"

definition allParts :: "uploadCheckpoint \<Rightarrow> UploadPart list" where
  "allParts cp = foldl (\<lambda>ps part. ps @ [pt_Part part]) [] (ucp_Parts cp)"

definition uploadCheckpoint_getCompletedBytes :: "uploadCheckpoint \<Rightarrow> int64" where
  "uploadCheckpoint_getCompletedBytes cp =
     foldl (\<lambda>completedBytes part.
              if pt_IsCompleted part then completedBytes + fc_Size (pt_Chunk part) else completedBytes)
           0 (ucp_Parts cp)"

definition getTotalBytes :: "FileChunk list \<Rightarrow> int64" where
  "getTotalBytes chunks = foldl (\<lambda>tb chunk. tb + fc_Size chunk) 0 chunks"

text \<open>\<^verbatim>\<open>prepare\<close>: fills a fresh checkpoint and initiates the multipart upload. The result is
  the error or the prepared record, with the service calls made.\<close>

definition prepare :: "world \<Rightarrow> uploadCheckpoint \<Rightarrow> string \<Rightarrow> string \<Rightarrow> string \<Rightarrow> int64 \<Rightarrow>
    (error + uploadCheckpoint) \<times> action list" where
  "prepare W cp bucketName objectKey filePath partSize =
     (let cp1 = cp\<lparr>ucp_Magic := uploadCpMagic, ucp_FilePath := filePath, ucp_ObjectKey := objectKey\<rparr>
      in case w_Stat W filePath of
           Inl err \<Rightarrow> (Inl err, [])
         | Inr (sz, modTime) \<Rightarrow>
             (case calcFileMD5 filePath of
                Inl err \<Rightarrow> (Inl err, [])
              | Inr md \<Rightarrow>
                  (let cp2 = cp1\<lparr>ucp_FileStat := \<lparr>st_Size = sz, st_LastModified = modTime, st_MD5 = md\<rparr>\<rparr>
                   in case w_SplitFileByPartSize W filePath partSize of
                        Inl err \<Rightarrow> (Inl err, [])
                      | Inr parts \<Rightarrow>
                          (let cp3 = cp2\<lparr>ucp_Parts :=
                                       map (\<lambda>part. \<lparr>pt_Chunk = part, pt_Part = UploadPart_zero,
                                                    pt_IsCompleted = False\<rparr>) parts\<rparr>
                           in case w_InitiateMultipartUpload W bucketName objectKey of
                                Inl err \<Rightarrow> (Inl err, [InitiateMultipartUpload bucketName objectKey])
                              | Inr imur \<Rightarrow>
                                  (Inr (cp3\<lparr>ucp_UploadID := imur_UploadID imur\<rparr>),
                                   [InitiateMultipartUpload bucketName objectKey])))))"

text \<open>\<^verbatim>\<open>complete\<close>: completes the upload and then removes the checkpoint file.\<close>

definition complete :: "world \<Rightarrow> uploadCheckpoint \<Rightarrow> string \<Rightarrow> UploadPart list \<Rightarrow> string \<Rightarrow>
    error option \<times> action list" where
  "complete W cp bucketName parts cpFilePath =
     (let imur = \<lparr>imur_Bucket = bucketName, imur_Key = ucp_ObjectKey cp, imur_UploadID = ucp_UploadID cp\<rparr>
      in case w_CompleteMultipartUpload W imur parts of
           Some err \<Rightarrow> (Some err, [CompleteMultipartUpload imur parts])
         | None \<Rightarrow> (None, [CompleteMultipartUpload imur parts, Remove cpFilePath]))"

section \<open>Upload coordinators (upload.go)\<close>

text \<open>
  The local variables of a coordinator's waiting loop: the counter \<^verbatim>\<open>completed\<close>, what the
  loop fills (the slice \<^verbatim>\<open>parts\<close> or \<^verbatim>\<open>ups\<close>, or the checkpoint), \<^verbatim>\<open>completedBytes\<close>, and
  the actions of the run so far. The loop ends in one of four ways.
\<close>

record 'c wstate =
  completed :: nat
  store :: 'c
  completedBytes :: int64
  trace :: "action list"

datatype 'c wait =
    Finished "'c wstate"
  | Failed error "'c wstate"
  | Panicked "'c wstate"
  | Blocked "'c wstate"

text \<open>\<^verbatim>\<open>for w := 1; w <= routines; w++ { go worker(w, arg, ...) }\<close> and \<^verbatim>\<open>go scheduler(jobs, chunks)\<close>.\<close>

definition start_workers :: "int \<Rightarrow> InitiateMultipartUploadResult \<Rightarrow> FileChunk list \<Rightarrow> action list" where
  "start_workers routines imur chunks = map (\<lambda>w. GoWorker w imur) [1..routines] @ [GoScheduler chunks]"

text \<open>The waiting loop of \<^verbatim>\<open>uploadFile\<close>: \<^verbatim>\<open>parts\<close> and \<^verbatim>\<open>chunks\<close> are both indexed by
  \<^verbatim>\<open>part.PartNumber-1\<close>.\<close>

fun uploadFile_wait :: "FileChunk list \<Rightarrow> int64 \<Rightarrow> InitiateMultipartUploadResult \<Rightarrow> msg list \<Rightarrow>
    UploadPart list wstate \<Rightarrow> UploadPart list wait" where
  "uploadFile_wait chunks totalBytes imur [] s =
     (if completed s < length chunks then Blocked s else Finished s)"
| "uploadFile_wait chunks totalBytes imur (m # ms) s =
     (if completed s < length chunks then
        (case m of
           Result part \<Rightarrow>
             (let i = up_PartNumber part - 1
              in if 0 \<le> i \<and> i < int (length (store s)) \<and> i < int (length chunks)
                 then (let cb = completedBytes s + fc_Size (chunks ! nat i)
                       in uploadFile_wait chunks totalBytes imur ms
                            (s\<lparr>completed := completed s + 1,
                               store := (store s)[nat i := part],
                               completedBytes := cb,
                               trace := trace s @ [Publish TransferDataEvent cb totalBytes]\<rparr>))
                 else Panicked (s\<lparr>completed := completed s + 1\<rparr>))
         | Failure err \<Rightarrow>
             Failed err
               (s\<lparr>trace := trace s @
                     [CloseDie,
                      Publish TransferFailedEvent (completedBytes s) totalBytes,
                      AbortMultipartUpload imur]\<rparr>))
      else Finished s)"

text \<open>\<^verbatim>\<open>uploadFile\<close>: concurrent upload without checkpoint.\<close>

definition uploadFile :: "world \<Rightarrow> string \<Rightarrow> string \<Rightarrow> string \<Rightarrow> int64 \<Rightarrow> int \<Rightarrow> msg list \<Rightarrow>
    outcome \<times> action list" where
  "uploadFile W bucketName objectKey filePath partSize routines msgs =
     (case w_SplitFileByPartSize W filePath partSize of
        Inl err \<Rightarrow> (Return (Some err), [])
      | Inr chunks \<Rightarrow>
          (case w_InitiateMultipartUpload W bucketName objectKey of
             Inl err \<Rightarrow> (Return (Some err), [InitiateMultipartUpload bucketName objectKey])
           | Inr imur \<Rightarrow>
               (let totalBytes = getTotalBytes chunks;
                    s0 = \<lparr>completed = 0,
                          store = replicate (length chunks) UploadPart_zero,
                          completedBytes = 0,
                          trace = [InitiateMultipartUpload bucketName objectKey,
                                   Publish TransferStartedEvent 0 totalBytes] @
                                  start_workers routines imur chunks\<rparr>
                in case uploadFile_wait chunks totalBytes imur msgs s0 of
                     Failed err s \<Rightarrow> (Return (Some err), trace s)
                   | Panicked s \<Rightarrow> (Panic, trace s)
                   | Blocked s \<Rightarrow> (Hang, trace s)
                   | Finished s \<Rightarrow>
                       (let tr = trace s @ [Publish TransferStartedEvent (completedBytes s) totalBytes]
                        in case w_CompleteMultipartUpload W imur (store s) of
                             Some err \<Rightarrow>
                               (Return (Some err),
                                tr @ [CompleteMultipartUpload imur (store s), AbortMultipartUpload imur])
                           | None \<Rightarrow>
                               (Return None, tr @ [CompleteMultipartUpload imur (store s)])))))"

text \<open>The waiting loop of \<^verbatim>\<open>uploadFileWithCp\<close>: the part is entered in the checkpoint, the
  checkpoint is dumped and what \<^verbatim>\<open>dump\<close> returns is dropped.\<close>

fun uploadFileWithCp_wait :: "world \<Rightarrow> string \<Rightarrow> FileChunk list \<Rightarrow> msg list \<Rightarrow>
    uploadCheckpoint wstate \<Rightarrow> uploadCheckpoint wait" where
  "uploadFileWithCp_wait W cpFilePath chunks [] s =
     (if completed s < length chunks then Blocked s else Finished s)"
| "uploadFileWithCp_wait W cpFilePath chunks (m # ms) s =
     (if completed s < length chunks then
        (case m of
           Result part \<Rightarrow>
             (case updatePart (store s) part of
                None \<Rightarrow> Panicked (s\<lparr>completed := completed s + 1\<rparr>)
              | Some ucp \<Rightarrow>
                  (let dumped = uploadCheckpoint_dump W ucp cpFilePath;
                       cb = completedBytes s +
                            fc_Size (pt_Chunk (ucp_Parts ucp ! nat (up_PartNumber part - 1)))
                   in uploadFileWithCp_wait W cpFilePath chunks ms
                        (s\<lparr>completed := completed s + 1,
                           store := ucp,
                           completedBytes := cb,
                           trace := trace s @ snd dumped @
                                    [Publish TransferDataEvent cb (st_Size (ucp_FileStat ucp))]\<rparr>)))
         | Failure err \<Rightarrow>
             Failed err
               (s\<lparr>trace := trace s @
                     [CloseDie,
                      Publish TransferFailedEvent (completedBytes s) (st_Size (ucp_FileStat (store s)))]\<rparr>))
      else Finished s)"

text \<open>\<^verbatim>\<open>uploadFileWithCp\<close>: concurrent upload with checkpoint, in its two phases. First the
  checkpoint is loaded and checked; when the load or the check fails it is prepared afresh
  (and the checkpoint file is removed).\<close>

definition uploadFileWithCp_resume :: "world \<Rightarrow> string \<Rightarrow> string \<Rightarrow> string \<Rightarrow> int64 \<Rightarrow> string \<Rightarrow>
    (error + uploadCheckpoint) \<times> action list" where
  "uploadFileWithCp_resume W bucketName objectKey filePath partSize cpFilePath =
     (let loaded = uploadCheckpoint_load W uploadCheckpoint_zero cpFilePath;
          tr0 = (if fst loaded \<noteq> None then [Remove cpFilePath] else []);
          checked = uploadCheckpoint_isValid W (snd loaded) filePath
      in if snd checked \<noteq> None \<or> \<not> fst checked
         then (case prepare W (snd loaded) bucketName objectKey filePath partSize of
                 (Inl err, acts) \<Rightarrow> (Inl err, tr0 @ acts)
               | (Inr cp, acts) \<Rightarrow> (Inr cp, tr0 @ acts @ [Remove cpFilePath]))
         else (Inr (snd loaded), tr0))"

text \<open>Then the unfinished parts of the checkpoint \<open>ucp\<close> are scheduled, the results are
  awaited, and the upload is completed; \<open>tr1\<close> holds the actions of the first phase.\<close>

definition uploadFileWithCp_run :: "world \<Rightarrow> string \<Rightarrow> string \<Rightarrow> string \<Rightarrow> int \<Rightarrow>
    uploadCheckpoint \<Rightarrow> action list \<Rightarrow> msg list \<Rightarrow> outcome \<times> action list" where
  "uploadFileWithCp_run W bucketName objectKey cpFilePath routines ucp tr1 msgs =
     (let chunks = uploadCheckpoint_todoParts ucp;
          imur = \<lparr>imur_Bucket = bucketName, imur_Key = objectKey,
                  imur_UploadID = ucp_UploadID ucp\<rparr>;
          cb0 = uploadCheckpoint_getCompletedBytes ucp;
          s0 = \<lparr>completed = 0, store = ucp, completedBytes = cb0,
                trace = tr1 @
                        [Publish TransferStartedEvent cb0 (st_Size (ucp_FileStat ucp))] @
                        start_workers routines imur chunks\<rparr>
      in case uploadFileWithCp_wait W cpFilePath chunks msgs s0 of
           Failed err s \<Rightarrow> (Return (Some err), trace s)
         | Panicked s \<Rightarrow> (Panic, trace s)
         | Blocked s \<Rightarrow> (Hang, trace s)
         | Finished s \<Rightarrow>
             (let tr = trace s @
                       [Publish TransferCompletedEvent (completedBytes s)
                          (st_Size (ucp_FileStat (store s)))];
                  completion = complete W (store s) bucketName (allParts (store s)) cpFilePath
              in (Return (fst completion), tr @ snd completion)))"

definition uploadFileWithCp :: "world \<Rightarrow> string \<Rightarrow> string \<Rightarrow> string \<Rightarrow> int64 \<Rightarrow> string \<Rightarrow> int \<Rightarrow>
    msg list \<Rightarrow> outcome \<times> action list" where
  "uploadFileWithCp W bucketName objectKey filePath partSize cpFilePath routines msgs =
     (case uploadFileWithCp_resume W bucketName objectKey filePath partSize cpFilePath of
        (Inl err, tr1) \<Rightarrow> (Return (Some err), tr1)
      | (Inr ucp, tr1) \<Rightarrow>
          uploadFileWithCp_run W bucketName objectKey cpFilePath routines ucp tr1 msgs)"

text \<open>\<^verbatim>\<open>Bucket.UploadFile\<close>, on the bucket named \<open>bucketName\<close>. The result is what the
  call returns with the actions of the run, and the option list as the call leaves it.\<close>

definition UploadFile :: "world \<Rightarrow> string \<Rightarrow> string \<Rightarrow> string \<Rightarrow> int64 \<Rightarrow> Options \<Rightarrow> msg list \<Rightarrow>
    (outcome \<times> action list) \<times> Options" where
  "UploadFile W bucketName objectKey filePath partSize options msgs =
     (if partSize <s MinPartSize \<or> MaxPartSize <s partSize
      then ((Return (Some (Error ''oss: part size invalid range (1024KB, 5GB]'')), []), options)
      else (case getCpConfig options filePath of
              ((cpConf, Some err), options') \<Rightarrow> ((Return (Some err), []), options')
            | ((cpConf, None), options') \<Rightarrow>
                (let routines = getRoutines options'
                 in if cpc_IsEnable cpConf
                    then (uploadFileWithCp W bucketName objectKey filePath partSize
                            (cpc_FilePath cpConf) routines msgs, options')
                    else (uploadFile W bucketName objectKey filePath partSize routines msgs,
                          options'))))"

section \<open>Copy (multicopy.go)\<close>

text \<open>
  \<^verbatim>\<open>getCopyParts\<close>: the loop \<^verbatim>\<open>for offset := int64(0); offset < objectSize; offset += partSize\<close>
  need not end (a part size of zero, or an offset that wraps), so it is a partial function:
  \<open>None\<close> means it runs forever. \<^verbatim>\<open>GetPartEnd\<close> is declared outside the sources at hand and
  is handed to the loop.
\<close>

partial_function (option) getCopyParts_loop :: "(int64 \<Rightarrow> int64 \<Rightarrow> int64 \<Rightarrow> int64) \<Rightarrow>
    int64 \<Rightarrow> int64 \<Rightarrow> int \<Rightarrow> int64 \<Rightarrow> copyPart list \<Rightarrow> copyPart list option" where
  "getCopyParts_loop GetPartEnd objectSize partSize i offset parts =
     (if offset <s objectSize
      then getCopyParts_loop GetPartEnd objectSize partSize (i + 1) (offset + partSize)
             (parts @ [\<lparr>cpt_Number = i + 1, cpt_Start = offset,
                        cpt_End = GetPartEnd offset objectSize partSize\<rparr>])
      else Some parts)"

declare getCopyParts_loop.simps [code]

definition getCopyParts :: "world \<Rightarrow> string \<Rightarrow> string \<Rightarrow> int64 \<Rightarrow>
    (error + copyPart list) option \<times> action list" where
  "getCopyParts W bucketName objectKey partSize =
     (case w_GetObjectDetailedMeta W bucketName objectKey of
        Inl err \<Rightarrow> (Some (Inl err), [GetObjectDetailedMeta bucketName objectKey])
      | Inr meta \<Rightarrow>
          (case w_ParseInt W (meta_ContentLength meta) of
             Inl err \<Rightarrow> (Some (Inl err), [GetObjectDetailedMeta bucketName objectKey])
           | Inr objectSize \<Rightarrow>
               (map_option Inr (getCopyParts_loop (w_GetPartEnd W) objectSize partSize 0 0 []),
                [GetObjectDetailedMeta bucketName objectKey])))"

definition getSrcObjectBytes :: "copyPart list \<Rightarrow> int64" where
  "getSrcObjectBytes parts = foldl (\<lambda>ob part. ob + (cpt_End part - cpt_Start part + 1)) 0 parts"

definition start_copy_workers :: "int \<Rightarrow> InitiateMultipartUploadResult \<Rightarrow> copyPart list \<Rightarrow> action list" where
  "start_copy_workers routines imur parts =
     map (\<lambda>w. GoCopyWorker w imur) [1..routines] @ [GoCopyScheduler parts]"

text \<open>The waiting loop of \<^verbatim>\<open>copyFile\<close>. On a failure the multipart upload is aborted before
  the failure event is published.\<close>

fun copyFile_wait :: "copyPart list \<Rightarrow> int64 \<Rightarrow> InitiateMultipartUploadResult \<Rightarrow> msg list \<Rightarrow>
    UploadPart list wstate \<Rightarrow> UploadPart list wait" where
  "copyFile_wait parts totalBytes imur [] s =
     (if completed s < length parts then Blocked s else Finished s)"
| "copyFile_wait parts totalBytes imur (m # ms) s =
     (if completed s < length parts then
        (case m of
           Result part \<Rightarrow>
             (let i = up_PartNumber part - 1
              in if 0 \<le> i \<and> i < int (length (store s)) \<and> i < int (length parts)
                 then (let cb = completedBytes s +
                                (cpt_End (parts ! nat i) - cpt_Start (parts ! nat i) + 1)
                       in copyFile_wait parts totalBytes imur ms
                            (s\<lparr>completed := completed s + 1,
                               store := (store s)[nat i := part],
                               completedBytes := cb,
                               trace := trace s @ [Publish TransferDataEvent cb totalBytes]\<rparr>))
                 else Panicked (s\<lparr>completed := completed s + 1\<rparr>))
         | Failure err \<Rightarrow>
             Failed err
               (s\<lparr>trace := trace s @
                     [CloseDie,
                      AbortMultipartUpload imur,
                      Publish TransferFailedEvent (completedBytes s) totalBytes]\<rparr>))
      else Finished s)"

text \<open>\<^verbatim>\<open>copyFile\<close>: concurrent copy without checkpoint. \<^verbatim>\<open>bucket.Client.Bucket(name)\<close> only
  pairs the client with the name and never fails.\<close>

definition copyFile :: "world \<Rightarrow> string \<Rightarrow> string \<Rightarrow> string \<Rightarrow> string \<Rightarrow> int64 \<Rightarrow> int \<Rightarrow> msg list \<Rightarrow>
    outcome \<times> action list" where
  "copyFile W srcBucketName srcObjectKey destBucketName destObjectKey partSize routines msgs =
     (case getCopyParts W srcBucketName srcObjectKey partSize of
        (None, acts) \<Rightarrow> (Diverge, acts)
      | (Some (Inl err), acts) \<Rightarrow> (Return (Some err), acts)
      | (Some (Inr parts), acts) \<Rightarrow>
          (case w_InitiateMultipartUpload W destBucketName destObjectKey of
             Inl err \<Rightarrow>
               (Return (Some err), acts @ [InitiateMultipartUpload destBucketName destObjectKey])
           | Inr imur \<Rightarrow>
               (let totalBytes = getSrcObjectBytes parts;
                    s0 = \<lparr>completed = 0,
                          store = replicate (length parts) UploadPart_zero,
                          completedBytes = 0,
                          trace = acts @
                                  [InitiateMultipartUpload destBucketName destObjectKey,
                                   Publish TransferStartedEvent 0 totalBytes] @
                                  start_copy_workers routines imur parts\<rparr>
                in case copyFile_wait parts totalBytes imur msgs s0 of
                     Failed err s \<Rightarrow> (Return (Some err), trace s)
                   | Panicked s \<Rightarrow> (Panic, trace s)
                   | Blocked s \<Rightarrow> (Hang, trace s)
                   | Finished s \<Rightarrow>
                       (let tr = trace s @ [Publish TransferCompletedEvent (completedBytes s) totalBytes]
                        in case w_CompleteMultipartUpload W imur (store s) of
                             Some err \<Rightarrow>
                               (Return (Some err),
                                tr @ [CompleteMultipartUpload imur (store s), AbortMultipartUpload imur])
                           | None \<Rightarrow>
                               (Return None, tr @ [CompleteMultipartUpload imur (store s)])))))"

subsection \<open>Copy checkpoint\<close>

text \<open>\<^verbatim>\<open>copyCheckpoint.isValid\<close>: the magic is compared with \<^verbatim>\<open>downloadCpMagic\<close>. The
  object's metadata is read by a HEAD request once magic and digest have passed.\<close>

definition copyCheckpoint_isValid :: "world \<Rightarrow> copyCheckpoint \<Rightarrow> string \<Rightarrow> string \<Rightarrow>
    (bool \<times> error option) \<times> action list" where
  "copyCheckpoint_isValid W cp bucketName objectKey =
     (let cpb = cp\<lparr>ccp_MD5 := ''''\<rparr>;
          js = (case w_MarshalCopy W cpb of Inl err \<Rightarrow> [] | Inr js \<Rightarrow> js);
          b64 = w_md5_base64 W js
      in if ccp_Magic cp \<noteq> w_downloadCpMagic W \<or> b64 \<noteq> ccp_MD5 cp then ((False, None), [])
         else (case w_GetObjectDetailedMeta W bucketName objectKey of
                 Inl err \<Rightarrow> ((False, Some err), [GetObjectDetailedMeta bucketName objectKey])
               | Inr meta \<Rightarrow>
                   (case w_ParseInt W (meta_ContentLength meta) of
                      Inl err \<Rightarrow> ((False, Some err), [GetObjectDetailedMeta bucketName objectKey])
                    | Inr objectSize \<Rightarrow>
                        if os_Size (ccp_ObjStat cp) \<noteq> objectSize \<or>
                           os_LastModified (ccp_ObjStat cp) \<noteq> meta_LastModified meta \<or>
                           os_Etag (ccp_ObjStat cp) \<noteq> meta_Etag meta
                        then ((False, None), [GetObjectDetailedMeta bucketName objectKey])
                        else ((True, None), [GetObjectDetailedMeta bucketName objectKey]))))"

definition copyCheckpoint_load :: "world \<Rightarrow> copyCheckpoint \<Rightarrow> string \<Rightarrow> error option \<times> copyCheckpoint" where
  "copyCheckpoint_load W cp filePath =
     (case w_ReadFile W filePath of
        Inl err \<Rightarrow> (Some err, cp)
      | Inr contents \<Rightarrow> w_UnmarshalCopy W contents cp)"

text \<open>\<^verbatim>\<open>copyCheckpoint.update\<close>: two indexed stores, each of which may panic.\<close>

definition copyCheckpoint_update :: "copyCheckpoint \<Rightarrow> UploadPart \<Rightarrow> copyCheckpoint option" where
  "copyCheckpoint_update cp part =
     (let i = up_PartNumber part - 1
      in if 0 \<le> i \<and> i < int (length (ccp_CopyParts cp))
         then (if i < int (length (ccp_PartStat cp))
               then Some (cp\<lparr>ccp_CopyParts := (ccp_CopyParts cp)[nat i := part],
                             ccp_PartStat := (ccp_PartStat cp)[nat i := True]\<rparr>)
               else None)
         else None)"

text \<open>\<^verbatim>\<open>copyCheckpoint.dump\<close>, in the same two stages as the upload checkpoint's.\<close>

definition copyCheckpoint_seal :: "world \<Rightarrow> copyCheckpoint \<Rightarrow> error + copyCheckpoint" where
  "copyCheckpoint_seal W cp =
     (let bcp = cp\<lparr>ccp_MD5 := ''''\<rparr>
      in case w_MarshalCopy W bcp of
           Inl err \<Rightarrow> Inl err
         | Inr js \<Rightarrow> Inr (bcp\<lparr>ccp_MD5 := w_md5_base64 W js\<rparr>))"

definition copyCheckpoint_dump :: "world \<Rightarrow> copyCheckpoint \<Rightarrow> string \<Rightarrow> error option \<times> action list" where
  "copyCheckpoint_dump W cp filePath =
     (case copyCheckpoint_seal W cp of
        Inl err \<Rightarrow> (Some err, [])
      | Inr bcp \<Rightarrow>
          (case w_MarshalCopy W bcp of
             Inl err \<Rightarrow> (Some err, [])
           | Inr js \<Rightarrow>
               (w_WriteFile W filePath js (w_FilePermMode W),
                [WriteFile filePath js (w_FilePermMode W)])))"

text \<open>\<^verbatim>\<open>copyCheckpoint.todoParts\<close> ranges over \<^verbatim>\<open>PartStat\<close> and reads \<^verbatim>\<open>Parts[i]\<close>;
  \<^verbatim>\<open>copyCheckpoint.getCompletedBytes\<close> ranges over \<^verbatim>\<open>Parts\<close> and reads \<^verbatim>\<open>PartStat[i]\<close>.
  \<open>None\<close> is the panic of an index out of range.\<close>

fun todoParts_from :: "copyPart list \<Rightarrow> nat \<Rightarrow> bool list \<Rightarrow> copyPart list \<Rightarrow> copyPart list option" where
  "todoParts_from Parts i [] dps = Some dps"
| "todoParts_from Parts i (ps # rest) dps =
     (if \<not> ps
      then (if i < length Parts then todoParts_from Parts (Suc i) rest (dps @ [Parts ! i]) else None)
      else todoParts_from Parts (Suc i) rest dps)"

definition copyCheckpoint_todoParts :: "copyCheckpoint \<Rightarrow> copyPart list option" where
  "copyCheckpoint_todoParts cp = todoParts_from (ccp_Parts cp) 0 (ccp_PartStat cp) []"

fun getCompletedBytes_from :: "bool list \<Rightarrow> nat \<Rightarrow> copyPart list \<Rightarrow> int64 \<Rightarrow> int64 option" where
  "getCompletedBytes_from PartStat i [] cb = Some cb"
| "getCompletedBytes_from PartStat i (part # rest) cb =
     (if i < length PartStat
      then getCompletedBytes_from PartStat (Suc i) rest
             (if PartStat ! i then cb + (cpt_End part - cpt_Start part + 1) else cb)
      else None)"

definition copyCheckpoint_getCompletedBytes :: "copyCheckpoint \<Rightarrow> int64 option" where
  "copyCheckpoint_getCompletedBytes cp = getCompletedBytes_from (ccp_PartStat cp) 0 (ccp_Parts cp) 0"

text \<open>\<^verbatim>\<open>copyCheckpoint.prepare\<close>: \<open>None\<close> when the part loop does not end.\<close>

definition copyCheckpoint_prepare :: "world \<Rightarrow> copyCheckpoint \<Rightarrow> string \<Rightarrow> string \<Rightarrow> string \<Rightarrow> string \<Rightarrow>
    int64 \<Rightarrow> (error + copyCheckpoint) option \<times> action list" where
  "copyCheckpoint_prepare W cp srcBucketName srcObjectKey destBucketName destObjectKey partSize =
     (let cp1 = cp\<lparr>ccp_Magic := copyCpMagic, ccp_SrcBucketName := srcBucketName,
                   ccp_SrcObjectKey := srcObjectKey, ccp_DestBucketName := destBucketName,
                   ccp_DestObjectKey := destObjectKey\<rparr>;
          head = [GetObjectDetailedMeta srcBucketName srcObjectKey]
      in case w_GetObjectDetailedMeta W srcBucketName srcObjectKey of
           Inl err \<Rightarrow> (Some (Inl err), head)
         | Inr meta \<Rightarrow>
             (case w_ParseInt W (meta_ContentLength meta) of
                Inl err \<Rightarrow> (Some (Inl err), head)
              | Inr objectSize \<Rightarrow>
                  (let cp2 = cp1\<lparr>ccp_ObjStat := \<lparr>os_Size = objectSize,
                                  os_LastModified = meta_LastModified meta,
                                  os_Etag = meta_Etag meta\<rparr>\<rparr>
                   in case getCopyParts W srcBucketName srcObjectKey partSize of
                        (None, acts) \<Rightarrow> (None, head @ acts)
                      | (Some (Inl err), acts) \<Rightarrow> (Some (Inl err), head @ acts)
                      | (Some (Inr parts), acts) \<Rightarrow>
                          (let cp3 = cp2\<lparr>ccp_Parts := parts,
                                        ccp_PartStat := replicate (length parts) False,
                                        ccp_CopyParts := replicate (length parts) UploadPart_zero\<rparr>;
                               init = [InitiateMultipartUpload destBucketName destObjectKey]
                           in case w_InitiateMultipartUpload W destBucketName destObjectKey of
                                Inl err \<Rightarrow> (Some (Inl err), head @ acts @ init)
                              | Inr imur \<Rightarrow>
                                  (Some (Inr (cp3\<lparr>ccp_CopyID := imur_UploadID imur\<rparr>)),
                                   head @ acts @ init)))))"

definition copyCheckpoint_complete :: "world \<Rightarrow> copyCheckpoint \<Rightarrow> UploadPart list \<Rightarrow> string \<Rightarrow>
    error option \<times> action list" where
  "copyCheckpoint_complete W cp parts cpFilePath =
     (let imur = \<lparr>imur_Bucket = ccp_DestBucketName cp, imur_Key = ccp_DestObjectKey cp,
                  imur_UploadID = ccp_CopyID cp\<rparr>
      in case w_CompleteMultipartUpload W imur parts of
           Some err \<Rightarrow> (Some err, [CompleteMultipartUpload imur parts])
         | None \<Rightarrow> (None, [CompleteMultipartUpload imur parts, Remove cpFilePath]))"

text \<open>The waiting loop of \<^verbatim>\<open>copyFileWithCp\<close>: \<^verbatim>\<open>parts\<close> is the list of unfinished parts, and
  it is this list that \<^verbatim>\<open>parts[part.PartNumber-1]\<close> indexes, after the checkpoint has been
  updated and dumped.\<close>

fun copyFileWithCp_wait :: "world \<Rightarrow> string \<Rightarrow> copyPart list \<Rightarrow> msg list \<Rightarrow>
    copyCheckpoint wstate \<Rightarrow> copyCheckpoint wait" where
  "copyFileWithCp_wait W cpFilePath parts [] s =
     (if completed s < length parts then Blocked s else Finished s)"
| "copyFileWithCp_wait W cpFilePath parts (m # ms) s =
     (if completed s < length parts then
        (case m of
           Result part \<Rightarrow>
             (case copyCheckpoint_update (store s) part of
                None \<Rightarrow> Panicked (s\<lparr>completed := completed s + 1\<rparr>)
              | Some ccp \<Rightarrow>
                  (let dumped = copyCheckpoint_dump W ccp cpFilePath;
                       i = up_PartNumber part - 1
                   in if 0 \<le> i \<and> i < int (length parts)
                      then (let cb = completedBytes s +
                                     (cpt_End (parts ! nat i) - cpt_Start (parts ! nat i) + 1)
                            in copyFileWithCp_wait W cpFilePath parts ms
                                 (s\<lparr>completed := completed s + 1,
                                    store := ccp,
                                    completedBytes := cb,
                                    trace := trace s @ snd dumped @
                                             [Publish TransferDataEvent cb (os_Size (ccp_ObjStat ccp))]\<rparr>))
                      else Panicked (s\<lparr>completed := completed s + 1, store := ccp,
                                       trace := trace s @ snd dumped\<rparr>)))
         | Failure err \<Rightarrow>
             Failed err
               (s\<lparr>trace := trace s @
                     [CloseDie,
                      Publish TransferFailedEvent (completedBytes s) (os_Size (ccp_ObjStat (store s)))]\<rparr>))
      else Finished s)"

text \<open>\<^verbatim>\<open>copyFileWithCp\<close>: concurrent copy with checkpoint, in its two phases. First the
  checkpoint is loaded and checked, and prepared afresh when the load or the check fails.\<close>

definition copyFileWithCp_resume :: "world \<Rightarrow> string \<Rightarrow> string \<Rightarrow> string \<Rightarrow> string \<Rightarrow> int64 \<Rightarrow>
    string \<Rightarrow> (error + copyCheckpoint) option \<times> action list" where
  "copyFileWithCp_resume W srcBucketName srcObjectKey destBucketName destObjectKey partSize
      cpFilePath =
     (let loaded = copyCheckpoint_load W copyCheckpoint_zero cpFilePath;
          tr0 = (if fst loaded \<noteq> None then [Remove cpFilePath] else []);
          checked = copyCheckpoint_isValid W (snd loaded) srcBucketName srcObjectKey;
          tr1 = tr0 @ snd checked
      in if snd (fst checked) \<noteq> None \<or> \<not> fst (fst checked)
         then (case copyCheckpoint_prepare W (snd loaded) srcBucketName srcObjectKey
                      destBucketName destObjectKey partSize of
                 (None, acts) \<Rightarrow> (None, tr1 @ acts)
               | (Some (Inl err), acts) \<Rightarrow> (Some (Inl err), tr1 @ acts)
               | (Some (Inr cp), acts) \<Rightarrow> (Some (Inr cp), tr1 @ acts @ [Remove cpFilePath]))
         else (Some (Inr (snd loaded)), tr1))"

text \<open>Then the unfinished parts of the checkpoint \<open>ccp\<close> are scheduled, the results are
  awaited, and the copy is completed; \<open>tr2\<close> holds the actions of the first phase.\<close>

definition copyFileWithCp_run :: "world \<Rightarrow> string \<Rightarrow> string \<Rightarrow> string \<Rightarrow> int \<Rightarrow>
    copyCheckpoint \<Rightarrow> action list \<Rightarrow> msg list \<Rightarrow> outcome \<times> action list" where
  "copyFileWithCp_run W destBucketName destObjectKey cpFilePath routines ccp tr2 msgs =
     (case copyCheckpoint_todoParts ccp of
        None \<Rightarrow> (Panic, tr2)
      | Some parts \<Rightarrow>
          (let imur = \<lparr>imur_Bucket = destBucketName, imur_Key = destObjectKey,
                       imur_UploadID = ccp_CopyID ccp\<rparr>
           in case copyCheckpoint_getCompletedBytes ccp of
                None \<Rightarrow> (Panic, tr2)
              | Some cb0 \<Rightarrow>
                  (let s0 = \<lparr>completed = 0, store = ccp, completedBytes = cb0,
                             trace = tr2 @
                                     [Publish TransferStartedEvent cb0 (os_Size (ccp_ObjStat ccp))] @
                                     start_copy_workers routines imur parts\<rparr>
                   in case copyFileWithCp_wait W cpFilePath parts msgs s0 of
                        Failed err s \<Rightarrow> (Return (Some err), trace s)
                      | Panicked s \<Rightarrow> (Panic, trace s)
                      | Blocked s \<Rightarrow> (Hang, trace s)
                      | Finished s \<Rightarrow>
                          (let tr = trace s @
                                    [Publish TransferCompletedEvent (completedBytes s)
                                       (os_Size (ccp_ObjStat (store s)))];
                               completion = copyCheckpoint_complete W (store s)
                                              (ccp_CopyParts (store s)) cpFilePath
                           in (Return (fst completion), tr @ snd completion)))))"

definition copyFileWithCp :: "world \<Rightarrow> string \<Rightarrow> string \<Rightarrow> string \<Rightarrow> string \<Rightarrow> int64 \<Rightarrow> string \<Rightarrow> int \<Rightarrow>
    msg list \<Rightarrow> outcome \<times> action list" where
  "copyFileWithCp W srcBucketName srcObjectKey destBucketName destObjectKey partSize cpFilePath
      routines msgs =
     (case copyFileWithCp_resume W srcBucketName srcObjectKey destBucketName destObjectKey
             partSize cpFilePath of
        (None, tr2) \<Rightarrow> (Diverge, tr2)
      | (Some (Inl err), tr2) \<Rightarrow> (Return (Some err), tr2)
      | (Some (Inr ccp), tr2) \<Rightarrow>
          copyFileWithCp_run W destBucketName destObjectKey cpFilePath routines ccp tr2 msgs)"

text \<open>\<^verbatim>\<open>Bucket.CopyFile\<close>, on the bucket named \<open>bucketName\<close>, which is the destination;
  the result is as for \<^verbatim>\<open>UploadFile\<close>.\<close>

definition CopyFile :: "world \<Rightarrow> string \<Rightarrow> string \<Rightarrow> string \<Rightarrow> string \<Rightarrow> int64 \<Rightarrow> Options \<Rightarrow> msg list \<Rightarrow>
    (outcome \<times> action list) \<times> Options" where
  "CopyFile W bucketName srcBucketName srcObjectKey destObjectKey partSize options msgs =
     (let destBucketName = bucketName
      in if partSize <s MinPartSize \<or> MaxPartSize <s partSize
         then ((Return (Some (Error ''oss: part size invalid range (1024KB, 5GB]'')), []), options)
         else (case getCpConfig options (filepath_Base destObjectKey) of
                 ((cpConf, Some err), options') \<Rightarrow> ((Return (Some err), []), options')
               | ((cpConf, None), options') \<Rightarrow>
                   (let routines = getRoutines options'
                    in if cpc_IsEnable cpConf
                       then (copyFileWithCp W srcBucketName srcObjectKey destBucketName
                               destObjectKey partSize (cpc_FilePath cpConf) routines msgs, options')
                       else (copyFile W srcBucketName srcObjectKey destBucketName destObjectKey
                               partSize routines msgs, options'))))"

section \<open>Observations on a run and sample environments\<close>

text \<open>The number of worker goroutines a run has started.\<close>

definition workers_started :: "action list \<Rightarrow> nat" where
  "workers_started tr =
     length (filter (\<lambda>a. case a of GoWorker w imur \<Rightarrow> True
                               | GoCopyWorker w imur \<Rightarrow> True
                               | _ \<Rightarrow> False) tr)"

text \<open>
  A sample environment for the concrete runs below: no checkpoint file on disk, a local
  file and a source object of 204800 bytes (two parts of 100 KiB), a service that accepts
  every call. The marshalling shows the digest field and one digit per part status, the
  digest of a byte string is the string after a hash sign; both stand in for the library.
\<close>

definition sample_world :: world where
  "sample_world =
     \<lparr>w_ReadFile = (\<lambda>name. Inl (Error ''no such file'')),
      w_WriteFile = (\<lambda>name data perm. None),
      w_Stat = (\<lambda>name. Inr (204800, 7)),
      w_InitiateMultipartUpload =
        (\<lambda>bucketName objectKey.
           Inr \<lparr>imur_Bucket = bucketName, imur_Key = objectKey, imur_UploadID = ''U1''\<rparr>),
      w_CompleteMultipartUpload = (\<lambda>imur parts. None),
      w_GetObjectDetailedMeta =
        (\<lambda>bucketName objectKey.
           Inr \<lparr>meta_ContentLength = ''204800'', meta_LastModified = ''Mon'', meta_Etag = ''E''\<rparr>),
      w_MarshalUpload =
        (\<lambda>cp. Inr (ucp_MD5 cp @ '':'' @
                     map (\<lambda>p. if pt_IsCompleted p then CHR ''1'' else CHR ''0'') (ucp_Parts cp))),
      w_UnmarshalUpload = (\<lambda>contents cp. (Some (Error ''unexpected end of JSON input''), cp)),
      w_MarshalCopy =
        (\<lambda>cp. Inr (ccp_MD5 cp @ '':'' @
                     map (\<lambda>b. if b then CHR ''1'' else CHR ''0'') (ccp_PartStat cp))),
      w_UnmarshalCopy = (\<lambda>contents cp. (Some (Error ''unexpected end of JSON input''), cp)),
      w_md5_base64 = (\<lambda>js. ''#'' @ js),
      w_ParseInt = (\<lambda>s. if s = ''204800'' then Inr 204800 else Inl (Error ''invalid syntax'')),
      w_SplitFileByPartSize =
        (\<lambda>name partSize.
           Inr [\<lparr>fc_Number = 1, fc_Offset = 0, fc_Size = 102400\<rparr>,
                \<lparr>fc_Number = 2, fc_Offset = 102400, fc_Size = 102400\<rparr>]),
      w_GetPartEnd =
        (\<lambda>begin total per. if total <s begin + per then total - 1 else begin + per - 1),
      w_FilePermMode = 420,
      w_downloadCpMagic = ''92611BED-89E2-46B6-89E5-72F273D4B0A3''\<rparr>"

text \<open>The same host with no local file and no route to the service.\<close>

definition offline_world :: world where
  "offline_world =
     sample_world
       \<lparr>w_Stat := (\<lambda>name. Inl (Error ''no such file'')),
        w_InitiateMultipartUpload := (\<lambda>bucketName objectKey. Inl (Error ''no route to host'')),
        w_GetObjectDetailedMeta := (\<lambda>bucketName objectKey. Inl (Error ''no route to host'')),
        w_SplitFileByPartSize := (\<lambda>name partSize. Inl (Error ''no such file''))\<rparr>"

text \<open>Option lists: \<^verbatim>\<open>Checkpoint(true, "")\<close> alone, \<^verbatim>\<open>Routines(250)\<close> alone, and none.\<close>

definition checkpoint_default :: Options where
  "checkpoint_default =
     \<lparr>find_routineNum = Inr None,
      find_checkpointConfig = Inr (Some \<lparr>cpc_IsEnable = True, cpc_FilePath = ''''\<rparr>)\<rparr>"

definition routines_250 :: Options where
  "routines_250 = \<lparr>find_routineNum = Inr (Some 250), find_checkpointConfig = Inr None\<rparr>"

definition no_options :: Options where
  "no_options = \<lparr>find_routineNum = Inr None, find_checkpointConfig = Inr None\<rparr>"

definition sample_imur :: InitiateMultipartUploadResult where
  "sample_imur = \<lparr>imur_Bucket = ''b'', imur_Key = ''k'', imur_UploadID = ''U1''\<rparr>"

text \<open>The state a waiting loop ended in, and the two kinds of action a loop makes for a
  part it has received: the write of the checkpoint file and the data event.\<close>

fun wait_state :: "'c wait \<Rightarrow> 'c wstate" where
  "wait_state (Finished s) = s"
| "wait_state (Failed err s) = s"
| "wait_state (Panicked s) = s"
| "wait_state (Blocked s) = s"

fun progress_action :: "action \<Rightarrow> bool" where
  "progress_action (Publish t consumed totalBytes) = (t = TransferDataEvent)"
| "progress_action (WriteFile name data perm) = True"
| "progress_action a = False"

fun is_abort :: "action \<Rightarrow> bool" where
  "is_abort (AbortMultipartUpload imur) = True"
| "is_abort a = False"

text \<open>The parts the service acknowledges in the sample runs, and the hook's error of the
  package's tests.\<close>

definition part1 :: UploadPart where
  "part1 = \<lparr>up_PartNumber = 1, up_ETag = ''e1''\<rparr>"

definition part2 :: UploadPart where
  "part2 = \<lparr>up_PartNumber = 2, up_ETag = ''e2''\<rparr>"

definition ErrorHooker :: error where
  "ErrorHooker = Error ''ErrorHooker''"

definition sample_chunks :: "FileChunk list" where
  "sample_chunks =
     [\<lparr>fc_Number = 1, fc_Offset = 0, fc_Size = 102400\<rparr>,
      \<lparr>fc_Number = 2, fc_Offset = 102400, fc_Size = 102400\<rparr>]"

definition sample_copy_parts :: "copyPart list" where
  "sample_copy_parts =
     [\<lparr>cpt_Number = 1, cpt_Start = 0, cpt_End = 102399\<rparr>,
      \<lparr>cpt_Number = 2, cpt_Start = 102400, cpt_End = 204799\<rparr>]"

text \<open>
  The life cycle of a run, read off its actions: the events other than data events, the
  start of the scheduler, the cancellation of the workers, and the calls that complete or
  abort the multipart upload, in the order of the run.
\<close>

datatype mark = Event ProgressEventType | Scheduled | Cancelled | CompleteCalled | AbortCalled

fun marks :: "action list \<Rightarrow> mark list" where
  "marks [] = []"
| "marks (Publish t consumed totalBytes # tr) =
     (if t = TransferDataEvent then marks tr else Event t # marks tr)"
| "marks (GoScheduler chunks # tr) = Scheduled # marks tr"
| "marks (GoCopyScheduler parts # tr) = Scheduled # marks tr"
| "marks (CloseDie # tr) = Cancelled # marks tr"
| "marks (CompleteMultipartUpload imur parts # tr) = CompleteCalled # marks tr"
| "marks (AbortMultipartUpload imur # tr) = AbortCalled # marks tr"
| "marks (a # tr) = marks tr"

text \<open>The sample service with a \<^verbatim>\<open>CompleteMultipartUpload\<close> that fails, and the sample host
  with a checkpoint file that cannot be written.\<close>

definition failing_complete_world :: world where
  "failing_complete_world =
     sample_world\<lparr>w_CompleteMultipartUpload := (\<lambda>imur parts. Some (Error ''InternalError''))\<rparr>"

definition failing_write_world :: world where
  "failing_write_world =
     sample_world\<lparr>w_WriteFile := (\<lambda>name data perm. Some (Error ''no space left on device''))\<rparr>"

text \<open>The checkpoints that the sample runs prepare, and those checkpoints with part 1
  entered.\<close>

definition sample_ucp :: uploadCheckpoint where
  "sample_ucp =
     \<lparr>ucp_Magic = uploadCpMagic, ucp_MD5 = '''', ucp_FilePath = ''f'',
      ucp_FileStat = \<lparr>st_Size = 204800, st_LastModified = 7, st_MD5 = ''''\<rparr>,
      ucp_ObjectKey = ''k'', ucp_UploadID = ''U1'',
      ucp_Parts = map (\<lambda>part. \<lparr>pt_Chunk = part, pt_Part = UploadPart_zero,
                                  pt_IsCompleted = False\<rparr>) sample_chunks\<rparr>"

definition sample_ccp :: copyCheckpoint where
  "sample_ccp =
     \<lparr>ccp_Magic = copyCpMagic, ccp_MD5 = '''', ccp_SrcBucketName = ''sb'',
      ccp_SrcObjectKey = ''sk'', ccp_DestBucketName = ''b'', ccp_DestObjectKey = ''k'',
      ccp_CopyID = ''U1'',
      ccp_ObjStat = \<lparr>os_Size = 204800, os_LastModified = ''Mon'', os_Etag = ''E''\<rparr>,
      ccp_Parts = sample_copy_parts,
      ccp_CopyParts = [UploadPart_zero, UploadPart_zero],
      ccp_PartStat = [False, False]\<rparr>"

definition sample_ucp1 :: uploadCheckpoint where
  "sample_ucp1 =
     sample_ucp\<lparr>ucp_Parts :=
       [\<lparr>pt_Chunk = \<lparr>fc_Number = 1, fc_Offset = 0, fc_Size = 102400\<rparr>, pt_Part = part1,
         pt_IsCompleted = True\<rparr>,
        \<lparr>pt_Chunk = \<lparr>fc_Number = 2, fc_Offset = 102400, fc_Size = 102400\<rparr>,
         pt_Part = UploadPart_zero, pt_IsCompleted = False\<rparr>]\<rparr>"

definition sample_ccp1 :: copyCheckpoint where
  "sample_ccp1 =
     sample_ccp\<lparr>ccp_CopyParts := [part1, UploadPart_zero], ccp_PartStat := [True, False]\<rparr>"




text \<open>
  The save protocol in the specification's words: the record is written to a temporary
  file beside the target, the file is flushed, and it is renamed over the target.
\<close>

definition spec_atomic_save :: "string \<Rightarrow> action list \<Rightarrow> bool" where
  "spec_atomic_save filePath acts =
     (\<exists>tmp data perm. tmp \<noteq> filePath \<and>
        acts = [WriteFile tmp data perm, Sync tmp, Rename tmp filePath])"

text \<open>A copy of four parts that was interrupted when only part 3 had been copied.\<close>

definition four_parts :: "copyPart list" where
  "four_parts =
     [\<lparr>cpt_Number = 1, cpt_Start = 0, cpt_End = 102399\<rparr>,
      \<lparr>cpt_Number = 2, cpt_Start = 102400, cpt_End = 204799\<rparr>,
      \<lparr>cpt_Number = 3, cpt_Start = 204800, cpt_End = 307199\<rparr>,
      \<lparr>cpt_Number = 4, cpt_Start = 307200, cpt_End = 350000\<rparr>]"

definition third_done :: copyCheckpoint where
  "third_done =
     sample_ccp\<lparr>ccp_ObjStat := \<lparr>os_Size = 350001, os_LastModified = ''Mon'', os_Etag = ''E''\<rparr>,
                ccp_Parts := four_parts,
                ccp_CopyParts := [UploadPart_zero, UploadPart_zero,
                                  \<lparr>up_PartNumber = 3, up_ETag = ''e3''\<rparr>, UploadPart_zero],
                ccp_PartStat := [False, False, True, False]\<rparr>"

definition third_done_todo :: "copyPart list" where
  "third_done_todo =
     [\<lparr>cpt_Number = 1, cpt_Start = 0, cpt_End = 102399\<rparr>,
      \<lparr>cpt_Number = 2, cpt_Start = 102400, cpt_End = 204799\<rparr>,
      \<lparr>cpt_Number = 4, cpt_Start = 307200, cpt_End = 350000\<rparr>]"

definition third_done_state :: "copyCheckpoint wstate" where
  "third_done_state = \<lparr>completed = 0, store = third_done, completedBytes = 102400, trace = []\<rparr>"

definition part4 :: UploadPart where
  "part4 = \<lparr>up_PartNumber = 4, up_ETag = ''e4''\<rparr>"

section \<open>Entry points\<close>

lemma sint_MinPartSize: "sint MinPartSize = 102400"
  by (simp add: MinPartSize_def)

lemma sint_MaxPartSize: "sint MaxPartSize = 5368709120"
  by (simp add: MaxPartSize_def)

text \<open>
  C8. A part size below \<^verbatim>\<open>MinPartSize\<close> or above \<^verbatim>\<open>MaxPartSize\<close> makes \<^verbatim>\<open>UploadFile\<close> and
  \<^verbatim>\<open>CopyFile\<close> return the invalid-range error at once: the run has no action at all, so
  no service call (initiate, part upload, head) is issued, and the options are left as they
  were.
\<close>

theorem invalid_part_size_rejected:
  assumes "sint partSize < 102400 \<or> 5368709120 < sint partSize"
  shows "UploadFile W bucketName objectKey filePath partSize options msgs =
           ((Return (Some (Error ''oss: part size invalid range (1024KB, 5GB]'')), []), options) \<and>
         CopyFile W bucketName srcBucketName srcObjectKey destObjectKey partSize options msgs =
           ((Return (Some (Error ''oss: part size invalid range (1024KB, 5GB]'')), []), options)"
  using assms
  by (simp add: UploadFile_def CopyFile_def word_sless_alt sint_MinPartSize sint_MaxPartSize)

theorem invalid_part_size_rejected_witness:
  "UploadFile sample_world ''b'' ''k'' ''f'' 1024 no_options [] =
     ((Return (Some (Error ''oss: part size invalid range (1024KB, 5GB]'')), []), no_options) \<and>
   CopyFile sample_world ''b'' ''sb'' ''sk'' ''dk'' 107374182400 checkpoint_default [] =
     ((Return (Some (Error ''oss: part size invalid range (1024KB, 5GB]'')), []),
      checkpoint_default)"
proof -
  have small: "sint (1024 :: int64) < 102400 \<or> 5368709120 < sint (1024 :: int64)"
    by simp
  have large: "sint (107374182400 :: int64) < 102400 \<or> 5368709120 < sint (107374182400 :: int64)"
    by simp
  show ?thesis
    using invalid_part_size_rejected [OF small] invalid_part_size_rejected [OF large]
    by blast
qed





section \<open>The waiting loops\<close>

lemma uploadFile_wait_append:
  "uploadFile_wait chunks totalBytes imur rs s = Blocked s1 \<Longrightarrow>
   completed s1 < length chunks \<and>
   uploadFile_wait chunks totalBytes imur (rs @ ms) s = uploadFile_wait chunks totalBytes imur ms s1"
proof (induction rs arbitrary: s)
  case Nil
  then show ?case by (cases ms) (auto split: if_splits)
next
  case (Cons m rs)
  then show ?case
    by (cases m) (auto simp: Let_def split: if_splits)
qed

lemma uploadFile_wait_trace:
  "\<exists>ds. list_all progress_action ds \<and>
     trace (wait_state (uploadFile_wait chunks totalBytes imur msgs s)) =
       trace s @ ds @
       (case uploadFile_wait chunks totalBytes imur msgs s of
          Failed err s' \<Rightarrow> [CloseDie, Publish TransferFailedEvent (completedBytes s') totalBytes,
                            AbortMultipartUpload imur]
        | _ \<Rightarrow> [])"
proof (induction msgs arbitrary: s)
  case Nil
  show ?case by (rule exI [of _ "[]"]) simp
next
  case (Cons m msgs)
  show ?case
  proof (cases "completed s < length chunks")
    case False
    then show ?thesis by (intro exI [of _ "[]"]) simp
  next
    case waiting: True
    show ?thesis
    proof (cases m)
      case (Failure err)
      with waiting show ?thesis by (intro exI [of _ "[]"]) simp
    next
      case (Result part)
      let ?i = "up_PartNumber part - 1"
      show ?thesis
      proof (cases "0 \<le> ?i \<and> ?i < int (length (store s)) \<and> ?i < int (length chunks)")
        case False
        with waiting Result show ?thesis by (intro exI [of _ "[]"]) (auto simp: Let_def)
      next
        case True
        let ?cb = "completedBytes s + fc_Size (chunks ! nat ?i)"
        let ?s = "s\<lparr>completed := completed s + 1, store := (store s)[nat ?i := part],
                    completedBytes := ?cb,
                    trace := trace s @ [Publish TransferDataEvent ?cb totalBytes]\<rparr>"
        from Cons.IH [of ?s] obtain ds where
          "list_all progress_action ds"
          "trace (wait_state (uploadFile_wait chunks totalBytes imur msgs ?s)) =
             trace ?s @ ds @
             (case uploadFile_wait chunks totalBytes imur msgs ?s of
                Failed err s' \<Rightarrow> [CloseDie, Publish TransferFailedEvent (completedBytes s') totalBytes,
                                  AbortMultipartUpload imur]
              | _ \<Rightarrow> [])"
          by blast
        with waiting Result True show ?thesis
          by (intro exI [of _ "Publish TransferDataEvent ?cb totalBytes # ds"]) (simp add: Let_def)
      qed
    qed
  qed
qed


lemma copyFile_wait_append:
  "copyFile_wait parts totalBytes imur rs s = Blocked s1 \<Longrightarrow>
   completed s1 < length parts \<and>
   copyFile_wait parts totalBytes imur (rs @ ms) s = copyFile_wait parts totalBytes imur ms s1"
proof (induction rs arbitrary: s)
  case Nil
  then show ?case by (cases ms) (auto split: if_splits)
next
  case (Cons m rs)
  then show ?case
    by (cases m) (auto simp: Let_def split: if_splits)
qed

lemma copyFile_wait_trace:
  "\<exists>ds. list_all progress_action ds \<and>
     trace (wait_state (copyFile_wait parts totalBytes imur msgs s)) =
       trace s @ ds @
       (case copyFile_wait parts totalBytes imur msgs s of
          Failed err s' \<Rightarrow> [CloseDie, AbortMultipartUpload imur,
                            Publish TransferFailedEvent (completedBytes s') totalBytes]
        | _ \<Rightarrow> [])"
proof (induction msgs arbitrary: s)
  case Nil
  show ?case by (rule exI [of _ "[]"]) simp
next
  case (Cons m msgs)
  show ?case
  proof (cases "completed s < length parts")
    case False
    then show ?thesis by (intro exI [of _ "[]"]) simp
  next
    case waiting: True
    show ?thesis
    proof (cases m)
      case (Failure err)
      with waiting show ?thesis by (intro exI [of _ "[]"]) simp
    next
      case (Result part)
      let ?i = "up_PartNumber part - 1"
      show ?thesis
      proof (cases "0 \<le> ?i \<and> ?i < int (length (store s)) \<and> ?i < int (length parts)")
        case False
        with waiting Result show ?thesis by (intro exI [of _ "[]"]) (auto simp: Let_def)
      next
        case True
        let ?cb = "completedBytes s + (cpt_End (parts ! nat ?i) - cpt_Start (parts ! nat ?i) + 1)"
        let ?s = "s\<lparr>completed := completed s + 1, store := (store s)[nat ?i := part],
                    completedBytes := ?cb,
                    trace := trace s @ [Publish TransferDataEvent ?cb totalBytes]\<rparr>"
        from Cons.IH [of ?s] obtain ds where
          "list_all progress_action ds"
          "trace (wait_state (copyFile_wait parts totalBytes imur msgs ?s)) =
             trace ?s @ ds @
             (case copyFile_wait parts totalBytes imur msgs ?s of
                Failed err s' \<Rightarrow> [CloseDie, AbortMultipartUpload imur,
                                  Publish TransferFailedEvent (completedBytes s') totalBytes]
              | _ \<Rightarrow> [])"
          by blast
        with waiting Result True show ?thesis
          by (intro exI [of _ "Publish TransferDataEvent ?cb totalBytes # ds"]) (simp add: Let_def)
      qed
    qed
  qed
qed

lemma uploadCheckpoint_dump_actions:
  "snd (uploadCheckpoint_dump W cp filePath) = [] \<or>
   (\<exists>js. snd (uploadCheckpoint_dump W cp filePath) = [WriteFile filePath js (w_FilePermMode W)])"
  by (simp add: uploadCheckpoint_dump_def split: sum.splits)

lemma copyCheckpoint_dump_actions:
  "snd (copyCheckpoint_dump W cp filePath) = [] \<or>
   (\<exists>js. snd (copyCheckpoint_dump W cp filePath) = [WriteFile filePath js (w_FilePermMode W)])"
  by (simp add: copyCheckpoint_dump_def split: sum.splits)

lemma uploadCheckpoint_dump_progress:
  "list_all progress_action (snd (uploadCheckpoint_dump W cp filePath))"
  using uploadCheckpoint_dump_actions [of W cp filePath] by auto

lemma copyCheckpoint_dump_progress:
  "list_all progress_action (snd (copyCheckpoint_dump W cp filePath))"
  using copyCheckpoint_dump_actions [of W cp filePath] by auto

lemma uploadFileWithCp_wait_append:
  "uploadFileWithCp_wait W cpFilePath chunks rs s = Blocked s1 \<Longrightarrow>
   completed s1 < length chunks \<and>
   uploadFileWithCp_wait W cpFilePath chunks (rs @ ms) s =
     uploadFileWithCp_wait W cpFilePath chunks ms s1"
proof (induction rs arbitrary: s)
  case Nil
  then show ?case by (cases ms) (auto split: if_splits)
next
  case (Cons m rs)
  then show ?case
    by (cases m) (auto simp: Let_def split: if_splits option.splits)
qed

lemma uploadFileWithCp_wait_trace:
  "\<exists>ds. list_all progress_action ds \<and>
     trace (wait_state (uploadFileWithCp_wait W cpFilePath chunks msgs s)) =
       trace s @ ds @
       (case uploadFileWithCp_wait W cpFilePath chunks msgs s of
          Failed err s' \<Rightarrow>
            [CloseDie,
             Publish TransferFailedEvent (completedBytes s') (st_Size (ucp_FileStat (store s')))]
        | _ \<Rightarrow> [])"
proof (induction msgs arbitrary: s)
  case Nil
  show ?case by (rule exI [of _ "[]"]) simp
next
  case (Cons m msgs)
  show ?case
  proof (cases "completed s < length chunks")
    case False
    then show ?thesis by (intro exI [of _ "[]"]) simp
  next
    case waiting: True
    show ?thesis
    proof (cases m)
      case (Failure err)
      with waiting show ?thesis by (intro exI [of _ "[]"]) simp
    next
      case (Result part)
      show ?thesis
      proof (cases "updatePart (store s) part")
        case None
        with waiting Result show ?thesis by (intro exI [of _ "[]"]) simp
      next
        case (Some ucp)
        let ?w = "snd (uploadCheckpoint_dump W ucp cpFilePath)"
        let ?cb = "completedBytes s +
                   fc_Size (pt_Chunk (ucp_Parts ucp ! nat (up_PartNumber part - 1)))"
        let ?ev = "Publish TransferDataEvent ?cb (st_Size (ucp_FileStat ucp))"
        let ?s = "s\<lparr>completed := completed s + 1, store := ucp, completedBytes := ?cb,
                    trace := trace s @ ?w @ [?ev]\<rparr>"
        from Cons.IH [of ?s] obtain ds where
          "list_all progress_action ds"
          "trace (wait_state (uploadFileWithCp_wait W cpFilePath chunks msgs ?s)) =
             trace ?s @ ds @
             (case uploadFileWithCp_wait W cpFilePath chunks msgs ?s of
                Failed err s' \<Rightarrow>
                  [CloseDie,
                   Publish TransferFailedEvent (completedBytes s') (st_Size (ucp_FileStat (store s')))]
              | _ \<Rightarrow> [])"
          by blast
        with waiting Result Some uploadCheckpoint_dump_progress [of W ucp cpFilePath]
        show ?thesis
          by (intro exI [of _ "?w @ ?ev # ds"]) (simp add: Let_def)
      qed
    qed
  qed
qed

lemma copyFileWithCp_wait_append:
  "copyFileWithCp_wait W cpFilePath parts rs s = Blocked s1 \<Longrightarrow>
   completed s1 < length parts \<and>
   copyFileWithCp_wait W cpFilePath parts (rs @ ms) s =
     copyFileWithCp_wait W cpFilePath parts ms s1"
proof (induction rs arbitrary: s)
  case Nil
  then show ?case by (cases ms) (auto split: if_splits)
next
  case (Cons m rs)
  then show ?case
    by (cases m) (auto simp: Let_def split: if_splits option.splits)
qed

lemma copyFileWithCp_wait_trace:
  "\<exists>ds. list_all progress_action ds \<and>
     trace (wait_state (copyFileWithCp_wait W cpFilePath parts msgs s)) =
       trace s @ ds @
       (case copyFileWithCp_wait W cpFilePath parts msgs s of
          Failed err s' \<Rightarrow>
            [CloseDie,
             Publish TransferFailedEvent (completedBytes s') (os_Size (ccp_ObjStat (store s')))]
        | _ \<Rightarrow> [])"
proof (induction msgs arbitrary: s)
  case Nil
  show ?case by (rule exI [of _ "[]"]) simp
next
  case (Cons m msgs)
  show ?case
  proof (cases "completed s < length parts")
    case False
    then show ?thesis by (intro exI [of _ "[]"]) simp
  next
    case waiting: True
    show ?thesis
    proof (cases m)
      case (Failure err)
      with waiting show ?thesis by (intro exI [of _ "[]"]) simp
    next
      case (Result part)
      show ?thesis
      proof (cases "copyCheckpoint_update (store s) part")
        case None
        with waiting Result show ?thesis by (intro exI [of _ "[]"]) simp
      next
        case (Some ccp)
        let ?w = "snd (copyCheckpoint_dump W ccp cpFilePath)"
        let ?i = "up_PartNumber part - 1"
        show ?thesis
        proof (cases "0 \<le> ?i \<and> ?i < int (length parts)")
          case False
          with waiting Result Some copyCheckpoint_dump_progress [of W ccp cpFilePath]
          show ?thesis
            by (intro exI [of _ "?w"]) (auto simp: Let_def)
        next
          case True
          let ?cb = "completedBytes s +
                     (cpt_End (parts ! nat ?i) - cpt_Start (parts ! nat ?i) + 1)"
          let ?ev = "Publish TransferDataEvent ?cb (os_Size (ccp_ObjStat ccp))"
          let ?s = "s\<lparr>completed := completed s + 1, store := ccp, completedBytes := ?cb,
                      trace := trace s @ ?w @ [?ev]\<rparr>"
          from Cons.IH [of ?s] obtain ds where
            "list_all progress_action ds"
            "trace (wait_state (copyFileWithCp_wait W cpFilePath parts msgs ?s)) =
               trace ?s @ ds @
               (case copyFileWithCp_wait W cpFilePath parts msgs ?s of
                  Failed err s' \<Rightarrow>
                    [CloseDie,
                     Publish TransferFailedEvent (completedBytes s') (os_Size (ccp_ObjStat (store s')))]
                | _ \<Rightarrow> [])"
            by blast
          with waiting Result Some True copyCheckpoint_dump_progress [of W ccp cpFilePath]
          show ?thesis
            by (intro exI [of _ "?w @ ?ev # ds"]) (simp add: Let_def)
        qed
      qed
    qed
  qed
qed

section \<open>Byte counts\<close>

lemma todoParts_foldl:
  "foldl (\<lambda>fcs part. if \<not> pt_IsCompleted part then fcs @ [pt_Chunk part] else fcs) acc ps =
   acc @ map pt_Chunk (filter (\<lambda>p. \<not> pt_IsCompleted p) ps)"
  by (induction ps arbitrary: acc) simp_all

lemma uploadCheckpoint_todoParts_filter:
  "uploadCheckpoint_todoParts cp = map pt_Chunk (filter (\<lambda>p. \<not> pt_IsCompleted p) (ucp_Parts cp))"
  by (simp add: uploadCheckpoint_todoParts_def todoParts_foldl)

lemma getCompletedBytes_foldl:
  "foldl (\<lambda>cb part. if pt_IsCompleted part then cb + fc_Size (pt_Chunk part) else cb) acc ps =
   acc + sum_list (map (\<lambda>p. fc_Size (pt_Chunk p)) (filter pt_IsCompleted ps))"
  by (induction ps arbitrary: acc) (simp_all add: add.assoc)

lemma uploadCheckpoint_getCompletedBytes_sum:
  "uploadCheckpoint_getCompletedBytes cp =
   sum_list (map (\<lambda>p. fc_Size (pt_Chunk p)) (filter pt_IsCompleted (ucp_Parts cp)))"
  by (simp add: uploadCheckpoint_getCompletedBytes_def getCompletedBytes_foldl)

lemma sum_list_nth_if:
  fixes h :: "'b \<Rightarrow> 'a::comm_monoid_add"
  shows "sum_list (map h (filter Q xs)) = (\<Sum>i = 0..<length xs. if Q (xs ! i) then h (xs ! i) else 0)"
proof -
  have "sum_list (map h (filter Q xs)) = sum_list (map (\<lambda>x. if Q x then h x else 0) xs)"
    by (rule sum_list_map_filter')
  also have "\<dots> = (\<Sum>i = 0..<length (map (\<lambda>x. if Q x then h x else 0) xs).
                      map (\<lambda>x. if Q x then h x else 0) xs ! i)"
    by (rule sum_list_sum_nth)
  also have "\<dots> = (\<Sum>i = 0..<length xs. if Q (xs ! i) then h (xs ! i) else 0)"
    by (rule sum.cong) simp_all
  finally show ?thesis .
qed

lemma sum_list_nth:
  fixes h :: "'b \<Rightarrow> 'a::comm_monoid_add"
  shows "sum_list (map h xs) = (\<Sum>i = 0..<length xs. h (xs ! i))"
proof -
  have "sum_list (map h xs) = (\<Sum>i = 0..<length (map h xs). map h xs ! i)"
    by (rule sum_list_sum_nth)
  also have "\<dots> = (\<Sum>i = 0..<length xs. h (xs ! i))"
    by (rule sum.cong) simp_all
  finally show ?thesis .
qed

lemma sum_list_reported:
  fixes g :: "nat \<Rightarrow> 'a::comm_monoid_add"
  assumes "distinct ks" and "set ks = {k. 1 \<le> k \<and> k \<le> int n \<and> P (nat (k - 1))}"
  shows "sum_list (map (\<lambda>k. g (nat (k - 1))) ks) = (\<Sum>i = 0..<n. if P i then g i else 0)"
proof -
  have "sum_list (map (\<lambda>k. g (nat (k - 1))) ks) = (\<Sum>k\<in>set ks. g (nat (k - 1)))"
    using assms(1) by (rule sum_list_distinct_conv_sum_set)
  also have "set ks = {k \<in> {1..int n}. P (nat (k - 1))}"
    using assms(2) by auto
  also have "(\<Sum>k\<in>{k \<in> {1..int n}. P (nat (k - 1))}. g (nat (k - 1))) =
      (\<Sum>k\<in>{1..int n}. if P (nat (k - 1)) then g (nat (k - 1)) else 0)"
    by (rule sum.inter_filter) simp
  also have "\<dots> = (\<Sum>i = 0..<n. if P i then g i else 0)"
    by (rule sum.reindex_bij_witness [where i = "\<lambda>i. int i + 1" and j = "\<lambda>k. nat (k - 1)"]) auto
  finally show ?thesis .
qed

lemma length_reported:
  assumes "distinct ks" and "set ks = {k. 1 \<le> k \<and> k \<le> int n \<and> P (nat (k - 1))}"
  shows "length ks = card {i. i < n \<and> P i}"
proof -
  have "length ks = card (set ks)"
    using assms(1) by (simp add: distinct_card)
  also have "set ks = (\<lambda>i. int i + 1) ` {i. i < n \<and> P i}"
  proof
    show "set ks \<subseteq> (\<lambda>i. int i + 1) ` {i. i < n \<and> P i}"
    proof
      fix k assume "k \<in> set ks"
      with assms(2) have k: "1 \<le> k" "k \<le> int n" "P (nat (k - 1))" by auto
      then have "k = int (nat (k - 1)) + 1" "nat (k - 1) < n" by auto
      with k(3) show "k \<in> (\<lambda>i. int i + 1) ` {i. i < n \<and> P i}" by blast
    qed
    show "(\<lambda>i. int i + 1) ` {i. i < n \<and> P i} \<subseteq> set ks"
    proof
      fix k assume "k \<in> (\<lambda>i. int i + 1) ` {i. i < n \<and> P i}"
      then obtain i where "k = int i + 1" "i < n" "P i" by blast
      then have "1 \<le> k \<and> k \<le> int n \<and> P (nat (k - 1))" by simp
      with assms(2) show "k \<in> set ks" by simp
    qed
  qed
  also have "card ((\<lambda>i. int i + 1) ` {i. i < n \<and> P i}) = card {i. i < n \<and> P i}"
    by (rule card_image) (simp add: inj_on_def)
  finally show ?thesis .
qed

lemma getTotalBytes_foldl:
  "foldl (\<lambda>tb chunk. tb + fc_Size chunk) acc chunks = acc + sum_list (map fc_Size chunks)"
  by (induction chunks arbitrary: acc) (simp_all add: add.assoc)

lemma getTotalBytes_sum: "getTotalBytes chunks = (\<Sum>i = 0..<length chunks. fc_Size (chunks ! i))"
  by (simp add: getTotalBytes_def getTotalBytes_foldl sum_list_nth)

lemma getSrcObjectBytes_foldl:
  "foldl (\<lambda>ob part. ob + (cpt_End part - cpt_Start part + 1)) acc parts =
   acc + sum_list (map (\<lambda>part. cpt_End part - cpt_Start part + 1) parts)"
  by (induction parts arbitrary: acc) (simp_all add: add.assoc)

lemma getSrcObjectBytes_sum:
  "getSrcObjectBytes parts =
   (\<Sum>i = 0..<length parts. cpt_End (parts ! i) - cpt_Start (parts ! i) + 1)"
  by (simp add: getSrcObjectBytes_def getSrcObjectBytes_foldl sum_list_nth)

subsection \<open>Sample runs that wait for their second part\<close>

lemma sample_world_fields:
  "w_ReadFile sample_world name = Inl (Error ''no such file'')"
  "w_WriteFile sample_world name data perm = None"
  "w_Stat sample_world name = Inr (204800, 7)"
  "w_InitiateMultipartUpload sample_world bucketName objectKey =
     Inr \<lparr>imur_Bucket = bucketName, imur_Key = objectKey, imur_UploadID = ''U1''\<rparr>"
  "w_CompleteMultipartUpload sample_world imur parts = None"
  "w_GetObjectDetailedMeta sample_world bucketName objectKey =
     Inr \<lparr>meta_ContentLength = ''204800'', meta_LastModified = ''Mon'', meta_Etag = ''E''\<rparr>"
  "w_MarshalUpload sample_world ucp =
     Inr (ucp_MD5 ucp @ '':'' @
          map (\<lambda>p. if pt_IsCompleted p then CHR ''1'' else CHR ''0'') (ucp_Parts ucp))"
  "w_UnmarshalUpload sample_world contents ucp = (Some (Error ''unexpected end of JSON input''), ucp)"
  "w_MarshalCopy sample_world ccp =
     Inr (ccp_MD5 ccp @ '':'' @ map (\<lambda>b. if b then CHR ''1'' else CHR ''0'') (ccp_PartStat ccp))"
  "w_UnmarshalCopy sample_world contents ccp = (Some (Error ''unexpected end of JSON input''), ccp)"
  "w_md5_base64 sample_world js = ''#'' @ js"
  "w_ParseInt sample_world ''204800'' = Inr 204800"
  "w_SplitFileByPartSize sample_world name partSize = Inr sample_chunks"
  "w_GetPartEnd sample_world begin tb per =
     (if tb <s begin + per then tb - 1 else begin + per - 1)"
  "w_FilePermMode sample_world = 420"
  "w_downloadCpMagic sample_world = ''92611BED-89E2-46B6-89E5-72F273D4B0A3''"
  by (simp_all add: sample_world_def sample_chunks_def)

lemma sample_getCopyParts:
  "getCopyParts sample_world ''sb'' ''sk'' 102400 =
     (Some (Inr sample_copy_parts), [GetObjectDetailedMeta ''sb'' ''sk''])"
  by (simp add: getCopyParts_def sample_world_fields getCopyParts_loop.simps word_sless_alt
        sample_copy_parts_def)

lemma sample_uploadFile_waiting:
  "uploadFile sample_world ''b'' ''k'' ''f'' 102400 1 [Result part1] =
     (Hang,
      [InitiateMultipartUpload ''b'' ''k'', Publish TransferStartedEvent 0 204800,
       GoWorker 1 sample_imur, GoScheduler sample_chunks,
       Publish TransferDataEvent 102400 204800])"
  by (simp add: uploadFile_def sample_world_fields part1_def sample_imur_def sample_chunks_def
        getTotalBytes_def start_workers_def Let_def UploadPart_zero_def)

lemma sample_copyFile_waiting:
  "copyFile sample_world ''sb'' ''sk'' ''b'' ''k'' 102400 1 [Result part1] =
     (Hang,
      [GetObjectDetailedMeta ''sb'' ''sk'', InitiateMultipartUpload ''b'' ''k'',
       Publish TransferStartedEvent 0 204800,
       GoCopyWorker 1 sample_imur, GoCopyScheduler sample_copy_parts,
       Publish TransferDataEvent 102400 204800])"
  by (simp add: copyFile_def sample_getCopyParts)
     (simp add: sample_world_fields part1_def sample_imur_def sample_copy_parts_def
        getSrcObjectBytes_def start_copy_workers_def Let_def UploadPart_zero_def)

lemma sample_uploadFileWithCp_resume:
  "uploadFileWithCp_resume sample_world ''b'' ''k'' ''f'' 102400 ''f.cp'' =
     (Inr sample_ucp, [Remove ''f.cp'', InitiateMultipartUpload ''b'' ''k'', Remove ''f.cp''])"
  by (simp add: uploadFileWithCp_resume_def uploadCheckpoint_load_def uploadCheckpoint_isValid_def
        prepare_def calcFileMD5_def sample_world_fields uploadCheckpoint_zero_def uploadCpMagic_def
        sample_chunks_def sample_ucp_def Let_def)

lemma sample_uploadFileWithCp_waiting:
  "uploadFileWithCp sample_world ''b'' ''k'' ''f'' 102400 ''f.cp'' 1 [Result part1] =
     (Hang,
      [Remove ''f.cp'', InitiateMultipartUpload ''b'' ''k'', Remove ''f.cp'',
       Publish TransferStartedEvent 0 204800,
       GoWorker 1 sample_imur, GoScheduler sample_chunks,
       WriteFile ''f.cp'' ''#:10:10'' 420,
       Publish TransferDataEvent 102400 204800])"
  by (simp add: uploadFileWithCp_def sample_uploadFileWithCp_resume)
     (simp add: uploadFileWithCp_run_def uploadCheckpoint_todoParts_def
        uploadCheckpoint_getCompletedBytes_def updatePart_def uploadCheckpoint_dump_def
        uploadCheckpoint_seal_def sample_world_fields part1_def sample_imur_def sample_chunks_def
        sample_ucp_def start_workers_def Let_def)

lemma sample_copyFileWithCp_resume:
  "copyFileWithCp_resume sample_world ''sb'' ''sk'' ''b'' ''k'' 102400 ''k.cp'' =
     (Some (Inr sample_ccp),
      [Remove ''k.cp'', GetObjectDetailedMeta ''sb'' ''sk'', GetObjectDetailedMeta ''sb'' ''sk'',
       InitiateMultipartUpload ''b'' ''k'', Remove ''k.cp''])"
  by (simp add: copyFileWithCp_resume_def copyCheckpoint_load_def copyCheckpoint_isValid_def
        copyCheckpoint_prepare_def sample_getCopyParts sample_world_fields copyCheckpoint_zero_def
        sample_copy_parts_def sample_ccp_def copyCpMagic_def Let_def numeral_2_eq_2)

lemma sample_copyFileWithCp_waiting:
  "copyFileWithCp sample_world ''sb'' ''sk'' ''b'' ''k'' 102400 ''k.cp'' 1 [Result part1] =
     (Hang,
      [Remove ''k.cp'', GetObjectDetailedMeta ''sb'' ''sk'', GetObjectDetailedMeta ''sb'' ''sk'',
       InitiateMultipartUpload ''b'' ''k'', Remove ''k.cp'',
       Publish TransferStartedEvent 0 204800,
       GoCopyWorker 1 sample_imur, GoCopyScheduler sample_copy_parts,
       WriteFile ''k.cp'' ''#:10:10'' 420,
       Publish TransferDataEvent 102400 204800])"
  by (simp add: copyFileWithCp_def sample_copyFileWithCp_resume)
     (simp add: copyFileWithCp_run_def copyCheckpoint_todoParts_def
        copyCheckpoint_getCompletedBytes_def copyCheckpoint_update_def copyCheckpoint_dump_def
        copyCheckpoint_seal_def sample_world_fields part1_def sample_imur_def sample_copy_parts_def
        sample_ccp_def start_copy_workers_def Let_def)

section \<open>The workers a run starts\<close>

lemma workers_started_append:
  "workers_started (xs @ ys) = workers_started xs + workers_started ys"
  by (simp add: workers_started_def)

lemma workers_started_progress: "list_all progress_action ds \<Longrightarrow> workers_started ds = 0"
proof (induction ds)
  case Nil
  show ?case by (simp add: workers_started_def)
next
  case (Cons a ds)
  then show ?case by (cases a) (simp_all add: workers_started_def)
qed

lemma workers_started_start_workers:
  "workers_started (start_workers routines imur chunks) = nat routines"
  by (simp add: workers_started_def start_workers_def filter_map comp_def)

lemma workers_started_start_copy_workers:
  "workers_started (start_copy_workers routines imur parts) = nat routines"
  by (simp add: workers_started_def start_copy_workers_def filter_map comp_def)

lemma uploadFile_workers:
  assumes sp: "w_SplitFileByPartSize W filePath partSize = Inr chunks"
    and init: "w_InitiateMultipartUpload W bucketName objectKey = Inr imur"
  shows "workers_started (snd (uploadFile W bucketName objectKey filePath partSize routines msgs)) =
           nat routines"
proof -
  define s0 :: "UploadPart list wstate" where
    "s0 = \<lparr>completed = 0, store = replicate (length chunks) UploadPart_zero, completedBytes = 0,
           trace = [InitiateMultipartUpload bucketName objectKey,
                    Publish TransferStartedEvent 0 (getTotalBytes chunks)] @
                   start_workers routines imur chunks\<rparr>"
  define r where "r = uploadFile_wait chunks (getTotalBytes chunks) imur msgs s0"
  define tail where
    "tail = (case r of
               Failed err s' \<Rightarrow>
                 [CloseDie, Publish TransferFailedEvent (completedBytes s') (getTotalBytes chunks),
                  AbortMultipartUpload imur]
             | _ \<Rightarrow> [])"
  from uploadFile_wait_trace [of chunks "getTotalBytes chunks" imur msgs s0] obtain ds where
    ds: "list_all progress_action ds" and
    tr: "trace (wait_state r) = trace s0 @ ds @ tail"
    unfolding r_def tail_def by blast
  have tail: "workers_started tail = 0"
    by (cases r) (simp_all add: tail_def workers_started_def)
  define ending where
    "ending = (case r of
                 Finished s \<Rightarrow>
                   [Publish TransferStartedEvent (completedBytes s) (getTotalBytes chunks),
                    CompleteMultipartUpload imur (store s)] @
                   (case w_CompleteMultipartUpload W imur (store s) of
                      Some err \<Rightarrow> [AbortMultipartUpload imur]
                    | None \<Rightarrow> [])
               | _ \<Rightarrow> [])"
  have ending: "workers_started ending = 0"
    by (cases r) (simp_all add: ending_def workers_started_def split: option.splits)
  have "snd (uploadFile W bucketName objectKey filePath partSize routines msgs) =
      trace (wait_state r) @ ending"
    by (cases r)
       (simp_all add: uploadFile_def sp init s0_def r_def ending_def Let_def split: option.splits)
  with tr have "snd (uploadFile W bucketName objectKey filePath partSize routines msgs) =
      trace s0 @ ds @ tail @ ending"
    by simp
  moreover have "workers_started (trace s0) = nat routines"
    using workers_started_start_workers [of routines imur chunks]
    by (simp add: s0_def workers_started_def)
  ultimately show ?thesis
    using workers_started_progress [OF ds] tail ending
    by (simp add: workers_started_append)
qed

lemma copyFile_workers:
  assumes gp: "getCopyParts W srcBucketName srcObjectKey partSize = (Some (Inr parts), acts)"
    and init: "w_InitiateMultipartUpload W destBucketName destObjectKey = Inr imur"
  shows "workers_started
           (snd (copyFile W srcBucketName srcObjectKey destBucketName destObjectKey partSize routines
                   msgs)) = nat routines"
proof -
  define s0 :: "UploadPart list wstate" where
    "s0 = \<lparr>completed = 0, store = replicate (length parts) UploadPart_zero, completedBytes = 0,
           trace = acts @
                   [InitiateMultipartUpload destBucketName destObjectKey,
                    Publish TransferStartedEvent 0 (getSrcObjectBytes parts)] @
                   start_copy_workers routines imur parts\<rparr>"
  define r where "r = copyFile_wait parts (getSrcObjectBytes parts) imur msgs s0"
  define tail where
    "tail = (case r of
               Failed err s' \<Rightarrow>
                 [CloseDie, AbortMultipartUpload imur,
                  Publish TransferFailedEvent (completedBytes s') (getSrcObjectBytes parts)]
             | _ \<Rightarrow> [])"
  from copyFile_wait_trace [of parts "getSrcObjectBytes parts" imur msgs s0] obtain ds where
    ds: "list_all progress_action ds" and
    tr: "trace (wait_state r) = trace s0 @ ds @ tail"
    unfolding r_def tail_def by blast
  have tail: "workers_started tail = 0"
    by (cases r) (simp_all add: tail_def workers_started_def)
  define ending where
    "ending = (case r of
                 Finished s \<Rightarrow>
                   [Publish TransferCompletedEvent (completedBytes s) (getSrcObjectBytes parts),
                    CompleteMultipartUpload imur (store s)] @
                   (case w_CompleteMultipartUpload W imur (store s) of
                      Some err \<Rightarrow> [AbortMultipartUpload imur]
                    | None \<Rightarrow> [])
               | _ \<Rightarrow> [])"
  have ending: "workers_started ending = 0"
    by (cases r) (simp_all add: ending_def workers_started_def split: option.splits)
  have acts: "workers_started acts = 0"
    using gp by (auto simp: getCopyParts_def workers_started_def split: sum.splits)
  have "snd (copyFile W srcBucketName srcObjectKey destBucketName destObjectKey partSize routines
               msgs) = trace (wait_state r) @ ending"
    by (cases r)
       (simp_all add: copyFile_def gp init s0_def r_def ending_def Let_def split: option.splits)
  with tr have "snd (copyFile W srcBucketName srcObjectKey destBucketName destObjectKey partSize
                       routines msgs) = trace s0 @ ds @ tail @ ending"
    by simp
  moreover have "workers_started (trace s0) = nat routines"
    using workers_started_start_copy_workers [of routines imur parts] acts
    by (simp add: s0_def workers_started_append) (simp add: workers_started_def)
  ultimately show ?thesis
    using workers_started_progress [OF ds] tail ending
    by (simp add: workers_started_append)
qed

lemma uploadFileWithCp_resume_workers:
  "workers_started
     (snd (uploadFileWithCp_resume W bucketName objectKey filePath partSize cpFilePath)) = 0"
  by (auto simp: uploadFileWithCp_resume_def prepare_def Let_def workers_started_def
           split: sum.splits prod.splits)

lemma uploadFileWithCp_workers:
  assumes res: "uploadFileWithCp_resume W bucketName objectKey filePath partSize cpFilePath =
                  (Inr ucp, tr1)"
  shows "workers_started
           (snd (uploadFileWithCp W bucketName objectKey filePath partSize cpFilePath routines msgs)) =
         nat routines"
proof -
  define chunks where "chunks = uploadCheckpoint_todoParts ucp"
  define imur where "imur = \<lparr>imur_Bucket = bucketName, imur_Key = objectKey,
                               imur_UploadID = ucp_UploadID ucp\<rparr>"
  define s0 :: "uploadCheckpoint wstate" where
    "s0 = \<lparr>completed = 0, store = ucp,
           completedBytes = uploadCheckpoint_getCompletedBytes ucp,
           trace = tr1 @
                   [Publish TransferStartedEvent (uploadCheckpoint_getCompletedBytes ucp)
                      (st_Size (ucp_FileStat ucp))] @
                   start_workers routines imur chunks\<rparr>"
  define r where "r = uploadFileWithCp_wait W cpFilePath chunks msgs s0"
  define tail where
    "tail = (case r of
               Failed err s' \<Rightarrow>
                 [CloseDie,
                  Publish TransferFailedEvent (completedBytes s') (st_Size (ucp_FileStat (store s')))]
             | _ \<Rightarrow> [])"
  from uploadFileWithCp_wait_trace [of W cpFilePath chunks msgs s0] obtain ds where
    ds: "list_all progress_action ds" and
    tr: "trace (wait_state r) = trace s0 @ ds @ tail"
    unfolding r_def tail_def by blast
  have tail: "workers_started tail = 0"
    by (cases r) (simp_all add: tail_def workers_started_def)
  define ending where
    "ending = (case r of
                 Finished s \<Rightarrow>
                   Publish TransferCompletedEvent (completedBytes s) (st_Size (ucp_FileStat (store s))) #
                   snd (complete W (store s) bucketName (allParts (store s)) cpFilePath)
               | _ \<Rightarrow> [])"
  have ending: "workers_started ending = 0"
    by (cases r) (simp_all add: ending_def workers_started_def complete_def Let_def split: option.splits)
  have tr1: "workers_started tr1 = 0"
    using uploadFileWithCp_resume_workers [of W bucketName objectKey filePath partSize cpFilePath] res
    by simp
  have "snd (uploadFileWithCp W bucketName objectKey filePath partSize cpFilePath routines msgs) =
      trace (wait_state r) @ ending"
    by (cases r)
       (simp_all add: uploadFileWithCp_def res uploadFileWithCp_run_def chunks_def s0_def imur_def
          r_def ending_def Let_def)
  with tr have "snd (uploadFileWithCp W bucketName objectKey filePath partSize cpFilePath routines
                       msgs) = trace s0 @ ds @ tail @ ending"
    by simp
  moreover have "workers_started (trace s0) = nat routines"
    using workers_started_start_workers [of routines imur chunks] tr1
    by (simp add: s0_def workers_started_append) (simp add: workers_started_def)
  ultimately show ?thesis
    using workers_started_progress [OF ds] tail ending
    by (simp add: workers_started_append)
qed

lemma copyFileWithCp_resume_workers:
  "workers_started
     (snd (copyFileWithCp_resume W srcBucketName srcObjectKey destBucketName destObjectKey partSize
             cpFilePath)) = 0"
proof -
  have gp: "workers_started (snd (getCopyParts W srcBucketName srcObjectKey partSize)) = 0"
    by (simp add: getCopyParts_def workers_started_def split: sum.splits)
  have prep: "workers_started
      (snd (copyCheckpoint_prepare W cp srcBucketName srcObjectKey destBucketName destObjectKey
              partSize)) = 0" for cp
    using gp
    by (auto simp: copyCheckpoint_prepare_def Let_def workers_started_append
             split: sum.splits prod.splits option.splits)
       (simp_all add: workers_started_def)
  have valid: "workers_started (snd (copyCheckpoint_isValid W cp srcBucketName srcObjectKey)) = 0"
    for cp
    by (simp add: copyCheckpoint_isValid_def Let_def workers_started_def split: sum.splits)
  show ?thesis
    using prep [of "snd (copyCheckpoint_load W copyCheckpoint_zero cpFilePath)"]
          valid [of "snd (copyCheckpoint_load W copyCheckpoint_zero cpFilePath)"]
    by (auto simp: copyFileWithCp_resume_def Let_def workers_started_append
             split: sum.splits prod.splits option.splits)
       (simp_all add: workers_started_def)
qed

lemma copyFileWithCp_workers:
  assumes res: "copyFileWithCp_resume W srcBucketName srcObjectKey destBucketName destObjectKey
                  partSize cpFilePath = (Some (Inr ccp), tr2)"
    and todo: "copyCheckpoint_todoParts ccp = Some parts"
    and cb0: "copyCheckpoint_getCompletedBytes ccp = Some cb0"
  shows "workers_started
           (snd (copyFileWithCp W srcBucketName srcObjectKey destBucketName destObjectKey partSize
                   cpFilePath routines msgs)) = nat routines"
proof -
  define imur where "imur = \<lparr>imur_Bucket = destBucketName, imur_Key = destObjectKey,
                               imur_UploadID = ccp_CopyID ccp\<rparr>"
  define s0 :: "copyCheckpoint wstate" where
    "s0 = \<lparr>completed = 0, store = ccp, completedBytes = cb0,
           trace = tr2 @ [Publish TransferStartedEvent cb0 (os_Size (ccp_ObjStat ccp))] @
                   start_copy_workers routines imur parts\<rparr>"
  define r where "r = copyFileWithCp_wait W cpFilePath parts msgs s0"
  define tail where
    "tail = (case r of
               Failed err s' \<Rightarrow>
                 [CloseDie,
                  Publish TransferFailedEvent (completedBytes s') (os_Size (ccp_ObjStat (store s')))]
             | _ \<Rightarrow> [])"
  from copyFileWithCp_wait_trace [of W cpFilePath parts msgs s0] obtain ds where
    ds: "list_all progress_action ds" and
    tr: "trace (wait_state r) = trace s0 @ ds @ tail"
    unfolding r_def tail_def by blast
  have tail: "workers_started tail = 0"
    by (cases r) (simp_all add: tail_def workers_started_def)
  define ending where
    "ending = (case r of
                 Finished s \<Rightarrow>
                   Publish TransferCompletedEvent (completedBytes s) (os_Size (ccp_ObjStat (store s))) #
                   snd (copyCheckpoint_complete W (store s) (ccp_CopyParts (store s)) cpFilePath)
               | _ \<Rightarrow> [])"
  have ending: "workers_started ending = 0"
    by (cases r)
       (simp_all add: ending_def workers_started_def copyCheckpoint_complete_def Let_def
          split: option.splits)
  have tr2: "workers_started tr2 = 0"
    using copyFileWithCp_resume_workers
            [of W srcBucketName srcObjectKey destBucketName destObjectKey partSize cpFilePath] res
    by simp
  have "snd (copyFileWithCp W srcBucketName srcObjectKey destBucketName destObjectKey partSize
               cpFilePath routines msgs) = trace (wait_state r) @ ending"
    by (cases r)
       (simp_all add: copyFileWithCp_def res copyFileWithCp_run_def todo cb0 s0_def imur_def
          r_def ending_def Let_def)
  with tr have "snd (copyFileWithCp W srcBucketName srcObjectKey destBucketName destObjectKey
                       partSize cpFilePath routines msgs) = trace s0 @ ds @ tail @ ending"
    by simp
  moreover have "workers_started (trace s0) = nat routines"
    using workers_started_start_copy_workers [of routines imur parts] tr2
    by (simp add: s0_def workers_started_append) (simp add: workers_started_def)
  ultimately show ?thesis
    using workers_started_progress [OF ds] tail ending
    by (simp add: workers_started_append)
qed

lemma getCpConfig_routines: "getRoutines (snd (getCpConfig options filePath)) = getRoutines options"
proof -
  have "find_routineNum (snd (getCpConfig options filePath)) = find_routineNum options"
    by (simp add: getCpConfig_def Let_def split: sum.splits option.splits)
  then show ?thesis
    by (simp only: getRoutines_def)
qed

text \<open>
  C10. The routine count is the requested one clamped to 1..100, and 1 when the option is
  absent or its lookup fails. \<^verbatim>\<open>UploadFile\<close> and \<^verbatim>\<open>CopyFile\<close> hand this count to their
  coordinator, and every run that comes to start its transfer starts exactly that many
  workers: without checkpoint once the file is split (the parts of the source are planned)
  and the multipart upload is initiated, with checkpoint once the checkpoint is loaded or
  prepared (and, for a copy, its part lists can be read).
\<close>

theorem workers_started_clamp:
  assumes "\<not> (sint partSize < 102400 \<or> 5368709120 < sint partSize)"
  shows "getRoutines options =
           (case find_routineNum options of
              Inl err \<Rightarrow> 1
            | Inr None \<Rightarrow> 1
            | Inr (Some n) \<Rightarrow> max 1 (min 100 n)) \<and>
         (fst (getCpConfig options filePath) = (cpConf, None) \<and> \<not> cpc_IsEnable cpConf \<and>
          w_SplitFileByPartSize W filePath partSize = Inr chunks \<and>
          w_InitiateMultipartUpload W bucketName objectKey = Inr imur \<longrightarrow>
            workers_started
              (snd (fst (UploadFile W bucketName objectKey filePath partSize options msgs))) =
            nat (getRoutines options)) \<and>
         (fst (getCpConfig options filePath) = (cpConf, None) \<and> cpc_IsEnable cpConf \<and>
          fst (uploadFileWithCp_resume W bucketName objectKey filePath partSize
                 (cpc_FilePath cpConf)) = Inr ucp \<longrightarrow>
            workers_started
              (snd (fst (UploadFile W bucketName objectKey filePath partSize options msgs))) =
            nat (getRoutines options)) \<and>
         (fst (getCpConfig options (filepath_Base destObjectKey)) = (copyConf, None) \<and>
          \<not> cpc_IsEnable copyConf \<and>
          fst (getCopyParts W srcBucketName srcObjectKey partSize) = Some (Inr parts) \<and>
          w_InitiateMultipartUpload W bucketName destObjectKey = Inr copyImur \<longrightarrow>
            workers_started
              (snd (fst (CopyFile W bucketName srcBucketName srcObjectKey destObjectKey partSize
                           options msgs))) =
            nat (getRoutines options)) \<and>
         (fst (getCpConfig options (filepath_Base destObjectKey)) = (copyConf, None) \<and>
          cpc_IsEnable copyConf \<and>
          fst (copyFileWithCp_resume W srcBucketName srcObjectKey bucketName destObjectKey partSize
                 (cpc_FilePath copyConf)) = Some (Inr ccp) \<and>
          copyCheckpoint_todoParts ccp = Some todo \<and>
          copyCheckpoint_getCompletedBytes ccp = Some already \<longrightarrow>
            workers_started
              (snd (fst (CopyFile W bucketName srcBucketName srcObjectKey destObjectKey partSize
                           options msgs))) =
            nat (getRoutines options))"
proof -
  have range: "\<not> (partSize <s MinPartSize \<or> MaxPartSize <s partSize)"
    using assms by (simp add: word_sless_alt sint_MinPartSize sint_MaxPartSize)
  have clamp: "getRoutines options =
      (case find_routineNum options of
         Inl err \<Rightarrow> 1
       | Inr None \<Rightarrow> 1
       | Inr (Some n) \<Rightarrow> max 1 (min 100 n))"
    by (simp add: getRoutines_def split: sum.splits option.splits)
  have upload: "fst (UploadFile W bucketName objectKey filePath partSize options msgs) =
      (if cpc_IsEnable cpConf
       then uploadFileWithCp W bucketName objectKey filePath partSize (cpc_FilePath cpConf)
              (getRoutines options) msgs
       else uploadFile W bucketName objectKey filePath partSize (getRoutines options) msgs)"
    if "fst (getCpConfig options filePath) = (cpConf, None)"
    using that range getCpConfig_routines [of options filePath]
    by (cases "getCpConfig options filePath") (auto simp: UploadFile_def Let_def)
  have copy: "fst (CopyFile W bucketName srcBucketName srcObjectKey destObjectKey partSize options
                     msgs) =
      (if cpc_IsEnable copyConf
       then copyFileWithCp W srcBucketName srcObjectKey bucketName destObjectKey partSize
              (cpc_FilePath copyConf) (getRoutines options) msgs
       else copyFile W srcBucketName srcObjectKey bucketName destObjectKey partSize
              (getRoutines options) msgs)"
    if "fst (getCpConfig options (filepath_Base destObjectKey)) = (copyConf, None)"
    using that range getCpConfig_routines [of options "filepath_Base destObjectKey"]
    by (cases "getCpConfig options (filepath_Base destObjectKey)") (auto simp: CopyFile_def Let_def)
  have u1: "fst (getCpConfig options filePath) = (cpConf, None) \<and> \<not> cpc_IsEnable cpConf \<and>
      w_SplitFileByPartSize W filePath partSize = Inr chunks \<and>
      w_InitiateMultipartUpload W bucketName objectKey = Inr imur \<longrightarrow>
        workers_started
          (snd (fst (UploadFile W bucketName objectKey filePath partSize options msgs))) =
        nat (getRoutines options)"
    using upload uploadFile_workers [of W filePath partSize chunks bucketName objectKey imur]
    by simp
  have u2: "fst (getCpConfig options filePath) = (cpConf, None) \<and> cpc_IsEnable cpConf \<and>
      fst (uploadFileWithCp_resume W bucketName objectKey filePath partSize
             (cpc_FilePath cpConf)) = Inr ucp \<longrightarrow>
        workers_started
          (snd (fst (UploadFile W bucketName objectKey filePath partSize options msgs))) =
        nat (getRoutines options)"
    using upload
          uploadFileWithCp_workers [of W bucketName objectKey filePath partSize "cpc_FilePath cpConf" ucp
             "snd (uploadFileWithCp_resume W bucketName objectKey filePath partSize
                     (cpc_FilePath cpConf))"]
    by (simp add: prod_eq_iff)
  have c1: "fst (getCpConfig options (filepath_Base destObjectKey)) = (copyConf, None) \<and>
      \<not> cpc_IsEnable copyConf \<and>
      fst (getCopyParts W srcBucketName srcObjectKey partSize) = Some (Inr parts) \<and>
      w_InitiateMultipartUpload W bucketName destObjectKey = Inr copyImur \<longrightarrow>
        workers_started
          (snd (fst (CopyFile W bucketName srcBucketName srcObjectKey destObjectKey partSize
                       options msgs))) =
        nat (getRoutines options)"
    using copy
          copyFile_workers [of W srcBucketName srcObjectKey partSize parts
             "snd (getCopyParts W srcBucketName srcObjectKey partSize)" bucketName destObjectKey
             copyImur]
    by (simp add: prod_eq_iff)
  have c2: "fst (getCpConfig options (filepath_Base destObjectKey)) = (copyConf, None) \<and>
      cpc_IsEnable copyConf \<and>
      fst (copyFileWithCp_resume W srcBucketName srcObjectKey bucketName destObjectKey partSize
             (cpc_FilePath copyConf)) = Some (Inr ccp) \<and>
      copyCheckpoint_todoParts ccp = Some todo \<and>
      copyCheckpoint_getCompletedBytes ccp = Some already \<longrightarrow>
        workers_started
          (snd (fst (CopyFile W bucketName srcBucketName srcObjectKey destObjectKey partSize
                       options msgs))) =
        nat (getRoutines options)"
    using copy
          copyFileWithCp_workers [of W srcBucketName srcObjectKey bucketName destObjectKey partSize
             "cpc_FilePath copyConf" ccp
             "snd (copyFileWithCp_resume W srcBucketName srcObjectKey bucketName destObjectKey
                     partSize (cpc_FilePath copyConf))" todo already]
    by (simp add: prod_eq_iff)
  from clamp u1 u2 c1 c2 show ?thesis
    by (intro conjI)
qed

theorem workers_started_clamp_witness:
  "workers_started
     (snd (fst (UploadFile sample_world ''b'' ''k'' ''f'' 102400 routines_250 []))) = 100 \<and>
   workers_started
     (snd (fst (UploadFile sample_world ''b'' ''k'' ''f'' 102400
                  \<lparr>find_routineNum = Inr (Some 0), find_checkpointConfig = Inr None\<rparr>
                  [Result part1]))) = 1 \<and>
   workers_started
     (snd (fst (CopyFile sample_world ''b'' ''sb'' ''sk'' ''k'' 102400 checkpoint_default
                  [Result part1]))) = 1"
proof -
  have d: "\<not> (sint (102400 :: int64) < 102400 \<or> 5368709120 < sint (102400 :: int64))"
    by simp
  note many = workers_started_clamp [OF d, where options = routines_250 and filePath = "''f''"
      and cpConf = cpConfig_zero and W = sample_world and chunks = sample_chunks
      and bucketName = "''b''" and objectKey = "''k''" and imur = sample_imur and msgs = "[]"]
  from many have "getRoutines routines_250 = 100"
    by (simp add: routines_250_def)
  moreover from many have "fst (getCpConfig routines_250 ''f'') = (cpConfig_zero, None) \<and>
      \<not> cpc_IsEnable cpConfig_zero \<and>
      w_SplitFileByPartSize sample_world ''f'' 102400 = Inr sample_chunks \<and>
      w_InitiateMultipartUpload sample_world ''b'' ''k'' = Inr sample_imur \<longrightarrow>
        workers_started
          (snd (fst (UploadFile sample_world ''b'' ''k'' ''f'' 102400 routines_250 []))) =
        nat (getRoutines routines_250)"
    by blast
  moreover have "fst (getCpConfig routines_250 ''f'') = (cpConfig_zero, None) \<and>
      \<not> cpc_IsEnable cpConfig_zero \<and>
      w_SplitFileByPartSize sample_world ''f'' 102400 = Inr sample_chunks \<and>
      w_InitiateMultipartUpload sample_world ''b'' ''k'' = Inr sample_imur"
    by (simp add: getCpConfig_def routines_250_def cpConfig_zero_def sample_world_fields
          sample_imur_def)
  ultimately have first: "workers_started
      (snd (fst (UploadFile sample_world ''b'' ''k'' ''f'' 102400 routines_250 []))) = 100"
    by simp
  define none where
    "none = \<lparr>find_routineNum = Inr (Some (0 :: int)), find_checkpointConfig = Inr None\<rparr>"
  note few = workers_started_clamp [OF d, where options = none and filePath = "''f''"
      and cpConf = cpConfig_zero and W = sample_world and chunks = sample_chunks
      and bucketName = "''b''" and objectKey = "''k''" and imur = sample_imur
      and msgs = "[Result part1]"]
  from few have "getRoutines none = 1"
    by (simp add: none_def)
  moreover from few have "fst (getCpConfig none ''f'') = (cpConfig_zero, None) \<and>
      \<not> cpc_IsEnable cpConfig_zero \<and>
      w_SplitFileByPartSize sample_world ''f'' 102400 = Inr sample_chunks \<and>
      w_InitiateMultipartUpload sample_world ''b'' ''k'' = Inr sample_imur \<longrightarrow>
        workers_started
          (snd (fst (UploadFile sample_world ''b'' ''k'' ''f'' 102400 none [Result part1]))) =
        nat (getRoutines none)"
    by blast
  moreover have "fst (getCpConfig none ''f'') = (cpConfig_zero, None) \<and>
      \<not> cpc_IsEnable cpConfig_zero \<and>
      w_SplitFileByPartSize sample_world ''f'' 102400 = Inr sample_chunks \<and>
      w_InitiateMultipartUpload sample_world ''b'' ''k'' = Inr sample_imur"
    by (simp add: getCpConfig_def none_def cpConfig_zero_def sample_world_fields sample_imur_def)
  ultimately have second: "workers_started
      (snd (fst (UploadFile sample_world ''b'' ''k'' ''f'' 102400 none [Result part1]))) = 1"
    by simp
  note absent = workers_started_clamp [OF d, where options = checkpoint_default
      and destObjectKey = "''k''" and W = sample_world and bucketName = "''b''"
      and copyConf = "\<lparr>cpc_IsEnable = True, cpc_FilePath = ''k.cp''\<rparr>"
      and srcBucketName = "''sb''" and srcObjectKey = "''sk''" and ccp = sample_ccp
      and todo = sample_copy_parts and already = 0 and msgs = "[Result part1]"]
  from absent have "getRoutines checkpoint_default = 1"
    by (simp add: checkpoint_default_def)
  moreover from absent have
    "fst (getCpConfig checkpoint_default (filepath_Base ''k'')) =
       (\<lparr>cpc_IsEnable = True, cpc_FilePath = ''k.cp''\<rparr>, None) \<and>
     cpc_IsEnable \<lparr>cpc_IsEnable = True, cpc_FilePath = ''k.cp''\<rparr> \<and>
     fst (copyFileWithCp_resume sample_world ''sb'' ''sk'' ''b'' ''k'' 102400
            (cpc_FilePath \<lparr>cpc_IsEnable = True, cpc_FilePath = ''k.cp''\<rparr>)) =
       Some (Inr sample_ccp) \<and>
     copyCheckpoint_todoParts sample_ccp = Some sample_copy_parts \<and>
     copyCheckpoint_getCompletedBytes sample_ccp = Some 0 \<longrightarrow>
       workers_started
         (snd (fst (CopyFile sample_world ''b'' ''sb'' ''sk'' ''k'' 102400 checkpoint_default
                      [Result part1]))) =
       nat (getRoutines checkpoint_default)"
    by blast
  moreover have "filepath_Base ''k'' = ''k''"
    by (simp add: filepath_Base_def strip_trailing_slashes_def last_element_def)
  then have "fst (getCpConfig checkpoint_default (filepath_Base ''k'')) =
       (\<lparr>cpc_IsEnable = True, cpc_FilePath = ''k.cp''\<rparr>, None) \<and>
     cpc_IsEnable \<lparr>cpc_IsEnable = True, cpc_FilePath = ''k.cp''\<rparr> \<and>
     fst (copyFileWithCp_resume sample_world ''sb'' ''sk'' ''b'' ''k'' 102400
            (cpc_FilePath \<lparr>cpc_IsEnable = True, cpc_FilePath = ''k.cp''\<rparr>)) =
       Some (Inr sample_ccp) \<and>
     copyCheckpoint_todoParts sample_ccp = Some sample_copy_parts \<and>
     copyCheckpoint_getCompletedBytes sample_ccp = Some 0"
    by (simp add: getCpConfig_def checkpoint_default_def CheckpointFileSuffix_def Let_def
          sample_copyFileWithCp_resume copyCheckpoint_todoParts_def
          copyCheckpoint_getCompletedBytes_def sample_ccp_def sample_copy_parts_def)
  ultimately have third: "workers_started
      (snd (fst (CopyFile sample_world ''b'' ''sb'' ''sk'' ''k'' 102400 checkpoint_default
                   [Result part1]))) = 1"
    by simp
  from first second third show ?thesis
    unfolding none_def by (intro conjI)
qed

section \<open>Failure of a part\<close>

lemma progress_not_abort: "list_all progress_action ds \<Longrightarrow> \<not> list_ex is_abort ds"
proof (induction ds)
  case Nil
  show ?case by simp
next
  case (Cons a ds)
  then show ?case by (cases a) simp_all
qed

lemma start_workers_not_abort: "\<not> list_ex is_abort (start_workers routines imur chunks)"
  by (simp add: start_workers_def list_ex_iff image_iff)

lemma start_copy_workers_not_abort: "\<not> list_ex is_abort (start_copy_workers routines imur parts)"
  by (simp add: start_copy_workers_def list_ex_iff image_iff)

lemma uploadFile_first_error:
  assumes "uploadFile W bucketName objectKey filePath partSize routines rs = (Hang, tr)"
  shows "\<exists>imur cb tb.
           w_InitiateMultipartUpload W bucketName objectKey = Inr imur \<and>
           uploadFile W bucketName objectKey filePath partSize routines (rs @ Failure err # rest) =
             (Return (Some err),
              tr @ [CloseDie, Publish TransferFailedEvent cb tb, AbortMultipartUpload imur])"
proof -
  from assms obtain chunks where sp: "w_SplitFileByPartSize W filePath partSize = Inr chunks"
    by (auto simp: uploadFile_def split: sum.splits)
  from assms sp obtain imur where init: "w_InitiateMultipartUpload W bucketName objectKey = Inr imur"
    by (auto simp: uploadFile_def split: sum.splits)
  define s0 :: "UploadPart list wstate" where
    "s0 = \<lparr>completed = 0, store = replicate (length chunks) UploadPart_zero, completedBytes = 0,
           trace = [InitiateMultipartUpload bucketName objectKey,
                    Publish TransferStartedEvent 0 (getTotalBytes chunks)] @
                   start_workers routines imur chunks\<rparr>"
  have run: "uploadFile W bucketName objectKey filePath partSize routines msgs =
      (case uploadFile_wait chunks (getTotalBytes chunks) imur msgs s0 of
         Failed err s \<Rightarrow> (Return (Some err), trace s)
       | Panicked s \<Rightarrow> (Panic, trace s)
       | Blocked s \<Rightarrow> (Hang, trace s)
       | Finished s \<Rightarrow>
           (let tr = trace s @ [Publish TransferStartedEvent (completedBytes s) (getTotalBytes chunks)]
            in case w_CompleteMultipartUpload W imur (store s) of
                 Some err \<Rightarrow>
                   (Return (Some err),
                    tr @ [CompleteMultipartUpload imur (store s), AbortMultipartUpload imur])
               | None \<Rightarrow> (Return None, tr @ [CompleteMultipartUpload imur (store s)])))" for msgs
    by (simp add: uploadFile_def sp init s0_def Let_def)
  from assms obtain s1 where
    blocked: "uploadFile_wait chunks (getTotalBytes chunks) imur rs s0 = Blocked s1" and tr: "trace s1 = tr"
    unfolding run by (auto simp: Let_def split: wait.splits option.splits)
  from uploadFile_wait_append [OF blocked, of "Failure err # rest"]
  have "uploadFile_wait chunks (getTotalBytes chunks) imur (rs @ Failure err # rest) s0 =
      Failed err (s1\<lparr>trace := trace s1 @
        [CloseDie, Publish TransferFailedEvent (completedBytes s1) (getTotalBytes chunks),
         AbortMultipartUpload imur]\<rparr>)"
    by simp
  with tr init show ?thesis
    unfolding run by auto
qed


lemma copyFile_first_error:
  assumes "copyFile W srcBucketName srcObjectKey destBucketName destObjectKey partSize routines rs =
             (Hang, tr)"
  shows "\<exists>imur cb tb.
           w_InitiateMultipartUpload W destBucketName destObjectKey = Inr imur \<and>
           copyFile W srcBucketName srcObjectKey destBucketName destObjectKey partSize routines
               (rs @ Failure err # rest) =
             (Return (Some err),
              tr @ [CloseDie, AbortMultipartUpload imur, Publish TransferFailedEvent cb tb])"
proof -
  obtain planned acts where gp: "getCopyParts W srcBucketName srcObjectKey partSize = (planned, acts)"
    by (cases "getCopyParts W srcBucketName srcObjectKey partSize")
  from assms gp obtain parts where planned: "planned = Some (Inr parts)"
    by (auto simp: copyFile_def split: option.splits sum.splits)
  from assms gp planned obtain imur where
    init: "w_InitiateMultipartUpload W destBucketName destObjectKey = Inr imur"
    by (auto simp: copyFile_def split: sum.splits)
  define s0 :: "UploadPart list wstate" where
    "s0 = \<lparr>completed = 0, store = replicate (length parts) UploadPart_zero, completedBytes = 0,
           trace = acts @ [InitiateMultipartUpload destBucketName destObjectKey,
                           Publish TransferStartedEvent 0 (getSrcObjectBytes parts)] @
                   start_copy_workers routines imur parts\<rparr>"
  have run: "copyFile W srcBucketName srcObjectKey destBucketName destObjectKey partSize routines msgs =
      (case copyFile_wait parts (getSrcObjectBytes parts) imur msgs s0 of
         Failed err s \<Rightarrow> (Return (Some err), trace s)
       | Panicked s \<Rightarrow> (Panic, trace s)
       | Blocked s \<Rightarrow> (Hang, trace s)
       | Finished s \<Rightarrow>
           (let tr = trace s @ [Publish TransferCompletedEvent (completedBytes s) (getSrcObjectBytes parts)]
            in case w_CompleteMultipartUpload W imur (store s) of
                 Some err \<Rightarrow>
                   (Return (Some err),
                    tr @ [CompleteMultipartUpload imur (store s), AbortMultipartUpload imur])
               | None \<Rightarrow> (Return None, tr @ [CompleteMultipartUpload imur (store s)])))" for msgs
    by (simp add: copyFile_def gp planned init s0_def Let_def)
  from assms obtain s1 where
    blocked: "copyFile_wait parts (getSrcObjectBytes parts) imur rs s0 = Blocked s1" and tr: "trace s1 = tr"
    unfolding run by (auto simp: Let_def split: wait.splits option.splits)
  from copyFile_wait_append [OF blocked, of "Failure err # rest"]
  have "copyFile_wait parts (getSrcObjectBytes parts) imur (rs @ Failure err # rest) s0 =
      Failed err (s1\<lparr>trace := trace s1 @
        [CloseDie, AbortMultipartUpload imur,
         Publish TransferFailedEvent (completedBytes s1) (getSrcObjectBytes parts)]\<rparr>)"
    by simp
  with tr init show ?thesis
    unfolding run by auto
qed

lemma uploadFileWithCp_run_first_error:
  assumes "uploadFileWithCp_run W bucketName objectKey cpFilePath routines ucp tr1 rs = (Hang, tr)"
  shows "\<exists>cb tb.
           uploadFileWithCp_run W bucketName objectKey cpFilePath routines ucp tr1
               (rs @ Failure err # rest) =
             (Return (Some err), tr @ [CloseDie, Publish TransferFailedEvent cb tb])"
proof -
  define chunks where "chunks = uploadCheckpoint_todoParts ucp"
  define s0 :: "uploadCheckpoint wstate" where
    "s0 = \<lparr>completed = 0, store = ucp,
           completedBytes = uploadCheckpoint_getCompletedBytes ucp,
           trace = tr1 @
                   [Publish TransferStartedEvent (uploadCheckpoint_getCompletedBytes ucp)
                      (st_Size (ucp_FileStat ucp))] @
                   start_workers routines
                     \<lparr>imur_Bucket = bucketName, imur_Key = objectKey,
                      imur_UploadID = ucp_UploadID ucp\<rparr> chunks\<rparr>"
  have run: "uploadFileWithCp_run W bucketName objectKey cpFilePath routines ucp tr1 msgs =
      (case uploadFileWithCp_wait W cpFilePath chunks msgs s0 of
         Failed err s \<Rightarrow> (Return (Some err), trace s)
       | Panicked s \<Rightarrow> (Panic, trace s)
       | Blocked s \<Rightarrow> (Hang, trace s)
       | Finished s \<Rightarrow>
           (Return (fst (complete W (store s) bucketName (allParts (store s)) cpFilePath)),
            (trace s @ [Publish TransferCompletedEvent (completedBytes s)
                          (st_Size (ucp_FileStat (store s)))]) @
            snd (complete W (store s) bucketName (allParts (store s)) cpFilePath)))" for msgs
    by (simp add: uploadFileWithCp_run_def chunks_def s0_def Let_def split: wait.splits)
  from assms obtain s1 where
    blocked: "uploadFileWithCp_wait W cpFilePath chunks rs s0 = Blocked s1" and tr: "trace s1 = tr"
    unfolding run by (auto split: wait.splits)
  from uploadFileWithCp_wait_append [OF blocked, of "Failure err # rest"]
  have "uploadFileWithCp_wait W cpFilePath chunks (rs @ Failure err # rest) s0 =
      Failed err (s1\<lparr>trace := trace s1 @
        [CloseDie,
         Publish TransferFailedEvent (completedBytes s1) (st_Size (ucp_FileStat (store s1)))]\<rparr>)"
    by simp
  with tr show ?thesis
    unfolding run by auto
qed

lemma uploadFileWithCp_first_error:
  assumes "uploadFileWithCp W bucketName objectKey filePath partSize cpFilePath routines rs = (Hang, tr)"
  shows "\<exists>cb tb.
           uploadFileWithCp W bucketName objectKey filePath partSize cpFilePath routines
               (rs @ Failure err # rest) =
             (Return (Some err), tr @ [CloseDie, Publish TransferFailedEvent cb tb])"
proof -
  obtain r tr1 where
    res: "uploadFileWithCp_resume W bucketName objectKey filePath partSize cpFilePath = (r, tr1)"
    by (cases "uploadFileWithCp_resume W bucketName objectKey filePath partSize cpFilePath")
  from assms res obtain ucp where r: "r = Inr ucp"
    by (cases r) (auto simp: uploadFileWithCp_def)
  from assms res r
  have "uploadFileWithCp_run W bucketName objectKey cpFilePath routines ucp tr1 rs = (Hang, tr)"
    by (simp add: uploadFileWithCp_def)
  from uploadFileWithCp_run_first_error [OF this, of err rest] res r show ?thesis
    by (simp add: uploadFileWithCp_def)
qed

lemma copyFileWithCp_run_first_error:
  assumes "copyFileWithCp_run W destBucketName destObjectKey cpFilePath routines ccp tr2 rs = (Hang, tr)"
  shows "\<exists>cb tb.
           copyFileWithCp_run W destBucketName destObjectKey cpFilePath routines ccp tr2
               (rs @ Failure err # rest) =
             (Return (Some err), tr @ [CloseDie, Publish TransferFailedEvent cb tb])"
proof -
  from assms obtain parts where todo: "copyCheckpoint_todoParts ccp = Some parts"
    by (auto simp: copyFileWithCp_run_def split: option.splits)
  from assms todo obtain cb0 where cb0: "copyCheckpoint_getCompletedBytes ccp = Some cb0"
    by (auto simp: copyFileWithCp_run_def split: option.splits)
  define s0 :: "copyCheckpoint wstate" where
    "s0 = \<lparr>completed = 0, store = ccp, completedBytes = cb0,
           trace = tr2 @ [Publish TransferStartedEvent cb0 (os_Size (ccp_ObjStat ccp))] @
                   start_copy_workers routines
                     \<lparr>imur_Bucket = destBucketName, imur_Key = destObjectKey,
                      imur_UploadID = ccp_CopyID ccp\<rparr> parts\<rparr>"
  have run: "copyFileWithCp_run W destBucketName destObjectKey cpFilePath routines ccp tr2 msgs =
      (case copyFileWithCp_wait W cpFilePath parts msgs s0 of
         Failed err s \<Rightarrow> (Return (Some err), trace s)
       | Panicked s \<Rightarrow> (Panic, trace s)
       | Blocked s \<Rightarrow> (Hang, trace s)
       | Finished s \<Rightarrow>
           (Return (fst (copyCheckpoint_complete W (store s) (ccp_CopyParts (store s)) cpFilePath)),
            (trace s @ [Publish TransferCompletedEvent (completedBytes s)
                          (os_Size (ccp_ObjStat (store s)))]) @
            snd (copyCheckpoint_complete W (store s) (ccp_CopyParts (store s)) cpFilePath)))" for msgs
    by (simp add: copyFileWithCp_run_def todo cb0 s0_def Let_def split: wait.splits)
  from assms obtain s1 where
    blocked: "copyFileWithCp_wait W cpFilePath parts rs s0 = Blocked s1" and tr: "trace s1 = tr"
    unfolding run by (auto split: wait.splits)
  from copyFileWithCp_wait_append [OF blocked, of "Failure err # rest"]
  have "copyFileWithCp_wait W cpFilePath parts (rs @ Failure err # rest) s0 =
      Failed err (s1\<lparr>trace := trace s1 @
        [CloseDie,
         Publish TransferFailedEvent (completedBytes s1) (os_Size (ccp_ObjStat (store s1)))]\<rparr>)"
    by simp
  with tr show ?thesis
    unfolding run by auto
qed

lemma copyFileWithCp_first_error:
  assumes "copyFileWithCp W srcBucketName srcObjectKey destBucketName destObjectKey partSize
             cpFilePath routines rs = (Hang, tr)"
  shows "\<exists>cb tb.
           copyFileWithCp W srcBucketName srcObjectKey destBucketName destObjectKey partSize
               cpFilePath routines (rs @ Failure err # rest) =
             (Return (Some err), tr @ [CloseDie, Publish TransferFailedEvent cb tb])"
proof -
  obtain r tr2 where
    res: "copyFileWithCp_resume W srcBucketName srcObjectKey destBucketName destObjectKey partSize
            cpFilePath = (r, tr2)"
    by (cases "copyFileWithCp_resume W srcBucketName srcObjectKey destBucketName destObjectKey
                 partSize cpFilePath")
  from assms res obtain ccp where r: "r = Some (Inr ccp)"
    by (auto simp: copyFileWithCp_def split: option.splits sum.splits)
  from assms res r
  have "copyFileWithCp_run W destBucketName destObjectKey cpFilePath routines ccp tr2 rs = (Hang, tr)"
    by (simp add: copyFileWithCp_def)
  from copyFileWithCp_run_first_error [OF this, of err rest] res r show ?thesis
    by (simp add: copyFileWithCp_def)
qed


lemma uploadFileWithCp_resume_not_abort:
  "\<not> list_ex is_abort
       (snd (uploadFileWithCp_resume W bucketName objectKey filePath partSize cpFilePath))"
  by (auto simp: uploadFileWithCp_resume_def prepare_def Let_def split: sum.splits prod.splits)

lemma complete_not_abort:
  "\<not> list_ex is_abort (snd (complete W cp bucketName parts cpFilePath))"
  by (simp add: complete_def Let_def split: option.splits)

lemma uploadFileWithCp_run_not_abort:
  assumes "\<not> list_ex is_abort tr1"
  shows "\<not> list_ex is_abort
           (snd (uploadFileWithCp_run W bucketName objectKey cpFilePath routines ucp tr1 msgs))"
proof -
  define chunks where "chunks = uploadCheckpoint_todoParts ucp"
  define imur where "imur = \<lparr>imur_Bucket = bucketName, imur_Key = objectKey,
                               imur_UploadID = ucp_UploadID ucp\<rparr>"
  define s0 :: "uploadCheckpoint wstate" where
    "s0 = \<lparr>completed = 0, store = ucp,
           completedBytes = uploadCheckpoint_getCompletedBytes ucp,
           trace = tr1 @
                   [Publish TransferStartedEvent (uploadCheckpoint_getCompletedBytes ucp)
                      (st_Size (ucp_FileStat ucp))] @
                   start_workers routines imur chunks\<rparr>"
  define r where "r = uploadFileWithCp_wait W cpFilePath chunks msgs s0"
  from uploadFileWithCp_wait_trace [of W cpFilePath chunks msgs s0] obtain ds where
    ds: "list_all progress_action ds" and
    tr: "trace (wait_state r) = trace s0 @ ds @
           (case r of
              Failed err s' \<Rightarrow>
                [CloseDie,
                 Publish TransferFailedEvent (completedBytes s') (st_Size (ucp_FileStat (store s')))]
            | _ \<Rightarrow> [])"
    unfolding r_def by blast
  have s0: "\<not> list_ex is_abort (trace s0)"
    using assms start_workers_not_abort [of routines imur chunks] by (simp add: s0_def)
  have run: "uploadFileWithCp_run W bucketName objectKey cpFilePath routines ucp tr1 msgs =
      (case r of
         Failed err s \<Rightarrow> (Return (Some err), trace s)
       | Panicked s \<Rightarrow> (Panic, trace s)
       | Blocked s \<Rightarrow> (Hang, trace s)
       | Finished s \<Rightarrow>
           (Return (fst (complete W (store s) bucketName (allParts (store s)) cpFilePath)),
            (trace s @ [Publish TransferCompletedEvent (completedBytes s)
                          (st_Size (ucp_FileStat (store s)))]) @
            snd (complete W (store s) bucketName (allParts (store s)) cpFilePath)))"
    by (simp add: uploadFileWithCp_run_def chunks_def s0_def imur_def r_def Let_def split: wait.splits)
  show ?thesis
    unfolding run using tr s0 progress_not_abort [OF ds] complete_not_abort
    by (cases r) simp_all
qed

lemma uploadFileWithCp_not_abort:
  "\<not> list_ex is_abort
       (snd (uploadFileWithCp W bucketName objectKey filePath partSize cpFilePath routines msgs))"
proof -
  obtain r tr1 where
    res: "uploadFileWithCp_resume W bucketName objectKey filePath partSize cpFilePath = (r, tr1)"
    by (cases "uploadFileWithCp_resume W bucketName objectKey filePath partSize cpFilePath")
  with uploadFileWithCp_resume_not_abort [of W bucketName objectKey filePath partSize cpFilePath]
  have tr1: "\<not> list_ex is_abort tr1" by simp
  show ?thesis
    using res tr1 uploadFileWithCp_run_not_abort [OF tr1]
    by (cases r) (simp_all add: uploadFileWithCp_def)
qed

lemma getCopyParts_not_abort:
  "\<not> list_ex is_abort (snd (getCopyParts W bucketName objectKey partSize))"
  by (simp add: getCopyParts_def split: sum.splits)

lemma copyCheckpoint_prepare_not_abort:
  "\<not> list_ex is_abort
       (snd (copyCheckpoint_prepare W cp srcBucketName srcObjectKey destBucketName destObjectKey
               partSize))"
  using getCopyParts_not_abort [of W srcBucketName srcObjectKey partSize]
  by (auto simp: copyCheckpoint_prepare_def Let_def split: sum.splits prod.splits option.splits)

lemma copyCheckpoint_isValid_not_abort:
  "\<not> list_ex is_abort (snd (copyCheckpoint_isValid W cp bucketName objectKey))"
  by (simp add: copyCheckpoint_isValid_def Let_def split: sum.splits)

lemma copyFileWithCp_resume_not_abort:
  "\<not> list_ex is_abort
       (snd (copyFileWithCp_resume W srcBucketName srcObjectKey destBucketName destObjectKey
               partSize cpFilePath))"
  using copyCheckpoint_prepare_not_abort
          [of W "snd (copyCheckpoint_load W copyCheckpoint_zero cpFilePath)" srcBucketName
             srcObjectKey destBucketName destObjectKey partSize]
        copyCheckpoint_isValid_not_abort
          [of W "snd (copyCheckpoint_load W copyCheckpoint_zero cpFilePath)" srcBucketName
             srcObjectKey]
  by (auto simp: copyFileWithCp_resume_def Let_def split: sum.splits prod.splits option.splits)

lemma copyCheckpoint_complete_not_abort:
  "\<not> list_ex is_abort (snd (copyCheckpoint_complete W cp parts cpFilePath))"
  by (simp add: copyCheckpoint_complete_def Let_def split: option.splits)

lemma copyFileWithCp_run_not_abort:
  assumes "\<not> list_ex is_abort tr2"
  shows "\<not> list_ex is_abort
           (snd (copyFileWithCp_run W destBucketName destObjectKey cpFilePath routines ccp tr2 msgs))"
proof (cases "copyCheckpoint_todoParts ccp")
  case None
  with assms show ?thesis by (simp add: copyFileWithCp_run_def)
next
  case (Some parts)
  show ?thesis
  proof (cases "copyCheckpoint_getCompletedBytes ccp")
    case None
    with Some assms show ?thesis by (simp add: copyFileWithCp_run_def)
  next
    case cb0: (Some cb0)
    define imur where "imur = \<lparr>imur_Bucket = destBucketName, imur_Key = destObjectKey,
                                 imur_UploadID = ccp_CopyID ccp\<rparr>"
    define s0 :: "copyCheckpoint wstate" where
      "s0 = \<lparr>completed = 0, store = ccp, completedBytes = cb0,
             trace = tr2 @ [Publish TransferStartedEvent cb0 (os_Size (ccp_ObjStat ccp))] @
                     start_copy_workers routines imur parts\<rparr>"
    define r where "r = copyFileWithCp_wait W cpFilePath parts msgs s0"
    from copyFileWithCp_wait_trace [of W cpFilePath parts msgs s0] obtain ds where
      ds: "list_all progress_action ds" and
      tr: "trace (wait_state r) = trace s0 @ ds @
             (case r of
                Failed err s' \<Rightarrow>
                  [CloseDie,
                   Publish TransferFailedEvent (completedBytes s') (os_Size (ccp_ObjStat (store s')))]
              | _ \<Rightarrow> [])"
      unfolding r_def by blast
    have s0: "\<not> list_ex is_abort (trace s0)"
      using assms start_copy_workers_not_abort [of routines imur parts] by (simp add: s0_def)
    have run: "copyFileWithCp_run W destBucketName destObjectKey cpFilePath routines ccp tr2 msgs =
        (case r of
           Failed err s \<Rightarrow> (Return (Some err), trace s)
         | Panicked s \<Rightarrow> (Panic, trace s)
         | Blocked s \<Rightarrow> (Hang, trace s)
         | Finished s \<Rightarrow>
             (Return (fst (copyCheckpoint_complete W (store s) (ccp_CopyParts (store s)) cpFilePath)),
              (trace s @ [Publish TransferCompletedEvent (completedBytes s)
                            (os_Size (ccp_ObjStat (store s)))]) @
              snd (copyCheckpoint_complete W (store s) (ccp_CopyParts (store s)) cpFilePath)))"
      by (simp add: copyFileWithCp_run_def Some cb0 s0_def imur_def r_def Let_def split: wait.splits)
    show ?thesis
      unfolding run using tr s0 progress_not_abort [OF ds] copyCheckpoint_complete_not_abort
      by (cases r) simp_all
  qed
qed

lemma copyFileWithCp_not_abort:
  "\<not> list_ex is_abort
       (snd (copyFileWithCp W srcBucketName srcObjectKey destBucketName destObjectKey partSize
               cpFilePath routines msgs))"
proof -
  obtain r tr2 where
    res: "copyFileWithCp_resume W srcBucketName srcObjectKey destBucketName destObjectKey partSize
            cpFilePath = (r, tr2)"
    by (cases "copyFileWithCp_resume W srcBucketName srcObjectKey destBucketName destObjectKey
                 partSize cpFilePath")
  with copyFileWithCp_resume_not_abort
         [of W srcBucketName srcObjectKey destBucketName destObjectKey partSize cpFilePath]
  have tr2: "\<not> list_ex is_abort tr2" by simp
  show ?thesis
    using res tr2 copyFileWithCp_run_not_abort [OF tr2]
    by (auto simp: copyFileWithCp_def split: option.splits sum.splits)
qed

subsection \<open>The first error of a part\<close>


text \<open>
  C5, as the code has it. Take a run that, after the messages \<open>rs\<close>, is still waiting for
  parts. When the next message is an error from a worker, the run returns that error and
  its last actions are: in \<^verbatim>\<open>uploadFile\<close>, cancel the workers, publish the failure, abort
  the multipart upload that was initiated; in \<^verbatim>\<open>copyFile\<close>, cancel the workers, abort the
  multipart upload, publish the failure; in the two checkpointed coordinators, cancel the
  workers and publish the failure. A checkpointed run never aborts the multipart upload,
  whatever messages it receives.
\<close>

theorem first_part_error:
  "(uploadFile W bucketName objectKey filePath partSize routines rs = (Hang, trU) \<longrightarrow>
      (\<exists>imur cb tb.
         w_InitiateMultipartUpload W bucketName objectKey = Inr imur \<and>
         uploadFile W bucketName objectKey filePath partSize routines (rs @ Failure err # rest) =
           (Return (Some err),
            trU @ [CloseDie, Publish TransferFailedEvent cb tb, AbortMultipartUpload imur]))) \<and>
   (copyFile W srcBucketName srcObjectKey bucketName objectKey partSize routines rs = (Hang, trC) \<longrightarrow>
      (\<exists>imur cb tb.
         w_InitiateMultipartUpload W bucketName objectKey = Inr imur \<and>
         copyFile W srcBucketName srcObjectKey bucketName objectKey partSize routines
             (rs @ Failure err # rest) =
           (Return (Some err),
            trC @ [CloseDie, AbortMultipartUpload imur, Publish TransferFailedEvent cb tb]))) \<and>
   (uploadFileWithCp W bucketName objectKey filePath partSize cpFilePath routines rs = (Hang, trV) \<longrightarrow>
      (\<exists>cb tb.
         uploadFileWithCp W bucketName objectKey filePath partSize cpFilePath routines
             (rs @ Failure err # rest) =
           (Return (Some err), trV @ [CloseDie, Publish TransferFailedEvent cb tb]))) \<and>
   (copyFileWithCp W srcBucketName srcObjectKey bucketName objectKey partSize cpFilePath routines rs =
        (Hang, trW) \<longrightarrow>
      (\<exists>cb tb.
         copyFileWithCp W srcBucketName srcObjectKey bucketName objectKey partSize cpFilePath
             routines (rs @ Failure err # rest) =
           (Return (Some err), trW @ [CloseDie, Publish TransferFailedEvent cb tb]))) \<and>
   \<not> list_ex is_abort
       (snd (uploadFileWithCp W bucketName objectKey filePath partSize cpFilePath routines msgs)) \<and>
   \<not> list_ex is_abort
       (snd (copyFileWithCp W srcBucketName srcObjectKey bucketName objectKey partSize cpFilePath
               routines msgs))"
proof (intro conjI impI)
  assume "uploadFile W bucketName objectKey filePath partSize routines rs = (Hang, trU)"
  then show "\<exists>imur cb tb.
      w_InitiateMultipartUpload W bucketName objectKey = Inr imur \<and>
      uploadFile W bucketName objectKey filePath partSize routines (rs @ Failure err # rest) =
        (Return (Some err),
         trU @ [CloseDie, Publish TransferFailedEvent cb tb, AbortMultipartUpload imur])"
    by (rule uploadFile_first_error)
next
  assume "copyFile W srcBucketName srcObjectKey bucketName objectKey partSize routines rs = (Hang, trC)"
  then show "\<exists>imur cb tb.
      w_InitiateMultipartUpload W bucketName objectKey = Inr imur \<and>
      copyFile W srcBucketName srcObjectKey bucketName objectKey partSize routines
          (rs @ Failure err # rest) =
        (Return (Some err),
         trC @ [CloseDie, AbortMultipartUpload imur, Publish TransferFailedEvent cb tb])"
    by (rule copyFile_first_error)
next
  assume "uploadFileWithCp W bucketName objectKey filePath partSize cpFilePath routines rs = (Hang, trV)"
  then show "\<exists>cb tb.
      uploadFileWithCp W bucketName objectKey filePath partSize cpFilePath routines
          (rs @ Failure err # rest) =
        (Return (Some err), trV @ [CloseDie, Publish TransferFailedEvent cb tb])"
    by (rule uploadFileWithCp_first_error)
next
  assume "copyFileWithCp W srcBucketName srcObjectKey bucketName objectKey partSize cpFilePath
            routines rs = (Hang, trW)"
  then show "\<exists>cb tb.
      copyFileWithCp W srcBucketName srcObjectKey bucketName objectKey partSize cpFilePath
          routines (rs @ Failure err # rest) =
        (Return (Some err), trW @ [CloseDie, Publish TransferFailedEvent cb tb])"
    by (rule copyFileWithCp_first_error)
next
  show "\<not> list_ex is_abort
      (snd (uploadFileWithCp W bucketName objectKey filePath partSize cpFilePath routines msgs))"
    by (rule uploadFileWithCp_not_abort)
next
  show "\<not> list_ex is_abort
      (snd (copyFileWithCp W srcBucketName srcObjectKey bucketName objectKey partSize cpFilePath
              routines msgs))"
    by (rule copyFileWithCp_not_abort)
qed

theorem first_part_error_witness:
  "uploadFile sample_world ''b'' ''k'' ''f'' 102400 1 [Result part1, Failure ErrorHooker] =
     (Return (Some ErrorHooker),
      [InitiateMultipartUpload ''b'' ''k'', Publish TransferStartedEvent 0 204800,
       GoWorker 1 sample_imur, GoScheduler sample_chunks,
       Publish TransferDataEvent 102400 204800,
       CloseDie, Publish TransferFailedEvent 102400 204800, AbortMultipartUpload sample_imur]) \<and>
   (\<exists>cb tb.
      uploadFileWithCp sample_world ''b'' ''k'' ''f'' 102400 ''f.cp'' 1
          [Result part1, Failure ErrorHooker] =
        (Return (Some ErrorHooker),
         [Remove ''f.cp'', InitiateMultipartUpload ''b'' ''k'', Remove ''f.cp'',
          Publish TransferStartedEvent 0 204800,
          GoWorker 1 sample_imur, GoScheduler sample_chunks,
          WriteFile ''f.cp'' ''#:10:10'' 420,
          Publish TransferDataEvent 102400 204800,
          CloseDie, Publish TransferFailedEvent cb tb])) \<and>
   (\<exists>cb tb.
      copyFileWithCp sample_world ''sb'' ''sk'' ''b'' ''k'' 102400 ''k.cp'' 1
          [Result part1, Failure ErrorHooker] =
        (Return (Some ErrorHooker),
         [Remove ''k.cp'', GetObjectDetailedMeta ''sb'' ''sk'', GetObjectDetailedMeta ''sb'' ''sk'',
          InitiateMultipartUpload ''b'' ''k'', Remove ''k.cp'',
          Publish TransferStartedEvent 0 204800,
          GoCopyWorker 1 sample_imur, GoCopyScheduler sample_copy_parts,
          WriteFile ''k.cp'' ''#:10:10'' 420,
          Publish TransferDataEvent 102400 204800,
          CloseDie, Publish TransferFailedEvent cb tb])) \<and>
   (\<exists>imur cb tb.
      copyFile sample_world ''sb'' ''sk'' ''b'' ''k'' 102400 1 [Result part1, Failure ErrorHooker] =
        (Return (Some ErrorHooker),
         [GetObjectDetailedMeta ''sb'' ''sk'', InitiateMultipartUpload ''b'' ''k'',
          Publish TransferStartedEvent 0 204800,
          GoCopyWorker 1 sample_imur, GoCopyScheduler sample_copy_parts,
          Publish TransferDataEvent 102400 204800,
          CloseDie, AbortMultipartUpload imur, Publish TransferFailedEvent cb tb]))"
proof -
  note inst = first_part_error
    [where W = sample_world and bucketName = "''b''" and objectKey = "''k''"
       and filePath = "''f''" and partSize = 102400 and routines = 1 and rs = "[Result part1]"
       and err = ErrorHooker and rest = "[]" and srcBucketName = "''sb''"
       and srcObjectKey = "''sk''"]
  from inst [where cpFilePath = "''f.cp''"] sample_uploadFile_waiting
  obtain imur cb tb where
    u1: "w_InitiateMultipartUpload sample_world ''b'' ''k'' = Inr imur" and
    u2: "uploadFile sample_world ''b'' ''k'' ''f'' 102400 1 ([Result part1] @ [Failure ErrorHooker]) =
      (Return (Some ErrorHooker),
       [InitiateMultipartUpload ''b'' ''k'', Publish TransferStartedEvent 0 204800,
        GoWorker 1 sample_imur, GoScheduler sample_chunks,
        Publish TransferDataEvent 102400 204800] @
       [CloseDie, Publish TransferFailedEvent cb tb, AbortMultipartUpload imur])"
    by blast
  have u: "uploadFile sample_world ''b'' ''k'' ''f'' 102400 1 [Result part1, Failure ErrorHooker] =
     (Return (Some ErrorHooker),
      [InitiateMultipartUpload ''b'' ''k'', Publish TransferStartedEvent 0 204800,
       GoWorker 1 sample_imur, GoScheduler sample_chunks,
       Publish TransferDataEvent 102400 204800,
       CloseDie, Publish TransferFailedEvent 102400 204800, AbortMultipartUpload sample_imur])"
    by (simp add: uploadFile_def sample_world_fields part1_def sample_imur_def sample_chunks_def
          getTotalBytes_def start_workers_def Let_def UploadPart_zero_def)
  from inst [where cpFilePath = "''f.cp''"] sample_uploadFileWithCp_waiting
  have v: "\<exists>cb tb.
      uploadFileWithCp sample_world ''b'' ''k'' ''f'' 102400 ''f.cp'' 1
          ([Result part1] @ [Failure ErrorHooker]) =
        (Return (Some ErrorHooker),
         [Remove ''f.cp'', InitiateMultipartUpload ''b'' ''k'', Remove ''f.cp'',
          Publish TransferStartedEvent 0 204800,
          GoWorker 1 sample_imur, GoScheduler sample_chunks,
          WriteFile ''f.cp'' ''#:10:10'' 420,
          Publish TransferDataEvent 102400 204800] @
         [CloseDie, Publish TransferFailedEvent cb tb])"
    by blast
  from inst [where cpFilePath = "''k.cp''"] sample_copyFileWithCp_waiting
  have w: "\<exists>cb tb.
      copyFileWithCp sample_world ''sb'' ''sk'' ''b'' ''k'' 102400 ''k.cp'' 1
          ([Result part1] @ [Failure ErrorHooker]) =
        (Return (Some ErrorHooker),
         [Remove ''k.cp'', GetObjectDetailedMeta ''sb'' ''sk'', GetObjectDetailedMeta ''sb'' ''sk'',
          InitiateMultipartUpload ''b'' ''k'', Remove ''k.cp'',
          Publish TransferStartedEvent 0 204800,
          GoCopyWorker 1 sample_imur, GoCopyScheduler sample_copy_parts,
          WriteFile ''k.cp'' ''#:10:10'' 420,
          Publish TransferDataEvent 102400 204800] @
         [CloseDie, Publish TransferFailedEvent cb tb])"
    by blast
  from inst [where cpFilePath = "''k.cp''"] sample_copyFile_waiting
  have c: "\<exists>imur cb tb.
      copyFile sample_world ''sb'' ''sk'' ''b'' ''k'' 102400 1 ([Result part1] @ [Failure ErrorHooker]) =
        (Return (Some ErrorHooker),
         [GetObjectDetailedMeta ''sb'' ''sk'', InitiateMultipartUpload ''b'' ''k'',
          Publish TransferStartedEvent 0 204800,
          GoCopyWorker 1 sample_imur, GoCopyScheduler sample_copy_parts,
          Publish TransferDataEvent 102400 204800] @
         [CloseDie, AbortMultipartUpload imur, Publish TransferFailedEvent cb tb])"
    by blast
  from u v w c show ?thesis by simp
qed

text \<open>
  C5 as stated puts the failure event before the abort in every run without checkpoint.
  In \<^verbatim>\<open>copyFile\<close> the abort comes first: here part 1 arrives and then a worker fails.
\<close>

theorem copyFile_abort_before_failed_counterexample:
  "copyFile sample_world ''sb'' ''sk'' ''b'' ''k'' 102400 1 [Result part1, Failure ErrorHooker] =
     (Return (Some ErrorHooker),
      [GetObjectDetailedMeta ''sb'' ''sk'', InitiateMultipartUpload ''b'' ''k'',
       Publish TransferStartedEvent 0 204800,
       GoCopyWorker 1 sample_imur, GoCopyScheduler sample_copy_parts,
       Publish TransferDataEvent 102400 204800,
       CloseDie, AbortMultipartUpload sample_imur, Publish TransferFailedEvent 102400 204800])"
  by (simp add: copyFile_def sample_getCopyParts)
     (simp add: sample_world_fields part1_def sample_imur_def sample_copy_parts_def
        getSrcObjectBytes_def start_copy_workers_def Let_def UploadPart_zero_def)

section \<open>The life cycle of a run\<close>

lemma marks_append: "marks (xs @ ys) = marks xs @ marks ys"
  by (induction xs rule: marks.induct) simp_all

lemma marks_progress: "list_all progress_action ds \<Longrightarrow> marks ds = []"
proof (induction ds)
  case Nil
  show ?case by simp
next
  case (Cons a ds)
  then show ?case by (cases a) simp_all
qed

lemma marks_workers: "marks (map (\<lambda>w. GoWorker w imur) ws) = []"
  by (induction ws) simp_all

lemma marks_copy_workers: "marks (map (\<lambda>w. GoCopyWorker w imur) ws) = []"
  by (induction ws) simp_all

lemma marks_start_workers: "marks (start_workers routines imur chunks) = [Scheduled]"
  by (simp add: start_workers_def marks_append marks_workers)

lemma marks_start_copy_workers: "marks (start_copy_workers routines imur parts) = [Scheduled]"
  by (simp add: start_copy_workers_def marks_append marks_copy_workers)

lemma marks_uploadFileWithCp_resume:
  "marks (snd (uploadFileWithCp_resume W bucketName objectKey filePath partSize cpFilePath)) = []"
  by (auto simp: uploadFileWithCp_resume_def prepare_def Let_def marks_append
           split: sum.splits prod.splits)

lemma marks_getCopyParts: "marks (snd (getCopyParts W bucketName objectKey partSize)) = []"
  by (simp add: getCopyParts_def split: sum.splits)

lemma marks_copyCheckpoint_prepare:
  "marks (snd (copyCheckpoint_prepare W cp srcBucketName srcObjectKey destBucketName destObjectKey
                 partSize)) = []"
  using marks_getCopyParts [of W srcBucketName srcObjectKey partSize]
  by (auto simp: copyCheckpoint_prepare_def Let_def marks_append
           split: sum.splits prod.splits option.splits)

lemma marks_copyCheckpoint_isValid:
  "marks (snd (copyCheckpoint_isValid W cp bucketName objectKey)) = []"
  by (simp add: copyCheckpoint_isValid_def Let_def split: sum.splits)

lemma marks_copyFileWithCp_resume:
  "marks (snd (copyFileWithCp_resume W srcBucketName srcObjectKey destBucketName destObjectKey
                 partSize cpFilePath)) = []"
  using marks_copyCheckpoint_prepare
          [of W "snd (copyCheckpoint_load W copyCheckpoint_zero cpFilePath)" srcBucketName
             srcObjectKey destBucketName destObjectKey partSize]
        marks_copyCheckpoint_isValid
          [of W "snd (copyCheckpoint_load W copyCheckpoint_zero cpFilePath)" srcBucketName
             srcObjectKey]
  by (auto simp: copyFileWithCp_resume_def Let_def marks_append
           split: sum.splits prod.splits option.splits)

lemma marks_complete:
  "marks (snd (complete W cp bucketName parts cpFilePath)) = [CompleteCalled]"
  by (simp add: complete_def Let_def split: option.splits)

lemma marks_copyCheckpoint_complete:
  "marks (snd (copyCheckpoint_complete W cp parts cpFilePath)) = [CompleteCalled]"
  by (simp add: copyCheckpoint_complete_def Let_def split: option.splits)

lemma marks_uploadFileWithCp_run:
  assumes "marks tr1 = []"
  shows "marks (snd (uploadFileWithCp_run W bucketName objectKey cpFilePath routines ucp tr1 msgs)) \<in>
           {[Event TransferStartedEvent, Scheduled],
            [Event TransferStartedEvent, Scheduled, Cancelled, Event TransferFailedEvent],
            [Event TransferStartedEvent, Scheduled, Event TransferCompletedEvent, CompleteCalled]}"
proof -
  define chunks where "chunks = uploadCheckpoint_todoParts ucp"
  define imur where "imur = \<lparr>imur_Bucket = bucketName, imur_Key = objectKey,
                               imur_UploadID = ucp_UploadID ucp\<rparr>"
  define s0 :: "uploadCheckpoint wstate" where
    "s0 = \<lparr>completed = 0, store = ucp,
           completedBytes = uploadCheckpoint_getCompletedBytes ucp,
           trace = tr1 @
                   [Publish TransferStartedEvent (uploadCheckpoint_getCompletedBytes ucp)
                      (st_Size (ucp_FileStat ucp))] @
                   start_workers routines imur chunks\<rparr>"
  define r where "r = uploadFileWithCp_wait W cpFilePath chunks msgs s0"
  from uploadFileWithCp_wait_trace [of W cpFilePath chunks msgs s0] obtain ds where
    ds: "list_all progress_action ds" and
    tr: "trace (wait_state r) = trace s0 @ ds @
           (case r of
              Failed err s' \<Rightarrow>
                [CloseDie,
                 Publish TransferFailedEvent (completedBytes s') (st_Size (ucp_FileStat (store s')))]
            | _ \<Rightarrow> [])"
    unfolding r_def by blast
  have s0: "marks (trace s0) = [Event TransferStartedEvent, Scheduled]"
    using assms by (simp add: s0_def marks_append marks_start_workers)
  have run: "uploadFileWithCp_run W bucketName objectKey cpFilePath routines ucp tr1 msgs =
      (case r of
         Failed err s \<Rightarrow> (Return (Some err), trace s)
       | Panicked s \<Rightarrow> (Panic, trace s)
       | Blocked s \<Rightarrow> (Hang, trace s)
       | Finished s \<Rightarrow>
           (Return (fst (complete W (store s) bucketName (allParts (store s)) cpFilePath)),
            (trace s @ [Publish TransferCompletedEvent (completedBytes s)
                          (st_Size (ucp_FileStat (store s)))]) @
            snd (complete W (store s) bucketName (allParts (store s)) cpFilePath)))"
    by (simp add: uploadFileWithCp_run_def chunks_def s0_def imur_def r_def Let_def split: wait.splits)
  show ?thesis
    unfolding run using tr s0 marks_progress [OF ds]
    by (cases r) (simp_all add: marks_append marks_complete)
qed


lemma marks_copyFileWithCp_run:
  assumes "marks tr2 = []"
  shows "marks (snd (copyFileWithCp_run W destBucketName destObjectKey cpFilePath routines ccp tr2
                       msgs)) \<in>
           (if copyCheckpoint_todoParts ccp = None \<or> copyCheckpoint_getCompletedBytes ccp = None
            then {[]}
            else {[Event TransferStartedEvent, Scheduled],
                  [Event TransferStartedEvent, Scheduled, Cancelled, Event TransferFailedEvent],
                  [Event TransferStartedEvent, Scheduled, Event TransferCompletedEvent,
                   CompleteCalled]})"
proof (cases "copyCheckpoint_todoParts ccp")
  case None
  with assms show ?thesis by (simp add: copyFileWithCp_run_def)
next
  case (Some parts)
  show ?thesis
  proof (cases "copyCheckpoint_getCompletedBytes ccp")
    case None
    with Some assms show ?thesis by (simp add: copyFileWithCp_run_def)
  next
    case cb0: (Some cb0)
    define imur where "imur = \<lparr>imur_Bucket = destBucketName, imur_Key = destObjectKey,
                                 imur_UploadID = ccp_CopyID ccp\<rparr>"
    define s0 :: "copyCheckpoint wstate" where
      "s0 = \<lparr>completed = 0, store = ccp, completedBytes = cb0,
             trace = tr2 @ [Publish TransferStartedEvent cb0 (os_Size (ccp_ObjStat ccp))] @
                     start_copy_workers routines imur parts\<rparr>"
    define r where "r = copyFileWithCp_wait W cpFilePath parts msgs s0"
    from copyFileWithCp_wait_trace [of W cpFilePath parts msgs s0] obtain ds where
      ds: "list_all progress_action ds" and
      tr: "trace (wait_state r) = trace s0 @ ds @
             (case r of
                Failed err s' \<Rightarrow>
                  [CloseDie,
                   Publish TransferFailedEvent (completedBytes s') (os_Size (ccp_ObjStat (store s')))]
              | _ \<Rightarrow> [])"
      unfolding r_def by blast
    have s0: "marks (trace s0) = [Event TransferStartedEvent, Scheduled]"
      using assms by (simp add: s0_def marks_append marks_start_copy_workers)
    have run: "copyFileWithCp_run W destBucketName destObjectKey cpFilePath routines ccp tr2 msgs =
        (case r of
           Failed err s \<Rightarrow> (Return (Some err), trace s)
         | Panicked s \<Rightarrow> (Panic, trace s)
         | Blocked s \<Rightarrow> (Hang, trace s)
         | Finished s \<Rightarrow>
             (Return (fst (copyCheckpoint_complete W (store s) (ccp_CopyParts (store s)) cpFilePath)),
              (trace s @ [Publish TransferCompletedEvent (completedBytes s)
                            (os_Size (ccp_ObjStat (store s)))]) @
              snd (copyCheckpoint_complete W (store s) (ccp_CopyParts (store s)) cpFilePath)))"
      by (simp add: copyFileWithCp_run_def Some cb0 s0_def imur_def r_def Let_def split: wait.splits)
    show ?thesis
      unfolding run using tr s0 marks_progress [OF ds] Some cb0
      by (cases r) (simp_all add: marks_append marks_copyCheckpoint_complete)
  qed
qed

lemma marks_uploadFileWithCp:
  "marks (snd (uploadFileWithCp W bucketName objectKey filePath partSize cpFilePath routines msgs)) \<in>
     (case fst (uploadFileWithCp_resume W bucketName objectKey filePath partSize cpFilePath) of
        Inl err \<Rightarrow> {[]}
      | Inr ucp \<Rightarrow>
          {[Event TransferStartedEvent, Scheduled],
           [Event TransferStartedEvent, Scheduled, Cancelled, Event TransferFailedEvent],
           [Event TransferStartedEvent, Scheduled, Event TransferCompletedEvent, CompleteCalled]})"
proof -
  obtain r tr1 where
    res: "uploadFileWithCp_resume W bucketName objectKey filePath partSize cpFilePath = (r, tr1)"
    by (cases "uploadFileWithCp_resume W bucketName objectKey filePath partSize cpFilePath")
  with marks_uploadFileWithCp_resume [of W bucketName objectKey filePath partSize cpFilePath]
  have tr1: "marks tr1 = []" by simp
  show ?thesis
    using res tr1 marks_uploadFileWithCp_run [OF tr1, of W bucketName objectKey cpFilePath routines _ msgs]
    by (cases r) (auto simp: uploadFileWithCp_def)
qed

lemma marks_copyFileWithCp:
  "marks (snd (copyFileWithCp W srcBucketName srcObjectKey destBucketName destObjectKey partSize
                 cpFilePath routines msgs)) \<in>
     (case fst (copyFileWithCp_resume W srcBucketName srcObjectKey destBucketName destObjectKey
                  partSize cpFilePath) of
        Some (Inr ccp) \<Rightarrow>
          (if copyCheckpoint_todoParts ccp = None \<or> copyCheckpoint_getCompletedBytes ccp = None
           then {[]}
           else {[Event TransferStartedEvent, Scheduled],
                 [Event TransferStartedEvent, Scheduled, Cancelled, Event TransferFailedEvent],
                 [Event TransferStartedEvent, Scheduled, Event TransferCompletedEvent,
                  CompleteCalled]})
      | _ \<Rightarrow> {[]})"
proof -
  obtain r tr2 where
    res: "copyFileWithCp_resume W srcBucketName srcObjectKey destBucketName destObjectKey partSize
            cpFilePath = (r, tr2)"
    by (cases "copyFileWithCp_resume W srcBucketName srcObjectKey destBucketName destObjectKey
                 partSize cpFilePath")
  with marks_copyFileWithCp_resume
         [of W srcBucketName srcObjectKey destBucketName destObjectKey partSize cpFilePath]
  have tr2: "marks tr2 = []" by simp
  show ?thesis
    using res tr2
      marks_copyFileWithCp_run [OF tr2, of W destBucketName destObjectKey cpFilePath routines _ msgs]
    by (auto simp: copyFileWithCp_def split: option.splits sum.splits)
qed

lemma marks_copyFile:
  "marks (snd (copyFile W srcBucketName srcObjectKey destBucketName destObjectKey partSize routines
                 msgs)) \<in>
     (case fst (getCopyParts W srcBucketName srcObjectKey partSize) of
        Some (Inr parts) \<Rightarrow>
          (case w_InitiateMultipartUpload W destBucketName destObjectKey of
             Inl err \<Rightarrow> {[]}
           | Inr imur \<Rightarrow>
               {[Event TransferStartedEvent, Scheduled],
                [Event TransferStartedEvent, Scheduled, Cancelled, AbortCalled,
                 Event TransferFailedEvent],
                [Event TransferStartedEvent, Scheduled, Event TransferCompletedEvent,
                 CompleteCalled],
                [Event TransferStartedEvent, Scheduled, Event TransferCompletedEvent,
                 CompleteCalled, AbortCalled]})
      | _ \<Rightarrow> {[]})"
proof -
  obtain planned acts where gp: "getCopyParts W srcBucketName srcObjectKey partSize = (planned, acts)"
    by (cases "getCopyParts W srcBucketName srcObjectKey partSize")
  with marks_getCopyParts [of W srcBucketName srcObjectKey partSize]
  have acts: "marks acts = []" by simp
  show ?thesis
  proof (cases planned)
    case None
    with gp acts show ?thesis by (simp add: copyFile_def)
  next
    case (Some planned')
    show ?thesis
    proof (cases planned')
      case (Inl err)
      with gp Some acts show ?thesis by (simp add: copyFile_def)
    next
      case (Inr parts)
      show ?thesis
      proof (cases "w_InitiateMultipartUpload W destBucketName destObjectKey")
        case (Inl err)
        with gp Some Inr acts show ?thesis by (simp add: copyFile_def marks_append)
      next
        case init: (Inr imur)
        define s0 :: "UploadPart list wstate" where
          "s0 = \<lparr>completed = 0, store = replicate (length parts) UploadPart_zero,
                 completedBytes = 0,
                 trace = acts @ [InitiateMultipartUpload destBucketName destObjectKey,
                                 Publish TransferStartedEvent 0 (getSrcObjectBytes parts)] @
                         start_copy_workers routines imur parts\<rparr>"
        define r where "r = copyFile_wait parts (getSrcObjectBytes parts) imur msgs s0"
        from copyFile_wait_trace [of parts "getSrcObjectBytes parts" imur msgs s0] obtain ds where
          ds: "list_all progress_action ds" and
          tr: "trace (wait_state r) = trace s0 @ ds @
                 (case r of
                    Failed err s' \<Rightarrow>
                      [CloseDie, AbortMultipartUpload imur,
                       Publish TransferFailedEvent (completedBytes s') (getSrcObjectBytes parts)]
                  | _ \<Rightarrow> [])"
          unfolding r_def by blast
        have s0: "marks (trace s0) = [Event TransferStartedEvent, Scheduled]"
          using acts by (simp add: s0_def marks_append marks_start_copy_workers)
        have run: "copyFile W srcBucketName srcObjectKey destBucketName destObjectKey partSize
              routines msgs =
            (case r of
               Failed err s \<Rightarrow> (Return (Some err), trace s)
             | Panicked s \<Rightarrow> (Panic, trace s)
             | Blocked s \<Rightarrow> (Hang, trace s)
             | Finished s \<Rightarrow>
                 (case w_CompleteMultipartUpload W imur (store s) of
                    Some err \<Rightarrow>
                      (Return (Some err),
                       (trace s @ [Publish TransferCompletedEvent (completedBytes s)
                                     (getSrcObjectBytes parts)]) @
                       [CompleteMultipartUpload imur (store s), AbortMultipartUpload imur])
                  | None \<Rightarrow>
                      (Return None,
                       (trace s @ [Publish TransferCompletedEvent (completedBytes s)
                                     (getSrcObjectBytes parts)]) @
                       [CompleteMultipartUpload imur (store s)])))"
          by (simp add: copyFile_def gp Some Inr init s0_def r_def Let_def split: wait.splits)
        show ?thesis
          unfolding run using tr s0 marks_progress [OF ds] gp Some Inr init
          by (cases r) (simp_all add: marks_append split: option.splits)
      qed
    qed
  qed
qed

lemma marks_uploadFile:
  assumes "w_SplitFileByPartSize W filePath partSize = Inr chunks"
    and "w_InitiateMultipartUpload W bucketName objectKey = Inr imur"
  shows "\<exists>later. marks (snd (uploadFile W bucketName objectKey filePath partSize routines msgs)) =
                  Event TransferStartedEvent # Scheduled # later"
proof -
  define s0 :: "UploadPart list wstate" where
    "s0 = \<lparr>completed = 0, store = replicate (length chunks) UploadPart_zero, completedBytes = 0,
           trace = [InitiateMultipartUpload bucketName objectKey,
                    Publish TransferStartedEvent 0 (getTotalBytes chunks)] @
                   start_workers routines imur chunks\<rparr>"
  define r where "r = uploadFile_wait chunks (getTotalBytes chunks) imur msgs s0"
  from uploadFile_wait_trace [of chunks "getTotalBytes chunks" imur msgs s0] obtain ds where
    ds: "list_all progress_action ds" and
    tr: "trace (wait_state r) = trace s0 @ ds @
           (case r of
              Failed err s' \<Rightarrow>
                [CloseDie, Publish TransferFailedEvent (completedBytes s') (getTotalBytes chunks),
                 AbortMultipartUpload imur]
            | _ \<Rightarrow> [])"
    unfolding r_def by blast
  have s0: "marks (trace s0) = [Event TransferStartedEvent, Scheduled]"
    by (simp add: s0_def marks_append marks_start_workers)
  have run: "uploadFile W bucketName objectKey filePath partSize routines msgs =
      (case r of
         Failed err s \<Rightarrow> (Return (Some err), trace s)
       | Panicked s \<Rightarrow> (Panic, trace s)
       | Blocked s \<Rightarrow> (Hang, trace s)
       | Finished s \<Rightarrow>
           (case w_CompleteMultipartUpload W imur (store s) of
              Some err \<Rightarrow>
                (Return (Some err),
                 (trace s @ [Publish TransferStartedEvent (completedBytes s) (getTotalBytes chunks)]) @
                 [CompleteMultipartUpload imur (store s), AbortMultipartUpload imur])
            | None \<Rightarrow>
                (Return None,
                 (trace s @ [Publish TransferStartedEvent (completedBytes s) (getTotalBytes chunks)]) @
                 [CompleteMultipartUpload imur (store s)])))"
    by (simp add: uploadFile_def assms s0_def r_def Let_def split: wait.splits)
  show ?thesis
    unfolding run using tr s0 marks_progress [OF ds]
    by (cases r) (simp_all add: marks_append split: option.splits)
qed

subsection \<open>Runs in which every part arrives\<close>

lemma copyFile_wait_all:
  assumes "completed s + length rs = length parts"
    and "length (store s) = length parts"
    and "\<forall>r\<in>set rs. 1 \<le> up_PartNumber r \<and> up_PartNumber r \<le> int (length parts)"
  shows "\<exists>s'. copyFile_wait parts totalBytes imur (map Result rs @ rest) s = Finished s' \<and>
              completedBytes s' =
                completedBytes s +
                sum_list (map (\<lambda>k. cpt_End (parts ! nat (k - 1)) - cpt_Start (parts ! nat (k - 1)) + 1)
                            (map up_PartNumber rs))"
  using assms
proof (induction rs arbitrary: s)
  case Nil
  then have "copyFile_wait parts totalBytes imur rest s = Finished s"
    by (cases rest) simp_all
  then show ?case by simp
next
  case (Cons r rs)
  let ?i = "up_PartNumber r - 1"
  let ?cb = "completedBytes s + (cpt_End (parts ! nat ?i) - cpt_Start (parts ! nat ?i) + 1)"
  let ?s = "s\<lparr>completed := completed s + 1, store := (store s)[nat ?i := r],
              completedBytes := ?cb,
              trace := trace s @ [Publish TransferDataEvent ?cb totalBytes]\<rparr>"
  from Cons.prems have waiting: "completed s < length parts"
    and range: "0 \<le> ?i \<and> ?i < int (length (store s)) \<and> ?i < int (length parts)"
    by simp_all
  have step: "copyFile_wait parts totalBytes imur (map Result (r # rs) @ rest) s =
      copyFile_wait parts totalBytes imur (map Result rs @ rest) ?s"
    using waiting range by (simp add: Let_def)
  from Cons.prems have "completed ?s + length rs = length parts"
    and "length (store ?s) = length parts"
    and "\<forall>r\<in>set rs. 1 \<le> up_PartNumber r \<and> up_PartNumber r \<le> int (length parts)"
    by simp_all
  from Cons.IH [OF this] obtain s' where
    "copyFile_wait parts totalBytes imur (map Result rs @ rest) ?s = Finished s'"
    "completedBytes s' =
       completedBytes ?s +
       sum_list (map (\<lambda>k. cpt_End (parts ! nat (k - 1)) - cpt_Start (parts ! nat (k - 1)) + 1)
                   (map up_PartNumber rs))"
    by blast
  with step show ?case
    by (intro exI [of _ s']) (simp add: add.assoc)
qed

lemma copyFile_all_parts:
  assumes gp: "getCopyParts W srcBucketName srcObjectKey partSize = (Some (Inr parts), acts)"
    and init: "w_InitiateMultipartUpload W destBucketName destObjectKey = Inr imur"
    and once: "distinct (map up_PartNumber rs)"
    and every: "set (map up_PartNumber rs) = {1..int (length parts)}"
  shows "\<exists>ds ups. list_all progress_action ds \<and>
           copyFile W srcBucketName srcObjectKey destBucketName destObjectKey partSize routines
               (map Result rs @ rest) =
             (Return (w_CompleteMultipartUpload W imur ups),
              acts @
              [InitiateMultipartUpload destBucketName destObjectKey,
               Publish TransferStartedEvent 0 (getSrcObjectBytes parts)] @
              start_copy_workers routines imur parts @ ds @
              [Publish TransferCompletedEvent (getSrcObjectBytes parts) (getSrcObjectBytes parts),
               CompleteMultipartUpload imur ups] @
              (case w_CompleteMultipartUpload W imur ups of
                 Some err \<Rightarrow> [AbortMultipartUpload imur]
               | None \<Rightarrow> []))"
proof -
  define s0 :: "UploadPart list wstate" where
    "s0 = \<lparr>completed = 0, store = replicate (length parts) UploadPart_zero, completedBytes = 0,
           trace = acts @
                   [InitiateMultipartUpload destBucketName destObjectKey,
                    Publish TransferStartedEvent 0 (getSrcObjectBytes parts)] @
                   start_copy_workers routines imur parts\<rparr>"
  have numbers: "set (map up_PartNumber rs) =
      {k. 1 \<le> k \<and> k \<le> int (length parts) \<and> (\<lambda>i. True) (nat (k - 1))}"
    using every by auto
  from length_reported [OF once numbers] have len: "length rs = length parts"
    by simp
  have bounds: "\<forall>r\<in>set rs. 1 \<le> up_PartNumber r \<and> up_PartNumber r \<le> int (length parts)"
    using every by auto
  from len have "completed s0 + length rs = length parts" and "length (store s0) = length parts"
    by (simp_all add: s0_def)
  from copyFile_wait_all [OF this bounds, of "getSrcObjectBytes parts" imur rest]
  obtain s' where
    fin: "copyFile_wait parts (getSrcObjectBytes parts) imur (map Result rs @ rest) s0 = Finished s'"
    and cb: "completedBytes s' =
       completedBytes s0 +
       sum_list (map (\<lambda>k. cpt_End (parts ! nat (k - 1)) - cpt_Start (parts ! nat (k - 1)) + 1)
                   (map up_PartNumber rs))"
    by blast
  from sum_list_reported [OF once numbers,
      of "\<lambda>i. cpt_End (parts ! i) - cpt_Start (parts ! i) + 1"] cb
  have all_bytes: "completedBytes s' = getSrcObjectBytes parts"
    by (simp add: s0_def getSrcObjectBytes_sum)
  from copyFile_wait_trace [of parts "getSrcObjectBytes parts" imur "map Result rs @ rest" s0] fin
  obtain ds where ds: "list_all progress_action ds" and tr: "trace s' = trace s0 @ ds"
    by auto
  have run: "copyFile W srcBucketName srcObjectKey destBucketName destObjectKey partSize routines
          (map Result rs @ rest) =
      (case copyFile_wait parts (getSrcObjectBytes parts) imur (map Result rs @ rest) s0 of
         Failed err s \<Rightarrow> (Return (Some err), trace s)
       | Panicked s \<Rightarrow> (Panic, trace s)
       | Blocked s \<Rightarrow> (Hang, trace s)
       | Finished s \<Rightarrow>
           (let tr = trace s @
                     [Publish TransferCompletedEvent (completedBytes s) (getSrcObjectBytes parts)]
            in case w_CompleteMultipartUpload W imur (store s) of
                 Some err \<Rightarrow>
                   (Return (Some err),
                    tr @ [CompleteMultipartUpload imur (store s), AbortMultipartUpload imur])
               | None \<Rightarrow> (Return None, tr @ [CompleteMultipartUpload imur (store s)])))"
    by (simp add: copyFile_def gp init s0_def Let_def)
  have "copyFile W srcBucketName srcObjectKey destBucketName destObjectKey partSize routines
          (map Result rs @ rest) =
      (Return (w_CompleteMultipartUpload W imur (store s')),
       (trace s' @ [Publish TransferCompletedEvent (completedBytes s') (getSrcObjectBytes parts)]) @
       CompleteMultipartUpload imur (store s') #
       (case w_CompleteMultipartUpload W imur (store s') of
          Some err \<Rightarrow> [AbortMultipartUpload imur]
        | None \<Rightarrow> []))"
    unfolding run fin by (simp add: Let_def split: option.splits)
  with ds tr all_bytes show ?thesis
    by (intro exI [of _ ds] exI [of _ "store s'"]) (simp add: s0_def)
qed

lemma updatePart_chunks:
  assumes "updatePart cp part = Some cp'"
  shows "map pt_Chunk (ucp_Parts cp') = map pt_Chunk (ucp_Parts cp) \<and>
         ucp_FileStat cp' = ucp_FileStat cp \<and> ucp_UploadID cp' = ucp_UploadID cp \<and>
         ucp_ObjectKey cp' = ucp_ObjectKey cp"
proof -
  let ?i = "nat (up_PartNumber part - 1)"
  from assms have i: "?i < length (ucp_Parts cp)"
    and cp': "cp' = cp\<lparr>ucp_Parts := (ucp_Parts cp)
                 [?i := (ucp_Parts cp ! ?i)\<lparr>pt_Part := part, pt_IsCompleted := True\<rparr>]\<rparr>"
    by (auto simp: updatePart_def Let_def split: if_splits)
  have "map pt_Chunk ((ucp_Parts cp)[?i := (ucp_Parts cp ! ?i)\<lparr>pt_Part := part, pt_IsCompleted := True\<rparr>]) =
      (map pt_Chunk (ucp_Parts cp))[?i := map pt_Chunk (ucp_Parts cp) ! ?i]"
    using i by (simp add: map_update)
  also have "\<dots> = map pt_Chunk (ucp_Parts cp)"
    by (rule list_update_id)
  finally show ?thesis
    by (simp add: cp')
qed

lemma uploadFileWithCp_wait_all:
  assumes "completed s + length rs = length chunks"
    and "map pt_Chunk (ucp_Parts (store s)) = cs"
    and "\<forall>r\<in>set rs. 1 \<le> up_PartNumber r \<and> up_PartNumber r \<le> int (length cs)"
  shows "\<exists>s'. uploadFileWithCp_wait W cpFilePath chunks (map Result rs @ rest) s = Finished s' \<and>
              completedBytes s' =
                completedBytes s +
                sum_list (map (\<lambda>k. fc_Size (cs ! nat (k - 1))) (map up_PartNumber rs)) \<and>
              ucp_FileStat (store s') = ucp_FileStat (store s) \<and>
              ucp_UploadID (store s') = ucp_UploadID (store s) \<and>
              ucp_ObjectKey (store s') = ucp_ObjectKey (store s)"
  using assms
proof (induction rs arbitrary: s)
  case Nil
  then have "uploadFileWithCp_wait W cpFilePath chunks rest s = Finished s"
    by (cases rest) simp_all
  then show ?case by simp
next
  case (Cons r rs)
  let ?i = "nat (up_PartNumber r - 1)"
  from Cons.prems have waiting: "completed s < length chunks"
    and len: "length (ucp_Parts (store s)) = length cs"
    and range: "0 \<le> up_PartNumber r - 1" "up_PartNumber r - 1 < int (length (ucp_Parts (store s)))"
    by auto
  from range obtain ucp where up: "updatePart (store s) r = Some ucp"
    by (simp add: updatePart_def Let_def)
  note kept = updatePart_chunks [OF up]
  from range len have i: "?i < length cs" by simp
  from kept Cons.prems(2) have cs: "map pt_Chunk (ucp_Parts ucp) = cs" by simp
  from i cs have "?i < length (ucp_Parts ucp)" by auto
  then have "pt_Chunk (ucp_Parts ucp ! ?i) = map pt_Chunk (ucp_Parts ucp) ! ?i"
    by simp
  with cs have size: "fc_Size (pt_Chunk (ucp_Parts ucp ! ?i)) = fc_Size (cs ! ?i)"
    by simp
  let ?cb = "completedBytes s + fc_Size (cs ! ?i)"
  let ?s = "s\<lparr>completed := completed s + 1, store := ucp, completedBytes := ?cb,
              trace := trace s @ snd (uploadCheckpoint_dump W ucp cpFilePath) @
                       [Publish TransferDataEvent ?cb (st_Size (ucp_FileStat ucp))]\<rparr>"
  have step: "uploadFileWithCp_wait W cpFilePath chunks (map Result (r # rs) @ rest) s =
      uploadFileWithCp_wait W cpFilePath chunks (map Result rs @ rest) ?s"
    using waiting up size by (simp add: Let_def)
  from Cons.prems cs have "completed ?s + length rs = length chunks"
    and "map pt_Chunk (ucp_Parts (store ?s)) = cs"
    and "\<forall>r\<in>set rs. 1 \<le> up_PartNumber r \<and> up_PartNumber r \<le> int (length cs)"
    by simp_all
  from Cons.IH [OF this] obtain s' where
    "uploadFileWithCp_wait W cpFilePath chunks (map Result rs @ rest) ?s = Finished s'"
    "completedBytes s' =
       completedBytes ?s + sum_list (map (\<lambda>k. fc_Size (cs ! nat (k - 1))) (map up_PartNumber rs))"
    "ucp_FileStat (store s') = ucp_FileStat (store ?s)"
    "ucp_UploadID (store s') = ucp_UploadID (store ?s)"
    "ucp_ObjectKey (store s') = ucp_ObjectKey (store ?s)"
    by blast
  with step kept show ?case
    by (intro exI [of _ s']) (simp add: add.assoc)
qed

lemma uploadFileWithCp_all_parts:
  assumes res: "uploadFileWithCp_resume W bucketName objectKey filePath partSize cpFilePath =
                  (Inr ucp, tr1)"
    and once: "distinct (map up_PartNumber rs)"
    and every: "set (map up_PartNumber rs) =
                  {k. 1 \<le> k \<and> k \<le> int (length (ucp_Parts ucp)) \<and>
                      \<not> pt_IsCompleted (ucp_Parts ucp ! nat (k - 1))}"
    and sizes: "getTotalBytes (map pt_Chunk (ucp_Parts ucp)) = st_Size (ucp_FileStat ucp)"
  shows "\<exists>ds ups. list_all progress_action ds \<and>
           uploadFileWithCp W bucketName objectKey filePath partSize cpFilePath routines
               (map Result rs @ rest) =
             (Return (w_CompleteMultipartUpload W
                        \<lparr>imur_Bucket = bucketName, imur_Key = ucp_ObjectKey ucp,
                         imur_UploadID = ucp_UploadID ucp\<rparr> ups),
              tr1 @
              [Publish TransferStartedEvent (uploadCheckpoint_getCompletedBytes ucp)
                 (st_Size (ucp_FileStat ucp))] @
              start_workers routines
                \<lparr>imur_Bucket = bucketName, imur_Key = objectKey, imur_UploadID = ucp_UploadID ucp\<rparr>
                (uploadCheckpoint_todoParts ucp) @
              ds @
              [Publish TransferCompletedEvent (st_Size (ucp_FileStat ucp))
                 (st_Size (ucp_FileStat ucp)),
               CompleteMultipartUpload
                 \<lparr>imur_Bucket = bucketName, imur_Key = ucp_ObjectKey ucp,
                  imur_UploadID = ucp_UploadID ucp\<rparr> ups] @
              (case w_CompleteMultipartUpload W
                      \<lparr>imur_Bucket = bucketName, imur_Key = ucp_ObjectKey ucp,
                       imur_UploadID = ucp_UploadID ucp\<rparr> ups of
                 Some err \<Rightarrow> []
               | None \<Rightarrow> [Remove cpFilePath]))"
proof -
  define chunks where "chunks = uploadCheckpoint_todoParts ucp"
  define cs where "cs = map pt_Chunk (ucp_Parts ucp)"
  define n where "n = length (ucp_Parts ucp)"
  define imur where "imur = \<lparr>imur_Bucket = bucketName, imur_Key = objectKey,
                               imur_UploadID = ucp_UploadID ucp\<rparr>"
  define final where "final = \<lparr>imur_Bucket = bucketName, imur_Key = ucp_ObjectKey ucp,
                                imur_UploadID = ucp_UploadID ucp\<rparr>"
  define s0 :: "uploadCheckpoint wstate" where
    "s0 = \<lparr>completed = 0, store = ucp,
           completedBytes = uploadCheckpoint_getCompletedBytes ucp,
           trace = tr1 @
                   [Publish TransferStartedEvent (uploadCheckpoint_getCompletedBytes ucp)
                      (st_Size (ucp_FileStat ucp))] @
                   start_workers routines imur chunks\<rparr>"
  have numbers: "set (map up_PartNumber rs) =
      {k. 1 \<le> k \<and> k \<le> int n \<and> (\<lambda>i. \<not> pt_IsCompleted (ucp_Parts ucp ! i)) (nat (k - 1))}"
    using every by (simp add: n_def)
  have "length chunks = card {i. i < n \<and> \<not> pt_IsCompleted (ucp_Parts ucp ! i)}"
    by (simp add: chunks_def uploadCheckpoint_todoParts_filter length_filter_conv_card n_def)
  with length_reported [OF once numbers] have len: "completed s0 + length rs = length chunks"
    by (simp add: s0_def)
  have cs0: "map pt_Chunk (ucp_Parts (store s0)) = cs"
    by (simp add: s0_def cs_def)
  have bounds: "\<forall>r\<in>set rs. 1 \<le> up_PartNumber r \<and> up_PartNumber r \<le> int (length cs)"
  proof
    fix r assume "r \<in> set rs"
    then have "up_PartNumber r \<in> set (map up_PartNumber rs)" by simp
    with every show "1 \<le> up_PartNumber r \<and> up_PartNumber r \<le> int (length cs)"
      by (simp add: cs_def)
  qed
  from uploadFileWithCp_wait_all [OF len cs0 bounds, of W cpFilePath rest]
  obtain s' where
    fin: "uploadFileWithCp_wait W cpFilePath chunks (map Result rs @ rest) s0 = Finished s'"
    and cb: "completedBytes s' =
       completedBytes s0 + sum_list (map (\<lambda>k. fc_Size (cs ! nat (k - 1))) (map up_PartNumber rs))"
    and kept: "ucp_FileStat (store s') = ucp_FileStat (store s0)"
       "ucp_UploadID (store s') = ucp_UploadID (store s0)"
       "ucp_ObjectKey (store s') = ucp_ObjectKey (store s0)"
    by blast
  have already: "uploadCheckpoint_getCompletedBytes ucp =
      (\<Sum>i = 0..<n. if pt_IsCompleted (ucp_Parts ucp ! i)
                     then fc_Size (pt_Chunk (ucp_Parts ucp ! i)) else 0)"
    by (simp add: uploadCheckpoint_getCompletedBytes_sum sum_list_nth_if n_def)
  have reported: "sum_list (map (\<lambda>k. fc_Size (cs ! nat (k - 1))) (map up_PartNumber rs)) =
      (\<Sum>i = 0..<n. if \<not> pt_IsCompleted (ucp_Parts ucp ! i) then fc_Size (cs ! i) else 0)"
    by (rule sum_list_reported [OF once numbers])
  have "uploadCheckpoint_getCompletedBytes ucp +
        sum_list (map (\<lambda>k. fc_Size (cs ! nat (k - 1))) (map up_PartNumber rs)) =
      (\<Sum>i = 0..<n. (if pt_IsCompleted (ucp_Parts ucp ! i)
                      then fc_Size (pt_Chunk (ucp_Parts ucp ! i)) else 0) +
                     (if \<not> pt_IsCompleted (ucp_Parts ucp ! i) then fc_Size (cs ! i) else 0))"
    unfolding already reported by (rule sum.distrib [symmetric])
  also have "\<dots> = (\<Sum>i = 0..<n. fc_Size (cs ! i))"
    by (rule sum.cong) (simp_all add: cs_def n_def)
  also have "\<dots> = getTotalBytes cs"
    by (simp add: getTotalBytes_sum cs_def n_def)
  finally have all_bytes: "completedBytes s' = st_Size (ucp_FileStat ucp)"
    using cb sizes by (simp add: s0_def cs_def)
  from uploadFileWithCp_wait_trace [of W cpFilePath chunks "map Result rs @ rest" s0] fin
  obtain ds where ds: "list_all progress_action ds" and tr: "trace s' = trace s0 @ ds"
    by auto
  have run: "uploadFileWithCp W bucketName objectKey filePath partSize cpFilePath routines
               (map Result rs @ rest) =
      (case uploadFileWithCp_wait W cpFilePath chunks (map Result rs @ rest) s0 of
         Failed err s \<Rightarrow> (Return (Some err), trace s)
       | Panicked s \<Rightarrow> (Panic, trace s)
       | Blocked s \<Rightarrow> (Hang, trace s)
       | Finished s \<Rightarrow>
           (Return (fst (complete W (store s) bucketName (allParts (store s)) cpFilePath)),
            (trace s @ [Publish TransferCompletedEvent (completedBytes s)
                          (st_Size (ucp_FileStat (store s)))]) @
            snd (complete W (store s) bucketName (allParts (store s)) cpFilePath)))"
    by (simp add: uploadFileWithCp_def res uploadFileWithCp_run_def chunks_def s0_def imur_def
          Let_def split: wait.splits)
  have completion: "complete W (store s') bucketName (allParts (store s')) cpFilePath =
      (w_CompleteMultipartUpload W final (allParts (store s')),
       CompleteMultipartUpload final (allParts (store s')) #
       (case w_CompleteMultipartUpload W final (allParts (store s')) of
          Some err \<Rightarrow> []
        | None \<Rightarrow> [Remove cpFilePath]))"
    using kept by (simp add: complete_def final_def s0_def Let_def split: option.splits)
  have "uploadFileWithCp W bucketName objectKey filePath partSize cpFilePath routines
          (map Result rs @ rest) =
      (Return (w_CompleteMultipartUpload W final (allParts (store s'))),
       trace s0 @ ds @
       [Publish TransferCompletedEvent (st_Size (ucp_FileStat ucp)) (st_Size (ucp_FileStat ucp)),
        CompleteMultipartUpload final (allParts (store s'))] @
       (case w_CompleteMultipartUpload W final (allParts (store s')) of
          Some err \<Rightarrow> []
        | None \<Rightarrow> [Remove cpFilePath]))"
    unfolding run fin using tr all_bytes kept(1) by (simp add: completion s0_def)
  with ds show ?thesis
    unfolding final_def imur_def chunks_def
    by (intro exI [of _ ds] exI [of _ "allParts (store s')"]) (simp add: s0_def imur_def chunks_def)
qed

lemma todoParts_from_length:
  "todoParts_from Parts i PartStat dps = Some parts \<Longrightarrow>
   length parts \<le> length dps + length PartStat"
proof (induction PartStat arbitrary: i dps)
  case Nil
  then show ?case by simp
next
  case (Cons ps rest)
  show ?case
  proof (cases ps)
    case True
    with Cons.prems have "todoParts_from Parts (Suc i) rest dps = Some parts"
      by simp
    from Cons.IH [OF this] show ?thesis by simp
  next
    case False
    with Cons.prems have "todoParts_from Parts (Suc i) rest (dps @ [Parts ! i]) = Some parts"
      by (simp split: if_splits)
    from Cons.IH [OF this] show ?thesis by simp
  qed
qed

lemma copyCheckpoint_todoParts_length:
  "copyCheckpoint_todoParts cp = Some parts \<Longrightarrow> length parts \<le> length (ccp_PartStat cp)"
  using todoParts_from_length [of "ccp_Parts cp" 0 "ccp_PartStat cp" "[]" parts]
  by (simp add: copyCheckpoint_todoParts_def)

lemma copyCheckpoint_update_kept:
  assumes "copyCheckpoint_update cp part = Some cp'"
  shows "length (ccp_CopyParts cp') = length (ccp_CopyParts cp) \<and>
         length (ccp_PartStat cp') = length (ccp_PartStat cp) \<and>
         ccp_ObjStat cp' = ccp_ObjStat cp \<and> ccp_CopyID cp' = ccp_CopyID cp \<and>
         ccp_DestBucketName cp' = ccp_DestBucketName cp \<and>
         ccp_DestObjectKey cp' = ccp_DestObjectKey cp"
proof -
  let ?i = "nat (up_PartNumber part - 1)"
  from assms have "cp' = cp\<lparr>ccp_CopyParts := (ccp_CopyParts cp)[?i := part],
                              ccp_PartStat := (ccp_PartStat cp)[?i := True]\<rparr>"
    by (auto simp: copyCheckpoint_update_def Let_def split: if_splits)
  then show ?thesis by simp
qed

lemma copyFileWithCp_wait_all:
  assumes "completed s + length rs = length parts"
    and "length parts \<le> length (ccp_CopyParts (store s))"
    and "length parts \<le> length (ccp_PartStat (store s))"
    and "\<forall>r\<in>set rs. 1 \<le> up_PartNumber r \<and> up_PartNumber r \<le> int (length parts)"
  shows "\<exists>s'. copyFileWithCp_wait W cpFilePath parts (map Result rs @ rest) s = Finished s' \<and>
              completedBytes s' =
                completedBytes s +
                sum_list (map (\<lambda>k. cpt_End (parts ! nat (k - 1)) - cpt_Start (parts ! nat (k - 1)) + 1)
                            (map up_PartNumber rs)) \<and>
              ccp_ObjStat (store s') = ccp_ObjStat (store s) \<and>
              ccp_CopyID (store s') = ccp_CopyID (store s) \<and>
              ccp_DestBucketName (store s') = ccp_DestBucketName (store s) \<and>
              ccp_DestObjectKey (store s') = ccp_DestObjectKey (store s)"
  using assms
proof (induction rs arbitrary: s)
  case Nil
  then have "copyFileWithCp_wait W cpFilePath parts rest s = Finished s"
    by (cases rest) simp_all
  then show ?case by simp
next
  case (Cons r rs)
  let ?i = "up_PartNumber r - 1"
  from Cons.prems have waiting: "completed s < length parts"
    and range: "0 \<le> ?i \<and> ?i < int (length parts)"
    and room: "?i < int (length (ccp_CopyParts (store s)))" "?i < int (length (ccp_PartStat (store s)))"
    by auto
  from range room obtain ccp where up: "copyCheckpoint_update (store s) r = Some ccp"
    by (simp add: copyCheckpoint_update_def Let_def)
  note kept = copyCheckpoint_update_kept [OF up]
  let ?cb = "completedBytes s + (cpt_End (parts ! nat ?i) - cpt_Start (parts ! nat ?i) + 1)"
  let ?s = "s\<lparr>completed := completed s + 1, store := ccp, completedBytes := ?cb,
              trace := trace s @ snd (copyCheckpoint_dump W ccp cpFilePath) @
                       [Publish TransferDataEvent ?cb (os_Size (ccp_ObjStat ccp))]\<rparr>"
  have step: "copyFileWithCp_wait W cpFilePath parts (map Result (r # rs) @ rest) s =
      copyFileWithCp_wait W cpFilePath parts (map Result rs @ rest) ?s"
    using waiting up range by (simp add: Let_def)
  from Cons.prems kept have "completed ?s + length rs = length parts"
    and "length parts \<le> length (ccp_CopyParts (store ?s))"
    and "length parts \<le> length (ccp_PartStat (store ?s))"
    and "\<forall>r\<in>set rs. 1 \<le> up_PartNumber r \<and> up_PartNumber r \<le> int (length parts)"
    by simp_all
  from Cons.IH [OF this] obtain s' where
    "copyFileWithCp_wait W cpFilePath parts (map Result rs @ rest) ?s = Finished s'"
    "completedBytes s' =
       completedBytes ?s +
       sum_list (map (\<lambda>k. cpt_End (parts ! nat (k - 1)) - cpt_Start (parts ! nat (k - 1)) + 1)
                   (map up_PartNumber rs))"
    "ccp_ObjStat (store s') = ccp_ObjStat (store ?s)"
    "ccp_CopyID (store s') = ccp_CopyID (store ?s)"
    "ccp_DestBucketName (store s') = ccp_DestBucketName (store ?s)"
    "ccp_DestObjectKey (store s') = ccp_DestObjectKey (store ?s)"
    by blast
  with step kept show ?case
    by (intro exI [of _ s']) (simp add: add.assoc)
qed

lemma copyFileWithCp_all_parts:
  assumes res: "copyFileWithCp_resume W srcBucketName srcObjectKey destBucketName destObjectKey
                  partSize cpFilePath = (Some (Inr ccp), tr2)"
    and todo: "copyCheckpoint_todoParts ccp = Some parts"
    and already: "copyCheckpoint_getCompletedBytes ccp = Some already"
    and room: "length (ccp_CopyParts ccp) = length (ccp_PartStat ccp)"
    and once: "distinct (map up_PartNumber rs)"
    and every: "set (map up_PartNumber rs) = {1..int (length parts)}"
    and sizes: "already + getSrcObjectBytes parts = os_Size (ccp_ObjStat ccp)"
  shows "\<exists>ds ups. list_all progress_action ds \<and>
           copyFileWithCp W srcBucketName srcObjectKey destBucketName destObjectKey partSize
               cpFilePath routines (map Result rs @ rest) =
             (Return (w_CompleteMultipartUpload W
                        \<lparr>imur_Bucket = ccp_DestBucketName ccp, imur_Key = ccp_DestObjectKey ccp,
                         imur_UploadID = ccp_CopyID ccp\<rparr> ups),
              tr2 @
              [Publish TransferStartedEvent already (os_Size (ccp_ObjStat ccp))] @
              start_copy_workers routines
                \<lparr>imur_Bucket = destBucketName, imur_Key = destObjectKey,
                 imur_UploadID = ccp_CopyID ccp\<rparr> parts @
              ds @
              [Publish TransferCompletedEvent (os_Size (ccp_ObjStat ccp))
                 (os_Size (ccp_ObjStat ccp)),
               CompleteMultipartUpload
                 \<lparr>imur_Bucket = ccp_DestBucketName ccp, imur_Key = ccp_DestObjectKey ccp,
                  imur_UploadID = ccp_CopyID ccp\<rparr> ups] @
              (case w_CompleteMultipartUpload W
                      \<lparr>imur_Bucket = ccp_DestBucketName ccp, imur_Key = ccp_DestObjectKey ccp,
                       imur_UploadID = ccp_CopyID ccp\<rparr> ups of
                 Some err \<Rightarrow> []
               | None \<Rightarrow> [Remove cpFilePath]))"
proof -
  define imur where "imur = \<lparr>imur_Bucket = destBucketName, imur_Key = destObjectKey,
                               imur_UploadID = ccp_CopyID ccp\<rparr>"
  define final where "final = \<lparr>imur_Bucket = ccp_DestBucketName ccp,
                                imur_Key = ccp_DestObjectKey ccp,
                                imur_UploadID = ccp_CopyID ccp\<rparr>"
  define s0 :: "copyCheckpoint wstate" where
    "s0 = \<lparr>completed = 0, store = ccp, completedBytes = already,
           trace = tr2 @ [Publish TransferStartedEvent already (os_Size (ccp_ObjStat ccp))] @
                   start_copy_workers routines imur parts\<rparr>"
  have numbers: "set (map up_PartNumber rs) =
      {k. 1 \<le> k \<and> k \<le> int (length parts) \<and> (\<lambda>i. True) (nat (k - 1))}"
    using every by auto
  from length_reported [OF once numbers] have len: "completed s0 + length rs = length parts"
    by (simp add: s0_def)
  from copyCheckpoint_todoParts_length [OF todo] room
  have room0: "length parts \<le> length (ccp_CopyParts (store s0))"
    "length parts \<le> length (ccp_PartStat (store s0))"
    by (simp_all add: s0_def)
  have bounds: "\<forall>r\<in>set rs. 1 \<le> up_PartNumber r \<and> up_PartNumber r \<le> int (length parts)"
    using every by auto
  from copyFileWithCp_wait_all [OF len room0 bounds, of W cpFilePath rest]
  obtain s' where
    fin: "copyFileWithCp_wait W cpFilePath parts (map Result rs @ rest) s0 = Finished s'"
    and cb: "completedBytes s' =
       completedBytes s0 +
       sum_list (map (\<lambda>k. cpt_End (parts ! nat (k - 1)) - cpt_Start (parts ! nat (k - 1)) + 1)
                   (map up_PartNumber rs))"
    and kept: "ccp_ObjStat (store s') = ccp_ObjStat (store s0)"
       "ccp_CopyID (store s') = ccp_CopyID (store s0)"
       "ccp_DestBucketName (store s') = ccp_DestBucketName (store s0)"
       "ccp_DestObjectKey (store s') = ccp_DestObjectKey (store s0)"
    by blast
  from sum_list_reported [OF once numbers,
      of "\<lambda>i. cpt_End (parts ! i) - cpt_Start (parts ! i) + 1"] cb sizes
  have all_bytes: "completedBytes s' = os_Size (ccp_ObjStat ccp)"
    by (simp add: s0_def getSrcObjectBytes_sum)
  from copyFileWithCp_wait_trace [of W cpFilePath parts "map Result rs @ rest" s0] fin
  obtain ds where ds: "list_all progress_action ds" and tr: "trace s' = trace s0 @ ds"
    by auto
  have run: "copyFileWithCp W srcBucketName srcObjectKey destBucketName destObjectKey partSize
               cpFilePath routines (map Result rs @ rest) =
      (case copyFileWithCp_wait W cpFilePath parts (map Result rs @ rest) s0 of
         Failed err s \<Rightarrow> (Return (Some err), trace s)
       | Panicked s \<Rightarrow> (Panic, trace s)
       | Blocked s \<Rightarrow> (Hang, trace s)
       | Finished s \<Rightarrow>
           (Return (fst (copyCheckpoint_complete W (store s) (ccp_CopyParts (store s)) cpFilePath)),
            (trace s @ [Publish TransferCompletedEvent (completedBytes s)
                          (os_Size (ccp_ObjStat (store s)))]) @
            snd (copyCheckpoint_complete W (store s) (ccp_CopyParts (store s)) cpFilePath)))"
    by (simp add: copyFileWithCp_def res copyFileWithCp_run_def todo already s0_def imur_def
          Let_def split: wait.splits)
  have completion: "copyCheckpoint_complete W (store s') (ccp_CopyParts (store s')) cpFilePath =
      (w_CompleteMultipartUpload W final (ccp_CopyParts (store s')),
       CompleteMultipartUpload final (ccp_CopyParts (store s')) #
       (case w_CompleteMultipartUpload W final (ccp_CopyParts (store s')) of
          Some err \<Rightarrow> []
        | None \<Rightarrow> [Remove cpFilePath]))"
    using kept by (simp add: copyCheckpoint_complete_def final_def s0_def Let_def split: option.splits)
  have "copyFileWithCp W srcBucketName srcObjectKey destBucketName destObjectKey partSize
          cpFilePath routines (map Result rs @ rest) =
      (Return (w_CompleteMultipartUpload W final (ccp_CopyParts (store s'))),
       trace s0 @ ds @
       [Publish TransferCompletedEvent (os_Size (ccp_ObjStat ccp)) (os_Size (ccp_ObjStat ccp)),
        CompleteMultipartUpload final (ccp_CopyParts (store s'))] @
       (case w_CompleteMultipartUpload W final (ccp_CopyParts (store s')) of
          Some err \<Rightarrow> []
        | None \<Rightarrow> [Remove cpFilePath]))"
    unfolding run fin using tr all_bytes kept(1) by (simp add: completion s0_def)
  with ds show ?thesis
    unfolding final_def imur_def
    by (intro exI [of _ ds] exI [of _ "ccp_CopyParts (store s')"]) (simp add: s0_def imur_def)
qed

subsection \<open>Started and completed events\<close>

text \<open>
  C6, as the code has it. The life cycle of a run is read off its actions by \<open>marks\<close>. A run
  of the checkpointed upload or of a copy coordinator that ends before its transfer starts
  (the checkpoint cannot be prepared or, for a copy, its part lists cannot be read; the
  source cannot be planned; the multipart upload cannot be initiated) has an empty life
  cycle: it publishes no started, completed or failed event. Every other run publishes the
  started event exactly once, then starts the scheduler, and after that either nothing
  more, or the cancellation with the failure event, or the completed event followed by the
  call of \<^verbatim>\<open>CompleteMultipartUpload\<close>. A run of \<^verbatim>\<open>uploadFile\<close> that starts its transfer begins
  with the started event and the scheduler.

  When every scheduled part is reported once, and (with a checkpoint) the sizes of the
  parts add up to the size the checkpoint records, the run publishes the completed event
  with the total as both arguments and then calls \<^verbatim>\<open>CompleteMultipartUpload\<close>: the event is
  published before the service is asked, whatever it answers, and what it answers is what
  the run returns. Between the start of the scheduler and the completed event there are
  only data events and, with a checkpoint, the writes of the checkpoint file. The parts are
  reported with their numbers: the checkpointed upload and the copy without checkpoint take
  a number as the position in the full part list, the checkpointed copy as the position
  among the parts it has scheduled.
\<close>

theorem run_life_cycle:
  "marks (snd (uploadFileWithCp W bucketName objectKey filePath partSize cpFilePath routines msgs)) \<in>
     (case fst (uploadFileWithCp_resume W bucketName objectKey filePath partSize cpFilePath) of
        Inl err \<Rightarrow> {[]}
      | Inr cp \<Rightarrow>
          {[Event TransferStartedEvent, Scheduled],
           [Event TransferStartedEvent, Scheduled, Cancelled, Event TransferFailedEvent],
           [Event TransferStartedEvent, Scheduled, Event TransferCompletedEvent, CompleteCalled]}) \<and>
   marks (snd (copyFileWithCp W srcBucketName srcObjectKey bucketName objectKey partSize cpFilePath
                 routines msgs)) \<in>
     (case fst (copyFileWithCp_resume W srcBucketName srcObjectKey bucketName objectKey partSize
                  cpFilePath) of
        Some (Inr cp) \<Rightarrow>
          (if copyCheckpoint_todoParts cp = None \<or> copyCheckpoint_getCompletedBytes cp = None
           then {[]}
           else {[Event TransferStartedEvent, Scheduled],
                 [Event TransferStartedEvent, Scheduled, Cancelled, Event TransferFailedEvent],
                 [Event TransferStartedEvent, Scheduled, Event TransferCompletedEvent,
                  CompleteCalled]})
      | _ \<Rightarrow> {[]}) \<and>
   marks (snd (copyFile W srcBucketName srcObjectKey bucketName objectKey partSize routines msgs)) \<in>
     (case fst (getCopyParts W srcBucketName srcObjectKey partSize) of
        Some (Inr planned) \<Rightarrow>
          (case w_InitiateMultipartUpload W bucketName objectKey of
             Inl err \<Rightarrow> {[]}
           | Inr initiated \<Rightarrow>
               {[Event TransferStartedEvent, Scheduled],
                [Event TransferStartedEvent, Scheduled, Cancelled, AbortCalled,
                 Event TransferFailedEvent],
                [Event TransferStartedEvent, Scheduled, Event TransferCompletedEvent,
                 CompleteCalled],
                [Event TransferStartedEvent, Scheduled, Event TransferCompletedEvent,
                 CompleteCalled, AbortCalled]})
      | _ \<Rightarrow> {[]}) \<and>
   (w_SplitFileByPartSize W filePath partSize = Inr chunks \<and>
    w_InitiateMultipartUpload W bucketName objectKey = Inr imur \<longrightarrow>
      (\<exists>later. marks (snd (uploadFile W bucketName objectKey filePath partSize routines msgs)) =
                 Event TransferStartedEvent # Scheduled # later)) \<and>
   (fst (uploadFileWithCp_resume W bucketName objectKey filePath partSize cpFilePath) = Inr ucp \<and>
    distinct (map up_PartNumber rs) \<and>
    set (map up_PartNumber rs) =
      {k. 1 \<le> k \<and> k \<le> int (length (ucp_Parts ucp)) \<and>
          \<not> pt_IsCompleted (ucp_Parts ucp ! nat (k - 1))} \<and>
    getTotalBytes (map pt_Chunk (ucp_Parts ucp)) = st_Size (ucp_FileStat ucp) \<longrightarrow>
      (\<exists>ds ups. list_all progress_action ds \<and>
         uploadFileWithCp W bucketName objectKey filePath partSize cpFilePath routines
             (map Result rs @ rest) =
           (Return (w_CompleteMultipartUpload W
                      \<lparr>imur_Bucket = bucketName, imur_Key = ucp_ObjectKey ucp,
                       imur_UploadID = ucp_UploadID ucp\<rparr> ups),
            snd (uploadFileWithCp_resume W bucketName objectKey filePath partSize cpFilePath) @
            [Publish TransferStartedEvent (uploadCheckpoint_getCompletedBytes ucp)
               (st_Size (ucp_FileStat ucp))] @
            start_workers routines
              \<lparr>imur_Bucket = bucketName, imur_Key = objectKey, imur_UploadID = ucp_UploadID ucp\<rparr>
              (uploadCheckpoint_todoParts ucp) @
            ds @
            [Publish TransferCompletedEvent (st_Size (ucp_FileStat ucp))
               (st_Size (ucp_FileStat ucp)),
             CompleteMultipartUpload
               \<lparr>imur_Bucket = bucketName, imur_Key = ucp_ObjectKey ucp,
                imur_UploadID = ucp_UploadID ucp\<rparr> ups] @
            (case w_CompleteMultipartUpload W
                    \<lparr>imur_Bucket = bucketName, imur_Key = ucp_ObjectKey ucp,
                     imur_UploadID = ucp_UploadID ucp\<rparr> ups of
               Some err \<Rightarrow> []
             | None \<Rightarrow> [Remove cpFilePath])))) \<and>
   (fst (copyFileWithCp_resume W srcBucketName srcObjectKey bucketName objectKey partSize
           cpFilePath) = Some (Inr ccp) \<and>
    copyCheckpoint_todoParts ccp = Some todo \<and>
    copyCheckpoint_getCompletedBytes ccp = Some already \<and>
    length (ccp_CopyParts ccp) = length (ccp_PartStat ccp) \<and>
    distinct (map up_PartNumber rs) \<and>
    set (map up_PartNumber rs) = {1..int (length todo)} \<and>
    already + getSrcObjectBytes todo = os_Size (ccp_ObjStat ccp) \<longrightarrow>
      (\<exists>ds ups. list_all progress_action ds \<and>
         copyFileWithCp W srcBucketName srcObjectKey bucketName objectKey partSize cpFilePath
             routines (map Result rs @ rest) =
           (Return (w_CompleteMultipartUpload W
                      \<lparr>imur_Bucket = ccp_DestBucketName ccp, imur_Key = ccp_DestObjectKey ccp,
                       imur_UploadID = ccp_CopyID ccp\<rparr> ups),
            snd (copyFileWithCp_resume W srcBucketName srcObjectKey bucketName objectKey partSize
                   cpFilePath) @
            [Publish TransferStartedEvent already (os_Size (ccp_ObjStat ccp))] @
            start_copy_workers routines
              \<lparr>imur_Bucket = bucketName, imur_Key = objectKey, imur_UploadID = ccp_CopyID ccp\<rparr>
              todo @
            ds @
            [Publish TransferCompletedEvent (os_Size (ccp_ObjStat ccp))
               (os_Size (ccp_ObjStat ccp)),
             CompleteMultipartUpload
               \<lparr>imur_Bucket = ccp_DestBucketName ccp, imur_Key = ccp_DestObjectKey ccp,
                imur_UploadID = ccp_CopyID ccp\<rparr> ups] @
            (case w_CompleteMultipartUpload W
                    \<lparr>imur_Bucket = ccp_DestBucketName ccp, imur_Key = ccp_DestObjectKey ccp,
                     imur_UploadID = ccp_CopyID ccp\<rparr> ups of
               Some err \<Rightarrow> []
             | None \<Rightarrow> [Remove cpFilePath])))) \<and>
   (fst (getCopyParts W srcBucketName srcObjectKey partSize) = Some (Inr parts) \<and>
    w_InitiateMultipartUpload W bucketName objectKey = Inr imur \<and>
    distinct (map up_PartNumber rs) \<and>
    set (map up_PartNumber rs) = {1..int (length parts)} \<longrightarrow>
      (\<exists>ds ups. list_all progress_action ds \<and>
         copyFile W srcBucketName srcObjectKey bucketName objectKey partSize routines
             (map Result rs @ rest) =
           (Return (w_CompleteMultipartUpload W imur ups),
            snd (getCopyParts W srcBucketName srcObjectKey partSize) @
            [InitiateMultipartUpload bucketName objectKey,
             Publish TransferStartedEvent 0 (getSrcObjectBytes parts)] @
            start_copy_workers routines imur parts @
            ds @
            [Publish TransferCompletedEvent (getSrcObjectBytes parts) (getSrcObjectBytes parts),
             CompleteMultipartUpload imur ups] @
            (case w_CompleteMultipartUpload W imur ups of
               Some err \<Rightarrow> [AbortMultipartUpload imur]
             | None \<Rightarrow> []))))"
proof (intro conjI impI)
  show "marks (snd (uploadFileWithCp W bucketName objectKey filePath partSize cpFilePath routines
                      msgs)) \<in>
     (case fst (uploadFileWithCp_resume W bucketName objectKey filePath partSize cpFilePath) of
        Inl err \<Rightarrow> {[]}
      | Inr cp \<Rightarrow>
          {[Event TransferStartedEvent, Scheduled],
           [Event TransferStartedEvent, Scheduled, Cancelled, Event TransferFailedEvent],
           [Event TransferStartedEvent, Scheduled, Event TransferCompletedEvent, CompleteCalled]})"
    by (rule marks_uploadFileWithCp)
next
  show "marks (snd (copyFileWithCp W srcBucketName srcObjectKey bucketName objectKey partSize
                      cpFilePath routines msgs)) \<in>
     (case fst (copyFileWithCp_resume W srcBucketName srcObjectKey bucketName objectKey partSize
                  cpFilePath) of
        Some (Inr cp) \<Rightarrow>
          (if copyCheckpoint_todoParts cp = None \<or> copyCheckpoint_getCompletedBytes cp = None
           then {[]}
           else {[Event TransferStartedEvent, Scheduled],
                 [Event TransferStartedEvent, Scheduled, Cancelled, Event TransferFailedEvent],
                 [Event TransferStartedEvent, Scheduled, Event TransferCompletedEvent,
                  CompleteCalled]})
      | _ \<Rightarrow> {[]})"
    by (rule marks_copyFileWithCp)
next
  show "marks (snd (copyFile W srcBucketName srcObjectKey bucketName objectKey partSize routines
                      msgs)) \<in>
     (case fst (getCopyParts W srcBucketName srcObjectKey partSize) of
        Some (Inr planned) \<Rightarrow>
          (case w_InitiateMultipartUpload W bucketName objectKey of
             Inl err \<Rightarrow> {[]}
           | Inr initiated \<Rightarrow>
               {[Event TransferStartedEvent, Scheduled],
                [Event TransferStartedEvent, Scheduled, Cancelled, AbortCalled,
                 Event TransferFailedEvent],
                [Event TransferStartedEvent, Scheduled, Event TransferCompletedEvent,
                 CompleteCalled],
                [Event TransferStartedEvent, Scheduled, Event TransferCompletedEvent,
                 CompleteCalled, AbortCalled]})
      | _ \<Rightarrow> {[]})"
    by (rule marks_copyFile)
next
  assume "w_SplitFileByPartSize W filePath partSize = Inr chunks \<and>
    w_InitiateMultipartUpload W bucketName objectKey = Inr imur"
  then show "\<exists>later. marks (snd (uploadFile W bucketName objectKey filePath partSize routines
                                    msgs)) =
                       Event TransferStartedEvent # Scheduled # later"
    using marks_uploadFile [of W filePath partSize chunks bucketName objectKey imur routines msgs]
    by blast
next
  assume a: "fst (uploadFileWithCp_resume W bucketName objectKey filePath partSize cpFilePath) =
      Inr ucp \<and>
    distinct (map up_PartNumber rs) \<and>
    set (map up_PartNumber rs) =
      {k. 1 \<le> k \<and> k \<le> int (length (ucp_Parts ucp)) \<and>
          \<not> pt_IsCompleted (ucp_Parts ucp ! nat (k - 1))} \<and>
    getTotalBytes (map pt_Chunk (ucp_Parts ucp)) = st_Size (ucp_FileStat ucp)"
  then have res: "uploadFileWithCp_resume W bucketName objectKey filePath partSize cpFilePath =
      (Inr ucp, snd (uploadFileWithCp_resume W bucketName objectKey filePath partSize cpFilePath))"
    by (simp add: prod_eq_iff)
  from a uploadFileWithCp_all_parts [OF res, where rs = rs and routines = routines and rest = rest]
  show "\<exists>ds ups. list_all progress_action ds \<and>
         uploadFileWithCp W bucketName objectKey filePath partSize cpFilePath routines
             (map Result rs @ rest) =
           (Return (w_CompleteMultipartUpload W
                      \<lparr>imur_Bucket = bucketName, imur_Key = ucp_ObjectKey ucp,
                       imur_UploadID = ucp_UploadID ucp\<rparr> ups),
            snd (uploadFileWithCp_resume W bucketName objectKey filePath partSize cpFilePath) @
            [Publish TransferStartedEvent (uploadCheckpoint_getCompletedBytes ucp)
               (st_Size (ucp_FileStat ucp))] @
            start_workers routines
              \<lparr>imur_Bucket = bucketName, imur_Key = objectKey, imur_UploadID = ucp_UploadID ucp\<rparr>
              (uploadCheckpoint_todoParts ucp) @
            ds @
            [Publish TransferCompletedEvent (st_Size (ucp_FileStat ucp))
               (st_Size (ucp_FileStat ucp)),
             CompleteMultipartUpload
               \<lparr>imur_Bucket = bucketName, imur_Key = ucp_ObjectKey ucp,
                imur_UploadID = ucp_UploadID ucp\<rparr> ups] @
            (case w_CompleteMultipartUpload W
                    \<lparr>imur_Bucket = bucketName, imur_Key = ucp_ObjectKey ucp,
                     imur_UploadID = ucp_UploadID ucp\<rparr> ups of
               Some err \<Rightarrow> []
             | None \<Rightarrow> [Remove cpFilePath]))"
    by blast
next
  assume a: "fst (copyFileWithCp_resume W srcBucketName srcObjectKey bucketName objectKey partSize
           cpFilePath) = Some (Inr ccp) \<and>
    copyCheckpoint_todoParts ccp = Some todo \<and>
    copyCheckpoint_getCompletedBytes ccp = Some already \<and>
    length (ccp_CopyParts ccp) = length (ccp_PartStat ccp) \<and>
    distinct (map up_PartNumber rs) \<and>
    set (map up_PartNumber rs) = {1..int (length todo)} \<and>
    already + getSrcObjectBytes todo = os_Size (ccp_ObjStat ccp)"
  then have res: "copyFileWithCp_resume W srcBucketName srcObjectKey bucketName objectKey partSize
        cpFilePath =
      (Some (Inr ccp),
       snd (copyFileWithCp_resume W srcBucketName srcObjectKey bucketName objectKey partSize
              cpFilePath))"
    by (simp add: prod_eq_iff)
  from a copyFileWithCp_all_parts [OF res, where parts = todo and already = already and rs = rs
      and routines = routines and rest = rest]
  show "\<exists>ds ups. list_all progress_action ds \<and>
         copyFileWithCp W srcBucketName srcObjectKey bucketName objectKey partSize cpFilePath
             routines (map Result rs @ rest) =
           (Return (w_CompleteMultipartUpload W
                      \<lparr>imur_Bucket = ccp_DestBucketName ccp, imur_Key = ccp_DestObjectKey ccp,
                       imur_UploadID = ccp_CopyID ccp\<rparr> ups),
            snd (copyFileWithCp_resume W srcBucketName srcObjectKey bucketName objectKey partSize
                   cpFilePath) @
            [Publish TransferStartedEvent already (os_Size (ccp_ObjStat ccp))] @
            start_copy_workers routines
              \<lparr>imur_Bucket = bucketName, imur_Key = objectKey, imur_UploadID = ccp_CopyID ccp\<rparr>
              todo @
            ds @
            [Publish TransferCompletedEvent (os_Size (ccp_ObjStat ccp))
               (os_Size (ccp_ObjStat ccp)),
             CompleteMultipartUpload
               \<lparr>imur_Bucket = ccp_DestBucketName ccp, imur_Key = ccp_DestObjectKey ccp,
                imur_UploadID = ccp_CopyID ccp\<rparr> ups] @
            (case w_CompleteMultipartUpload W
                    \<lparr>imur_Bucket = ccp_DestBucketName ccp, imur_Key = ccp_DestObjectKey ccp,
                     imur_UploadID = ccp_CopyID ccp\<rparr> ups of
               Some err \<Rightarrow> []
             | None \<Rightarrow> [Remove cpFilePath]))"
    by blast
next
  assume a: "fst (getCopyParts W srcBucketName srcObjectKey partSize) = Some (Inr parts) \<and>
    w_InitiateMultipartUpload W bucketName objectKey = Inr imur \<and>
    distinct (map up_PartNumber rs) \<and>
    set (map up_PartNumber rs) = {1..int (length parts)}"
  then have gp: "getCopyParts W srcBucketName srcObjectKey partSize =
      (Some (Inr parts), snd (getCopyParts W srcBucketName srcObjectKey partSize))"
    by (simp add: prod_eq_iff)
  from a copyFile_all_parts [OF gp, where destBucketName = bucketName and destObjectKey = objectKey
      and imur = imur and rs = rs and routines = routines and rest = rest]
  show "\<exists>ds ups. list_all progress_action ds \<and>
         copyFile W srcBucketName srcObjectKey bucketName objectKey partSize routines
             (map Result rs @ rest) =
           (Return (w_CompleteMultipartUpload W imur ups),
            snd (getCopyParts W srcBucketName srcObjectKey partSize) @
            [InitiateMultipartUpload bucketName objectKey,
             Publish TransferStartedEvent 0 (getSrcObjectBytes parts)] @
            start_copy_workers routines imur parts @
            ds @
            [Publish TransferCompletedEvent (getSrcObjectBytes parts) (getSrcObjectBytes parts),
             CompleteMultipartUpload imur ups] @
            (case w_CompleteMultipartUpload W imur ups of
               Some err \<Rightarrow> [AbortMultipartUpload imur]
             | None \<Rightarrow> []))"
    by blast
qed

lemma failing_complete_run:
  "uploadFileWithCp failing_complete_world ''b'' ''k'' ''f'' 102400 ''f.cp'' 1
       [Result part1, Result part2] =
     (Return (Some (Error ''InternalError'')),
      [Remove ''f.cp'', InitiateMultipartUpload ''b'' ''k'', Remove ''f.cp'',
       Publish TransferStartedEvent 0 204800,
       GoWorker 1 sample_imur, GoScheduler sample_chunks,
       WriteFile ''f.cp'' ''#:10:10'' 420,
       Publish TransferDataEvent 102400 204800,
       WriteFile ''f.cp'' ''#:11:11'' 420,
       Publish TransferDataEvent 204800 204800,
       Publish TransferCompletedEvent 204800 204800,
       CompleteMultipartUpload sample_imur [part1, part2]])"
  by (simp add: uploadFileWithCp_def uploadFileWithCp_resume_def uploadCheckpoint_load_def
        uploadCheckpoint_isValid_def prepare_def calcFileMD5_def failing_complete_world_def
        sample_world_fields uploadCheckpoint_zero_def uploadCpMagic_def Let_def
        uploadFileWithCp_run_def uploadCheckpoint_todoParts_def
        uploadCheckpoint_getCompletedBytes_def updatePart_def uploadCheckpoint_dump_def
        uploadCheckpoint_seal_def part1_def part2_def sample_imur_def sample_chunks_def
        start_workers_def complete_def allParts_def)

lemma failing_complete_resume:
  "uploadFileWithCp_resume failing_complete_world ''b'' ''k'' ''f'' 102400 ''f.cp'' =
     (Inr sample_ucp, [Remove ''f.cp'', InitiateMultipartUpload ''b'' ''k'', Remove ''f.cp''])"
  by (simp add: uploadFileWithCp_resume_def uploadCheckpoint_load_def uploadCheckpoint_isValid_def
        prepare_def calcFileMD5_def failing_complete_world_def sample_world_fields
        uploadCheckpoint_zero_def uploadCpMagic_def sample_chunks_def sample_ucp_def Let_def)

lemma offline_resume:
  "uploadFileWithCp_resume offline_world ''b'' ''k'' ''f'' 102400 ''f.cp'' =
     (Inl (Error ''no such file''), [Remove ''f.cp''])"
  by (simp add: uploadFileWithCp_resume_def uploadCheckpoint_load_def uploadCheckpoint_isValid_def
        prepare_def calcFileMD5_def offline_world_def sample_world_fields
        uploadCheckpoint_zero_def uploadCpMagic_def Let_def)

lemma failing_complete_answer:
  "w_CompleteMultipartUpload failing_complete_world imur parts = Some (Error ''InternalError'')"
  by (simp add: failing_complete_world_def)

theorem run_life_cycle_witness:
  "(\<exists>ds ups. list_all progress_action ds \<and>
      uploadFileWithCp failing_complete_world ''b'' ''k'' ''f'' 102400 ''f.cp'' 1
          [Result part2, Result part1] =
        (Return (Some (Error ''InternalError'')),
         [Remove ''f.cp'', InitiateMultipartUpload ''b'' ''k'', Remove ''f.cp'',
          Publish TransferStartedEvent 0 204800, GoWorker 1 sample_imur,
          GoScheduler sample_chunks] @
         ds @
         [Publish TransferCompletedEvent 204800 204800,
          CompleteMultipartUpload sample_imur ups])) \<and>
   (\<exists>ds ups. list_all progress_action ds \<and>
      copyFileWithCp sample_world ''sb'' ''sk'' ''b'' ''k'' 102400 ''k.cp'' 1
          [Result part1, Result part2] =
        (Return None,
         [Remove ''k.cp'', GetObjectDetailedMeta ''sb'' ''sk'', GetObjectDetailedMeta ''sb'' ''sk'',
          InitiateMultipartUpload ''b'' ''k'', Remove ''k.cp'',
          Publish TransferStartedEvent 0 204800, GoCopyWorker 1 sample_imur,
          GoCopyScheduler sample_copy_parts] @
         ds @
         [Publish TransferCompletedEvent 204800 204800,
          CompleteMultipartUpload sample_imur ups, Remove ''k.cp''])) \<and>
   (\<exists>ds ups. list_all progress_action ds \<and>
      copyFile sample_world ''sb'' ''sk'' ''b'' ''k'' 102400 1 [Result part2, Result part1] =
        (Return None,
         [GetObjectDetailedMeta ''sb'' ''sk'', InitiateMultipartUpload ''b'' ''k'',
          Publish TransferStartedEvent 0 204800, GoCopyWorker 1 sample_imur,
          GoCopyScheduler sample_copy_parts] @
         ds @
         [Publish TransferCompletedEvent 204800 204800,
          CompleteMultipartUpload sample_imur ups])) \<and>
   (\<exists>later. marks (snd (uploadFile sample_world ''b'' ''k'' ''f'' 102400 1 [Result part1])) =
              Event TransferStartedEvent # Scheduled # later) \<and>
   marks (snd (uploadFileWithCp offline_world ''b'' ''k'' ''f'' 102400 ''f.cp'' 1
                 [Result part1, Result part2])) = []"
proof -
  note upload = run_life_cycle [where W = failing_complete_world and bucketName = "''b''"
      and objectKey = "''k''" and filePath = "''f''" and partSize = 102400
      and cpFilePath = "''f.cp''" and routines = 1 and ucp = sample_ucp
      and rs = "[part2, part1]" and rest = "[]",
      THEN conjunct2, THEN conjunct2, THEN conjunct2, THEN conjunct2, THEN conjunct1, THEN mp]
  have "fst (uploadFileWithCp_resume failing_complete_world ''b'' ''k'' ''f'' 102400 ''f.cp'') =
      Inr sample_ucp \<and>
    distinct (map up_PartNumber [part2, part1]) \<and>
    set (map up_PartNumber [part2, part1]) =
      {k. 1 \<le> k \<and> k \<le> int (length (ucp_Parts sample_ucp)) \<and>
          \<not> pt_IsCompleted (ucp_Parts sample_ucp ! nat (k - 1))} \<and>
    getTotalBytes (map pt_Chunk (ucp_Parts sample_ucp)) = st_Size (ucp_FileStat sample_ucp)"
    by (auto simp: failing_complete_resume part1_def part2_def sample_ucp_def sample_chunks_def
          getTotalBytes_def nth_Cons')
  from upload [OF this] obtain ds ups where
    "list_all progress_action ds"
    "uploadFileWithCp failing_complete_world ''b'' ''k'' ''f'' 102400 ''f.cp'' 1
         (map Result [part2, part1] @ []) =
       (Return (w_CompleteMultipartUpload failing_complete_world
                  \<lparr>imur_Bucket = ''b'', imur_Key = ucp_ObjectKey sample_ucp,
                   imur_UploadID = ucp_UploadID sample_ucp\<rparr> ups),
        snd (uploadFileWithCp_resume failing_complete_world ''b'' ''k'' ''f'' 102400 ''f.cp'') @
        [Publish TransferStartedEvent (uploadCheckpoint_getCompletedBytes sample_ucp)
           (st_Size (ucp_FileStat sample_ucp))] @
        start_workers 1
          \<lparr>imur_Bucket = ''b'', imur_Key = ''k'', imur_UploadID = ucp_UploadID sample_ucp\<rparr>
          (uploadCheckpoint_todoParts sample_ucp) @
        ds @
        [Publish TransferCompletedEvent (st_Size (ucp_FileStat sample_ucp))
           (st_Size (ucp_FileStat sample_ucp)),
         CompleteMultipartUpload
           \<lparr>imur_Bucket = ''b'', imur_Key = ucp_ObjectKey sample_ucp,
            imur_UploadID = ucp_UploadID sample_ucp\<rparr> ups] @
        (case w_CompleteMultipartUpload failing_complete_world
                \<lparr>imur_Bucket = ''b'', imur_Key = ucp_ObjectKey sample_ucp,
                 imur_UploadID = ucp_UploadID sample_ucp\<rparr> ups of
           Some err \<Rightarrow> []
         | None \<Rightarrow> [Remove ''f.cp'']))"
    by blast
  then have first: "\<exists>ds ups. list_all progress_action ds \<and>
      uploadFileWithCp failing_complete_world ''b'' ''k'' ''f'' 102400 ''f.cp'' 1
          [Result part2, Result part1] =
        (Return (Some (Error ''InternalError'')),
         [Remove ''f.cp'', InitiateMultipartUpload ''b'' ''k'', Remove ''f.cp'',
          Publish TransferStartedEvent 0 204800, GoWorker 1 sample_imur,
          GoScheduler sample_chunks] @
         ds @
         [Publish TransferCompletedEvent 204800 204800,
          CompleteMultipartUpload sample_imur ups])"
    by (intro exI [of _ ds] exI [of _ ups])
       (simp add: failing_complete_resume failing_complete_answer sample_ucp_def
          sample_imur_def sample_chunks_def start_workers_def
          uploadCheckpoint_getCompletedBytes_def uploadCheckpoint_todoParts_def)
  note copy_cp = run_life_cycle [where W = sample_world and srcBucketName = "''sb''"
      and srcObjectKey = "''sk''" and bucketName = "''b''" and objectKey = "''k''"
      and partSize = 102400 and cpFilePath = "''k.cp''" and routines = 1 and ccp = sample_ccp
      and todo = sample_copy_parts and already = 0 and rs = "[part1, part2]" and rest = "[]",
      THEN conjunct2, THEN conjunct2, THEN conjunct2, THEN conjunct2, THEN conjunct2,
      THEN conjunct1, THEN mp]
  have "fst (copyFileWithCp_resume sample_world ''sb'' ''sk'' ''b'' ''k'' 102400 ''k.cp'') =
      Some (Inr sample_ccp) \<and>
    copyCheckpoint_todoParts sample_ccp = Some sample_copy_parts \<and>
    copyCheckpoint_getCompletedBytes sample_ccp = Some 0 \<and>
    length (ccp_CopyParts sample_ccp) = length (ccp_PartStat sample_ccp) \<and>
    distinct (map up_PartNumber [part1, part2]) \<and>
    set (map up_PartNumber [part1, part2]) = {1..int (length sample_copy_parts)} \<and>
    0 + getSrcObjectBytes sample_copy_parts = os_Size (ccp_ObjStat sample_ccp)"
    by (auto simp: sample_copyFileWithCp_resume copyCheckpoint_todoParts_def
          copyCheckpoint_getCompletedBytes_def sample_ccp_def sample_copy_parts_def
          part1_def part2_def getSrcObjectBytes_def)
  from copy_cp [OF this] obtain ds ups where
    "list_all progress_action ds"
    "copyFileWithCp sample_world ''sb'' ''sk'' ''b'' ''k'' 102400 ''k.cp'' 1
         (map Result [part1, part2] @ []) =
       (Return (w_CompleteMultipartUpload sample_world
                  \<lparr>imur_Bucket = ccp_DestBucketName sample_ccp,
                   imur_Key = ccp_DestObjectKey sample_ccp,
                   imur_UploadID = ccp_CopyID sample_ccp\<rparr> ups),
        snd (copyFileWithCp_resume sample_world ''sb'' ''sk'' ''b'' ''k'' 102400 ''k.cp'') @
        [Publish TransferStartedEvent 0 (os_Size (ccp_ObjStat sample_ccp))] @
        start_copy_workers 1
          \<lparr>imur_Bucket = ''b'', imur_Key = ''k'', imur_UploadID = ccp_CopyID sample_ccp\<rparr>
          sample_copy_parts @
        ds @
        [Publish TransferCompletedEvent (os_Size (ccp_ObjStat sample_ccp))
           (os_Size (ccp_ObjStat sample_ccp)),
         CompleteMultipartUpload
           \<lparr>imur_Bucket = ccp_DestBucketName sample_ccp,
            imur_Key = ccp_DestObjectKey sample_ccp,
            imur_UploadID = ccp_CopyID sample_ccp\<rparr> ups] @
        (case w_CompleteMultipartUpload sample_world
                \<lparr>imur_Bucket = ccp_DestBucketName sample_ccp,
                 imur_Key = ccp_DestObjectKey sample_ccp,
                 imur_UploadID = ccp_CopyID sample_ccp\<rparr> ups of
           Some err \<Rightarrow> []
         | None \<Rightarrow> [Remove ''k.cp'']))"
    by blast
  then have second: "\<exists>ds ups. list_all progress_action ds \<and>
      copyFileWithCp sample_world ''sb'' ''sk'' ''b'' ''k'' 102400 ''k.cp'' 1
          [Result part1, Result part2] =
        (Return None,
         [Remove ''k.cp'', GetObjectDetailedMeta ''sb'' ''sk'', GetObjectDetailedMeta ''sb'' ''sk'',
          InitiateMultipartUpload ''b'' ''k'', Remove ''k.cp'',
          Publish TransferStartedEvent 0 204800, GoCopyWorker 1 sample_imur,
          GoCopyScheduler sample_copy_parts] @
         ds @
         [Publish TransferCompletedEvent 204800 204800,
          CompleteMultipartUpload sample_imur ups, Remove ''k.cp''])"
    by (intro exI [of _ ds] exI [of _ ups])
       (simp add: sample_copyFileWithCp_resume sample_world_fields sample_ccp_def sample_imur_def
          start_copy_workers_def)
  note copy = run_life_cycle [where W = sample_world and srcBucketName = "''sb''"
      and srcObjectKey = "''sk''" and bucketName = "''b''" and objectKey = "''k''"
      and partSize = 102400 and routines = 1 and parts = sample_copy_parts and imur = sample_imur
      and rs = "[part2, part1]" and rest = "[]",
      THEN conjunct2, THEN conjunct2, THEN conjunct2, THEN conjunct2, THEN conjunct2,
      THEN conjunct2, THEN mp]
  have "fst (getCopyParts sample_world ''sb'' ''sk'' 102400) = Some (Inr sample_copy_parts) \<and>
    w_InitiateMultipartUpload sample_world ''b'' ''k'' = Inr sample_imur \<and>
    distinct (map up_PartNumber [part2, part1]) \<and>
    set (map up_PartNumber [part2, part1]) = {1..int (length sample_copy_parts)}"
    by (auto simp: sample_getCopyParts sample_world_fields sample_imur_def sample_copy_parts_def
          part1_def part2_def)
  from copy [OF this] obtain ds ups where
    "list_all progress_action ds"
    "copyFile sample_world ''sb'' ''sk'' ''b'' ''k'' 102400 1 (map Result [part2, part1] @ []) =
       (Return (w_CompleteMultipartUpload sample_world sample_imur ups),
        snd (getCopyParts sample_world ''sb'' ''sk'' 102400) @
        [InitiateMultipartUpload ''b'' ''k'',
         Publish TransferStartedEvent 0 (getSrcObjectBytes sample_copy_parts)] @
        start_copy_workers 1 sample_imur sample_copy_parts @
        ds @
        [Publish TransferCompletedEvent (getSrcObjectBytes sample_copy_parts)
           (getSrcObjectBytes sample_copy_parts),
         CompleteMultipartUpload sample_imur ups] @
        (case w_CompleteMultipartUpload sample_world sample_imur ups of
           Some err \<Rightarrow> [AbortMultipartUpload sample_imur]
         | None \<Rightarrow> []))"
    by blast
  then have third: "\<exists>ds ups. list_all progress_action ds \<and>
      copyFile sample_world ''sb'' ''sk'' ''b'' ''k'' 102400 1 [Result part2, Result part1] =
        (Return None,
         [GetObjectDetailedMeta ''sb'' ''sk'', InitiateMultipartUpload ''b'' ''k'',
          Publish TransferStartedEvent 0 204800, GoCopyWorker 1 sample_imur,
          GoCopyScheduler sample_copy_parts] @
         ds @
         [Publish TransferCompletedEvent 204800 204800,
          CompleteMultipartUpload sample_imur ups])"
    by (intro exI [of _ ds] exI [of _ ups])
       (simp add: sample_getCopyParts sample_world_fields start_copy_workers_def
          getSrcObjectBytes_def sample_copy_parts_def)
  note plain = run_life_cycle [where W = sample_world and bucketName = "''b''"
      and objectKey = "''k''" and filePath = "''f''" and partSize = 102400 and routines = 1
      and chunks = sample_chunks and imur = sample_imur and msgs = "[Result part1]",
      THEN conjunct2, THEN conjunct2, THEN conjunct2, THEN conjunct1, THEN mp]
  have "w_SplitFileByPartSize sample_world ''f'' 102400 = Inr sample_chunks \<and>
    w_InitiateMultipartUpload sample_world ''b'' ''k'' = Inr sample_imur"
    by (simp add: sample_world_fields sample_imur_def)
  from plain [OF this]
  have fourth: "\<exists>later. marks (snd (uploadFile sample_world ''b'' ''k'' ''f'' 102400 1
                                        [Result part1])) =
                          Event TransferStartedEvent # Scheduled # later" .
  note unstarted = run_life_cycle [where W = offline_world and bucketName = "''b''"
      and objectKey = "''k''" and filePath = "''f''" and partSize = 102400
      and cpFilePath = "''f.cp''" and routines = 1 and msgs = "[Result part1, Result part2]",
      THEN conjunct1]
  then have fifth: "marks (snd (uploadFileWithCp offline_world ''b'' ''k'' ''f'' 102400 ''f.cp'' 1
                                  [Result part1, Result part2])) = []"
    by (simp add: offline_resume)
  from first second third fourth fifth show ?thesis
    by (intro conjI)
qed

text \<open>
  C6 as stated has the completed event follow a successful completion only, and every run
  publish the started event. In the first run both parts arrive, the completed event is
  published, and the service then refuses to complete: the run returns the service's
  error. In the second run the local file cannot be opened: the run returns that error and
  has published nothing.
\<close>

theorem completed_before_complete_counterexample:
  "uploadFileWithCp failing_complete_world ''b'' ''k'' ''f'' 102400 ''f.cp'' 1
       [Result part1, Result part2] =
     (Return (Some (Error ''InternalError'')),
      [Remove ''f.cp'', InitiateMultipartUpload ''b'' ''k'', Remove ''f.cp'',
       Publish TransferStartedEvent 0 204800,
       GoWorker 1 sample_imur, GoScheduler sample_chunks,
       WriteFile ''f.cp'' ''#:10:10'' 420,
       Publish TransferDataEvent 102400 204800,
       WriteFile ''f.cp'' ''#:11:11'' 420,
       Publish TransferDataEvent 204800 204800,
       Publish TransferCompletedEvent 204800 204800,
       CompleteMultipartUpload sample_imur [part1, part2]]) \<and>
   uploadFileWithCp offline_world ''b'' ''k'' ''f'' 102400 ''f.cp'' 1
       [Result part1, Result part2] =
     (Return (Some (Error ''no such file'')), [Remove ''f.cp''])"
proof
  show "uploadFileWithCp failing_complete_world ''b'' ''k'' ''f'' 102400 ''f.cp'' 1
       [Result part1, Result part2] =
     (Return (Some (Error ''InternalError'')),
      [Remove ''f.cp'', InitiateMultipartUpload ''b'' ''k'', Remove ''f.cp'',
       Publish TransferStartedEvent 0 204800,
       GoWorker 1 sample_imur, GoScheduler sample_chunks,
       WriteFile ''f.cp'' ''#:10:10'' 420,
       Publish TransferDataEvent 102400 204800,
       WriteFile ''f.cp'' ''#:11:11'' 420,
       Publish TransferDataEvent 204800 204800,
       Publish TransferCompletedEvent 204800 204800,
       CompleteMultipartUpload sample_imur [part1, part2]])"
    by (rule failing_complete_run)
next
  show "uploadFileWithCp offline_world ''b'' ''k'' ''f'' 102400 ''f.cp'' 1
       [Result part1, Result part2] =
     (Return (Some (Error ''no such file'')), [Remove ''f.cp''])"
    by (simp add: uploadFileWithCp_def offline_resume)
qed

section \<open>Saving the checkpoint while the transfer runs\<close>

lemma uploadCheckpoint_dump_WriteFile:
  "snd (uploadCheckpoint_dump (W\<lparr>w_WriteFile := f\<rparr>) cp filePath) =
   snd (uploadCheckpoint_dump W cp filePath)"
  by (simp add: uploadCheckpoint_dump_def uploadCheckpoint_seal_def Let_def split: sum.splits)

lemma copyCheckpoint_dump_WriteFile:
  "snd (copyCheckpoint_dump (W\<lparr>w_WriteFile := f\<rparr>) cp filePath) =
   snd (copyCheckpoint_dump W cp filePath)"
  by (simp add: copyCheckpoint_dump_def copyCheckpoint_seal_def Let_def split: sum.splits)

lemma uploadFileWithCp_wait_WriteFile:
  "uploadFileWithCp_wait (W\<lparr>w_WriteFile := f\<rparr>) cpFilePath chunks msgs s =
   uploadFileWithCp_wait W cpFilePath chunks msgs s"
proof (induction msgs arbitrary: s)
  case Nil
  show ?case by simp
next
  case (Cons m msgs)
  show ?case
    by (cases m) (simp_all add: Cons.IH uploadCheckpoint_dump_WriteFile Let_def split: option.splits)
qed

lemma copyFileWithCp_wait_WriteFile:
  "copyFileWithCp_wait (W\<lparr>w_WriteFile := f\<rparr>) cpFilePath parts msgs s =
   copyFileWithCp_wait W cpFilePath parts msgs s"
proof (induction msgs arbitrary: s)
  case Nil
  show ?case by simp
next
  case (Cons m msgs)
  show ?case
    by (cases m) (auto simp: Cons.IH copyCheckpoint_dump_WriteFile Let_def split: option.splits)
qed

lemma uploadFileWithCp_resume_WriteFile:
  "uploadFileWithCp_resume (W\<lparr>w_WriteFile := f\<rparr>) bucketName objectKey filePath partSize cpFilePath =
   uploadFileWithCp_resume W bucketName objectKey filePath partSize cpFilePath"
proof -
  have "uploadCheckpoint_load (W\<lparr>w_WriteFile := f\<rparr>) cp p = uploadCheckpoint_load W cp p" for cp p
    by (simp add: uploadCheckpoint_load_def split: sum.splits)
  moreover have "uploadCheckpoint_isValid (W\<lparr>w_WriteFile := f\<rparr>) cp p = uploadCheckpoint_isValid W cp p"
    for cp p
    by (simp add: uploadCheckpoint_isValid_def Let_def split: sum.splits)
  moreover have "prepare (W\<lparr>w_WriteFile := f\<rparr>) cp b k p ps = prepare W cp b k p ps" for cp b k p ps
    by (simp add: prepare_def Let_def split: sum.splits)
  ultimately show ?thesis
    by (simp add: uploadFileWithCp_resume_def Let_def split: prod.splits sum.splits)
qed

lemma uploadFileWithCp_run_WriteFile:
  "uploadFileWithCp_run (W\<lparr>w_WriteFile := f\<rparr>) bucketName objectKey cpFilePath routines ucp tr1 msgs =
   uploadFileWithCp_run W bucketName objectKey cpFilePath routines ucp tr1 msgs"
proof -
  have "complete (W\<lparr>w_WriteFile := f\<rparr>) cp b parts p = complete W cp b parts p" for cp b parts p
    by (simp add: complete_def)
  then show ?thesis
    by (simp add: uploadFileWithCp_run_def uploadFileWithCp_wait_WriteFile Let_def split: wait.splits)
qed

lemma uploadFileWithCp_WriteFile:
  "uploadFileWithCp (W\<lparr>w_WriteFile := f\<rparr>) bucketName objectKey filePath partSize cpFilePath
     routines msgs =
   uploadFileWithCp W bucketName objectKey filePath partSize cpFilePath routines msgs"
  by (simp add: uploadFileWithCp_def uploadFileWithCp_resume_WriteFile uploadFileWithCp_run_WriteFile
        split: prod.splits sum.splits)

lemma copyFileWithCp_resume_WriteFile:
  "copyFileWithCp_resume (W\<lparr>w_WriteFile := f\<rparr>) srcBucketName srcObjectKey destBucketName
     destObjectKey partSize cpFilePath =
   copyFileWithCp_resume W srcBucketName srcObjectKey destBucketName destObjectKey partSize cpFilePath"
proof -
  have "copyCheckpoint_load (W\<lparr>w_WriteFile := f\<rparr>) cp p = copyCheckpoint_load W cp p" for cp p
    by (simp add: copyCheckpoint_load_def split: sum.splits)
  moreover have "copyCheckpoint_isValid (W\<lparr>w_WriteFile := f\<rparr>) cp b k = copyCheckpoint_isValid W cp b k"
    for cp b k
    by (simp add: copyCheckpoint_isValid_def Let_def split: sum.splits)
  moreover have gp: "getCopyParts (W\<lparr>w_WriteFile := f\<rparr>) b k ps = getCopyParts W b k ps" for b k ps
    by (simp add: getCopyParts_def split: sum.splits)
  have "copyCheckpoint_prepare (W\<lparr>w_WriteFile := f\<rparr>) cp sb sk db dk ps =
      copyCheckpoint_prepare W cp sb sk db dk ps" for cp sb sk db dk ps
    by (simp add: copyCheckpoint_prepare_def gp Let_def split: sum.splits prod.splits option.splits)
  ultimately show ?thesis
    by (simp add: copyFileWithCp_resume_def Let_def split: prod.splits sum.splits option.splits)
qed

lemma copyFileWithCp_run_WriteFile:
  "copyFileWithCp_run (W\<lparr>w_WriteFile := f\<rparr>) destBucketName destObjectKey cpFilePath routines ccp
     tr2 msgs =
   copyFileWithCp_run W destBucketName destObjectKey cpFilePath routines ccp tr2 msgs"
proof -
  have "copyCheckpoint_complete (W\<lparr>w_WriteFile := f\<rparr>) cp parts p = copyCheckpoint_complete W cp parts p"
    for cp parts p
    by (simp add: copyCheckpoint_complete_def)
  then show ?thesis
    by (simp add: copyFileWithCp_run_def copyFileWithCp_wait_WriteFile Let_def
          split: wait.splits option.splits)
qed

lemma copyFileWithCp_WriteFile:
  "copyFileWithCp (W\<lparr>w_WriteFile := f\<rparr>) srcBucketName srcObjectKey destBucketName destObjectKey
     partSize cpFilePath routines msgs =
   copyFileWithCp W srcBucketName srcObjectKey destBucketName destObjectKey partSize cpFilePath
     routines msgs"
  by (simp add: copyFileWithCp_def copyFileWithCp_resume_WriteFile copyFileWithCp_run_WriteFile
        split: prod.splits sum.splits option.splits)

lemma uploadFileWithCp_wait_part:
  assumes "uploadFileWithCp_wait W cpFilePath chunks rs s0 = Blocked s1"
    and "updatePart (store s1) part = Some ucp"
  shows "\<exists>s2. uploadFileWithCp_wait W cpFilePath chunks (rs @ [Result part]) s0 \<in>
                {Blocked s2, Finished s2} \<and>
              store s2 = ucp \<and>
              pt_Part (ucp_Parts ucp ! nat (up_PartNumber part - 1)) = part \<and>
              trace s2 = trace s1 @ snd (uploadCheckpoint_dump W ucp cpFilePath) @
                         [Publish TransferDataEvent (completedBytes s2) (st_Size (ucp_FileStat ucp))]"
proof -
  from uploadFileWithCp_wait_append [OF assms(1), of "[Result part]"]
  have waiting: "completed s1 < length chunks"
    and step: "uploadFileWithCp_wait W cpFilePath chunks (rs @ [Result part]) s0 =
               uploadFileWithCp_wait W cpFilePath chunks [Result part] s1"
    by simp_all
  from assms(2) have token: "pt_Part (ucp_Parts ucp ! nat (up_PartNumber part - 1)) = part"
    by (auto simp: updatePart_def Let_def split: if_splits)
  define cb where
    "cb = completedBytes s1 + fc_Size (pt_Chunk (ucp_Parts ucp ! nat (up_PartNumber part - 1)))"
  define s2 where
    "s2 = s1\<lparr>completed := completed s1 + 1, store := ucp, completedBytes := cb,
              trace := trace s1 @ snd (uploadCheckpoint_dump W ucp cpFilePath) @
                       [Publish TransferDataEvent cb (st_Size (ucp_FileStat ucp))]\<rparr>"
  from waiting assms(2) have "uploadFileWithCp_wait W cpFilePath chunks [Result part] s1 =
      uploadFileWithCp_wait W cpFilePath chunks [] s2"
    by (simp add: Let_def s2_def cb_def)
  with step have "uploadFileWithCp_wait W cpFilePath chunks (rs @ [Result part]) s0 \<in>
      {Blocked s2, Finished s2}"
    by simp
  with token show ?thesis
    by (intro exI [of _ s2]) (simp add: s2_def)
qed

lemma copyFileWithCp_wait_part:
  assumes "copyFileWithCp_wait W cpFilePath parts rs s0 = Blocked s1"
    and "copyCheckpoint_update (store s1) part = Some ccp"
    and "up_PartNumber part \<le> int (length parts)"
  shows "\<exists>s2. copyFileWithCp_wait W cpFilePath parts (rs @ [Result part]) s0 \<in>
                {Blocked s2, Finished s2} \<and>
              store s2 = ccp \<and>
              ccp_CopyParts ccp ! nat (up_PartNumber part - 1) = part \<and>
              trace s2 = trace s1 @ snd (copyCheckpoint_dump W ccp cpFilePath) @
                         [Publish TransferDataEvent (completedBytes s2) (os_Size (ccp_ObjStat ccp))]"
proof -
  from copyFileWithCp_wait_append [OF assms(1), of "[Result part]"]
  have waiting: "completed s1 < length parts"
    and step: "copyFileWithCp_wait W cpFilePath parts (rs @ [Result part]) s0 =
               copyFileWithCp_wait W cpFilePath parts [Result part] s1"
    by simp_all
  from assms(2) have token: "ccp_CopyParts ccp ! nat (up_PartNumber part - 1) = part"
    and low: "0 \<le> up_PartNumber part - 1"
    by (auto simp: copyCheckpoint_update_def Let_def split: if_splits)
  define i where "i = nat (up_PartNumber part - 1)"
  define cb where "cb = completedBytes s1 + (cpt_End (parts ! i) - cpt_Start (parts ! i) + 1)"
  define s2 where
    "s2 = s1\<lparr>completed := completed s1 + 1, store := ccp, completedBytes := cb,
              trace := trace s1 @ snd (copyCheckpoint_dump W ccp cpFilePath) @
                       [Publish TransferDataEvent cb (os_Size (ccp_ObjStat ccp))]\<rparr>"
  from waiting assms(2,3) low have "copyFileWithCp_wait W cpFilePath parts [Result part] s1 =
      copyFileWithCp_wait W cpFilePath parts [] s2"
    by (simp add: Let_def s2_def cb_def i_def)
  with step have "copyFileWithCp_wait W cpFilePath parts (rs @ [Result part]) s0 \<in>
      {Blocked s2, Finished s2}"
    by simp
  with token show ?thesis
    by (intro exI [of _ s2]) (simp add: s2_def)
qed

subsection \<open>Save before the data event\<close>

text \<open>
  C4, as the code has it. While a checkpointed transfer waits for parts, each part received
  is first entered in the checkpoint with its token, then the checkpoint is dumped, and
  only then the data event is published: the actions of the step are those of the dump
  followed by the event. What the dump returns is dropped. A run therefore has the same
  outcome and the same actions whatever the write of the checkpoint file answers: a failed
  save does not end it.
\<close>

theorem save_then_data_event:
  "uploadFileWithCp (W\<lparr>w_WriteFile := f\<rparr>) bucketName objectKey filePath partSize cpFilePath
       routines msgs =
     uploadFileWithCp W bucketName objectKey filePath partSize cpFilePath routines msgs \<and>
   copyFileWithCp (W\<lparr>w_WriteFile := f\<rparr>) srcBucketName srcObjectKey bucketName objectKey partSize
       cpFilePath routines msgs =
     copyFileWithCp W srcBucketName srcObjectKey bucketName objectKey partSize cpFilePath
       routines msgs \<and>
   (uploadFileWithCp_wait W cpFilePath chunks rs u0 = Blocked u1 \<and>
    updatePart (store u1) part = Some ucp \<longrightarrow>
      (\<exists>u2. uploadFileWithCp_wait W cpFilePath chunks (rs @ [Result part]) u0 \<in>
               {Blocked u2, Finished u2} \<and>
             store u2 = ucp \<and>
             pt_Part (ucp_Parts ucp ! nat (up_PartNumber part - 1)) = part \<and>
             trace u2 = trace u1 @ snd (uploadCheckpoint_dump W ucp cpFilePath) @
                        [Publish TransferDataEvent (completedBytes u2) (st_Size (ucp_FileStat ucp))])) \<and>
   (copyFileWithCp_wait W cpFilePath parts rs c0 = Blocked c1 \<and>
    copyCheckpoint_update (store c1) part = Some ccp \<and>
    up_PartNumber part \<le> int (length parts) \<longrightarrow>
      (\<exists>c2. copyFileWithCp_wait W cpFilePath parts (rs @ [Result part]) c0 \<in>
               {Blocked c2, Finished c2} \<and>
             store c2 = ccp \<and>
             ccp_CopyParts ccp ! nat (up_PartNumber part - 1) = part \<and>
             trace c2 = trace c1 @ snd (copyCheckpoint_dump W ccp cpFilePath) @
                        [Publish TransferDataEvent (completedBytes c2) (os_Size (ccp_ObjStat ccp))]))"
  using uploadFileWithCp_WriteFile copyFileWithCp_WriteFile
        uploadFileWithCp_wait_part [of W cpFilePath chunks rs u0 u1 part ucp]
        copyFileWithCp_wait_part [of W cpFilePath parts rs c0 c1 part ccp]
  by simp

theorem save_then_data_event_witness:
  "uploadFileWithCp failing_write_world ''b'' ''k'' ''f'' 102400 ''f.cp'' 1
       [Result part1, Result part2] =
     uploadFileWithCp sample_world ''b'' ''k'' ''f'' 102400 ''f.cp'' 1
       [Result part1, Result part2] \<and>
   (\<exists>u2. uploadFileWithCp_wait sample_world ''f.cp'' sample_chunks ([] @ [Result part1])
             \<lparr>completed = 0, store = sample_ucp, completedBytes = 0, trace = []\<rparr> \<in>
            {Blocked u2, Finished u2} \<and>
          store u2 = sample_ucp1 \<and>
          trace u2 = [WriteFile ''f.cp'' ''#:10:10'' 420,
                      Publish TransferDataEvent (completedBytes u2) 204800]) \<and>
   (\<exists>c2. copyFileWithCp_wait sample_world ''f.cp'' sample_copy_parts ([] @ [Result part1])
             \<lparr>completed = 0, store = sample_ccp, completedBytes = 0, trace = []\<rparr> \<in>
            {Blocked c2, Finished c2} \<and>
          store c2 = sample_ccp1 \<and>
          trace c2 = [WriteFile ''f.cp'' ''#:10:10'' 420,
                      Publish TransferDataEvent (completedBytes c2) 204800])"
proof -
  let ?u0 = "\<lparr>completed = 0, store = sample_ucp, completedBytes = 0, trace = []\<rparr>"
  let ?c0 = "\<lparr>completed = 0, store = sample_ccp, completedBytes = 0, trace = []\<rparr>"
  have u_waits: "uploadFileWithCp_wait sample_world ''f.cp'' sample_chunks [] ?u0 = Blocked ?u0"
    by (simp add: sample_chunks_def)
  have u_enters: "updatePart (store ?u0) part1 = Some sample_ucp1"
    by (simp add: updatePart_def sample_ucp_def sample_ucp1_def sample_chunks_def part1_def)
  have c_waits: "copyFileWithCp_wait sample_world ''f.cp'' sample_copy_parts [] ?c0 = Blocked ?c0"
    by (simp add: sample_copy_parts_def)
  have c_enters: "copyCheckpoint_update (store ?c0) part1 = Some sample_ccp1"
    by (simp add: copyCheckpoint_update_def sample_ccp_def sample_ccp1_def part1_def)
  have c_range: "up_PartNumber part1 \<le> int (length sample_copy_parts)"
    by (simp add: part1_def sample_copy_parts_def)
  have u_dump: "snd (uploadCheckpoint_dump sample_world sample_ucp1 ''f.cp'') =
      [WriteFile ''f.cp'' ''#:10:10'' 420]"
    by (simp add: uploadCheckpoint_dump_def uploadCheckpoint_seal_def sample_world_fields
          sample_ucp1_def sample_ucp_def)
  have c_dump: "snd (copyCheckpoint_dump sample_world sample_ccp1 ''f.cp'') =
      [WriteFile ''f.cp'' ''#:10:10'' 420]"
    by (simp add: copyCheckpoint_dump_def copyCheckpoint_seal_def sample_world_fields
          sample_ccp1_def sample_ccp_def)
  have u_size: "st_Size (ucp_FileStat sample_ucp1) = 204800"
    and c_size: "os_Size (ccp_ObjStat sample_ccp1) = 204800"
    by (simp_all add: sample_ucp1_def sample_ucp_def sample_ccp1_def sample_ccp_def)
  note inst = save_then_data_event
    [where W = sample_world and f = "\<lambda>name data perm. Some (Error ''no space left on device'')"
       and bucketName = "''b''" and objectKey = "''k''" and filePath = "''f''"
       and partSize = 102400 and cpFilePath = "''f.cp''" and routines = 1
       and msgs = "[Result part1, Result part2]"
       and chunks = sample_chunks and rs = "[]" and ?u0.0 = ?u0 and ?u1.0 = ?u0
       and part = part1 and ucp = sample_ucp1
       and parts = sample_copy_parts and ?c0.0 = ?c0 and ?c1.0 = ?c0 and ccp = sample_ccp1]
  from inst have a: "uploadFileWithCp failing_write_world ''b'' ''k'' ''f'' 102400 ''f.cp'' 1
       [Result part1, Result part2] =
     uploadFileWithCp sample_world ''b'' ''k'' ''f'' 102400 ''f.cp'' 1
       [Result part1, Result part2]"
    unfolding failing_write_world_def by blast
  from inst u_waits u_enters have "\<exists>u2.
      uploadFileWithCp_wait sample_world ''f.cp'' sample_chunks ([] @ [Result part1]) ?u0 \<in>
        {Blocked u2, Finished u2} \<and>
      store u2 = sample_ucp1 \<and>
      pt_Part (ucp_Parts sample_ucp1 ! nat (up_PartNumber part1 - 1)) = part1 \<and>
      trace u2 = trace ?u0 @ snd (uploadCheckpoint_dump sample_world sample_ucp1 ''f.cp'') @
                 [Publish TransferDataEvent (completedBytes u2) (st_Size (ucp_FileStat sample_ucp1))]"
    by blast
  then have b: "\<exists>u2.
      uploadFileWithCp_wait sample_world ''f.cp'' sample_chunks ([] @ [Result part1]) ?u0 \<in>
        {Blocked u2, Finished u2} \<and>
      store u2 = sample_ucp1 \<and>
      trace u2 = [WriteFile ''f.cp'' ''#:10:10'' 420,
                  Publish TransferDataEvent (completedBytes u2) 204800]"
    unfolding u_dump u_size by auto
  from inst c_waits c_enters c_range have "\<exists>c2.
      copyFileWithCp_wait sample_world ''f.cp'' sample_copy_parts ([] @ [Result part1]) ?c0 \<in>
        {Blocked c2, Finished c2} \<and>
      store c2 = sample_ccp1 \<and>
      ccp_CopyParts sample_ccp1 ! nat (up_PartNumber part1 - 1) = part1 \<and>
      trace c2 = trace ?c0 @ snd (copyCheckpoint_dump sample_world sample_ccp1 ''f.cp'') @
                 [Publish TransferDataEvent (completedBytes c2) (os_Size (ccp_ObjStat sample_ccp1))]"
    by blast
  then have c: "\<exists>c2.
      copyFileWithCp_wait sample_world ''f.cp'' sample_copy_parts ([] @ [Result part1]) ?c0 \<in>
        {Blocked c2, Finished c2} \<and>
      store c2 = sample_ccp1 \<and>
      trace c2 = [WriteFile ''f.cp'' ''#:10:10'' 420,
                  Publish TransferDataEvent (completedBytes c2) 204800]"
    unfolding c_dump c_size by auto
  from a b c show ?thesis by blast
qed

text \<open>
  C4 as stated makes a failed save end the run. On a host where every write of the
  checkpoint file fails, the run publishes both data events, completes the upload and
  returns no error.
\<close>

theorem failed_save_not_terminal_counterexample:
  "w_WriteFile failing_write_world ''f.cp'' ''#:10:10'' 420 =
     Some (Error ''no space left on device'') \<and>
   w_WriteFile failing_write_world ''f.cp'' ''#:11:11'' 420 =
     Some (Error ''no space left on device'') \<and>
   uploadFileWithCp failing_write_world ''b'' ''k'' ''f'' 102400 ''f.cp'' 1
       [Result part1, Result part2] =
     (Return None,
      [Remove ''f.cp'', InitiateMultipartUpload ''b'' ''k'', Remove ''f.cp'',
       Publish TransferStartedEvent 0 204800,
       GoWorker 1 sample_imur, GoScheduler sample_chunks,
       WriteFile ''f.cp'' ''#:10:10'' 420,
       Publish TransferDataEvent 102400 204800,
       WriteFile ''f.cp'' ''#:11:11'' 420,
       Publish TransferDataEvent 204800 204800,
       Publish TransferCompletedEvent 204800 204800,
       CompleteMultipartUpload sample_imur [part1, part2],
       Remove ''f.cp''])"
  by (simp add: uploadFileWithCp_def uploadFileWithCp_resume_def uploadCheckpoint_load_def
        uploadCheckpoint_isValid_def prepare_def calcFileMD5_def failing_write_world_def
        sample_world_fields uploadCheckpoint_zero_def uploadCpMagic_def Let_def
        uploadFileWithCp_run_def uploadCheckpoint_todoParts_def
        uploadCheckpoint_getCompletedBytes_def updatePart_def uploadCheckpoint_dump_def
        uploadCheckpoint_seal_def part1_def part2_def sample_imur_def sample_chunks_def
        start_workers_def complete_def allParts_def)

section \<open>Resuming from a checkpoint\<close>






subsection \<open>What a resumed upload schedules\<close>





section \<open>The checkpoint file\<close>

text \<open>
  C3, as the code has it. A dump marshals the checkpoint with the digest field blank,
  fills in the base64 MD5 of those bytes, marshals the record again and hands the bytes to
  one \<^verbatim>\<open>ioutil.WriteFile\<close> on the checkpoint path itself, with \<^verbatim>\<open>FilePermMode\<close>: whenever
  both marshallings succeed this write is made, it is the only action of the dump, it
  carries the whole record, and its result is the dump's result. Only when a marshalling
  fails does the dump write nothing, and it returns that error. There is no temporary
  file, no flush and no rename. The same holds for the upload and the copy checkpoint.
\<close>

theorem dump_is_one_direct_write:
  "uploadCheckpoint_dump W ucp filePath =
     (case w_MarshalUpload W (ucp\<lparr>ucp_MD5 := ''''\<rparr>) of
        Inl err \<Rightarrow> (Some err, [])
      | Inr js0 \<Rightarrow>
          (case w_MarshalUpload W (ucp\<lparr>ucp_MD5 := w_md5_base64 W js0\<rparr>) of
             Inl err \<Rightarrow> (Some err, [])
           | Inr js \<Rightarrow>
               (w_WriteFile W filePath js (w_FilePermMode W),
                [WriteFile filePath js (w_FilePermMode W)]))) \<and>
   copyCheckpoint_dump W ccp filePath =
     (case w_MarshalCopy W (ccp\<lparr>ccp_MD5 := ''''\<rparr>) of
        Inl err \<Rightarrow> (Some err, [])
      | Inr js0 \<Rightarrow>
          (case w_MarshalCopy W (ccp\<lparr>ccp_MD5 := w_md5_base64 W js0\<rparr>) of
             Inl err \<Rightarrow> (Some err, [])
           | Inr js \<Rightarrow>
               (w_WriteFile W filePath js (w_FilePermMode W),
                [WriteFile filePath js (w_FilePermMode W)]))) \<and>
   \<not> spec_atomic_save filePath (snd (uploadCheckpoint_dump W ucp filePath)) \<and>
   \<not> spec_atomic_save filePath (snd (copyCheckpoint_dump W ccp filePath))"
proof (intro conjI)
  show "uploadCheckpoint_dump W ucp filePath =
     (case w_MarshalUpload W (ucp\<lparr>ucp_MD5 := ''''\<rparr>) of
        Inl err \<Rightarrow> (Some err, [])
      | Inr js0 \<Rightarrow>
          (case w_MarshalUpload W (ucp\<lparr>ucp_MD5 := w_md5_base64 W js0\<rparr>) of
             Inl err \<Rightarrow> (Some err, [])
           | Inr js \<Rightarrow>
               (w_WriteFile W filePath js (w_FilePermMode W),
                [WriteFile filePath js (w_FilePermMode W)])))"
    by (cases "w_MarshalUpload W (ucp\<lparr>ucp_MD5 := ''''\<rparr>)")
       (simp_all add: uploadCheckpoint_dump_def uploadCheckpoint_seal_def)
next
  show "copyCheckpoint_dump W ccp filePath =
     (case w_MarshalCopy W (ccp\<lparr>ccp_MD5 := ''''\<rparr>) of
        Inl err \<Rightarrow> (Some err, [])
      | Inr js0 \<Rightarrow>
          (case w_MarshalCopy W (ccp\<lparr>ccp_MD5 := w_md5_base64 W js0\<rparr>) of
             Inl err \<Rightarrow> (Some err, [])
           | Inr js \<Rightarrow>
               (w_WriteFile W filePath js (w_FilePermMode W),
                [WriteFile filePath js (w_FilePermMode W)])))"
    by (cases "w_MarshalCopy W (ccp\<lparr>ccp_MD5 := ''''\<rparr>)")
       (simp_all add: copyCheckpoint_dump_def copyCheckpoint_seal_def)
next
  show "\<not> spec_atomic_save filePath (snd (uploadCheckpoint_dump W ucp filePath))"
    using uploadCheckpoint_dump_actions [of W ucp filePath]
    by (auto simp: spec_atomic_save_def)
next
  show "\<not> spec_atomic_save filePath (snd (copyCheckpoint_dump W ccp filePath))"
    using copyCheckpoint_dump_actions [of W ccp filePath]
    by (auto simp: spec_atomic_save_def)
qed

lemma sample_dump:
  "uploadCheckpoint_dump sample_world sample_ucp1 ''f.cp'' =
     (None, [WriteFile ''f.cp'' ''#:10:10'' 420])"
  by (simp add: uploadCheckpoint_dump_def uploadCheckpoint_seal_def sample_world_fields
        sample_ucp1_def sample_ucp_def)

lemma sample_write_not_atomic:
  "\<not> spec_atomic_save ''f.cp'' [WriteFile ''f.cp'' ''#:10:10'' 420]"
  by (simp add: spec_atomic_save_def)

theorem dump_is_one_direct_write_witness:
  "uploadCheckpoint_dump sample_world sample_ucp1 ''f.cp'' =
     (None, [WriteFile ''f.cp'' ''#:10:10'' 420]) \<and>
   copyCheckpoint_dump sample_world sample_ccp1 ''k.cp'' =
     (None, [WriteFile ''k.cp'' ''#:10:10'' 420]) \<and>
   \<not> spec_atomic_save ''f.cp'' (snd (uploadCheckpoint_dump sample_world sample_ucp1 ''f.cp''))"
proof -
  note upload = dump_is_one_direct_write [of sample_world sample_ucp1 "''f.cp''" sample_ccp1]
  note copy = dump_is_one_direct_write [of sample_world sample_ucp1 "''k.cp''" sample_ccp1]
  from upload have "uploadCheckpoint_dump sample_world sample_ucp1 ''f.cp'' =
      (None, [WriteFile ''f.cp'' ''#:10:10'' 420])"
    by (simp add: sample_world_fields sample_ucp1_def sample_ucp_def)
  moreover from copy have "copyCheckpoint_dump sample_world sample_ccp1 ''k.cp'' =
      (None, [WriteFile ''k.cp'' ''#:10:10'' 420])"
    by (simp add: sample_world_fields sample_ccp1_def sample_ccp_def)
  moreover from upload
  have "\<not> spec_atomic_save ''f.cp'' (snd (uploadCheckpoint_dump sample_world sample_ucp1 ''f.cp''))"
    by blast
  ultimately show ?thesis
    by (intro conjI)
qed

text \<open>
  C3 as stated has every save go through a temporary file that is flushed and renamed over
  the target. The dump of the sample checkpoint is a single write to the checkpoint file.
\<close>

theorem dump_not_atomic_counterexample:
  "uploadCheckpoint_dump sample_world sample_ucp1 ''f.cp'' =
     (None, [WriteFile ''f.cp'' ''#:10:10'' 420]) \<and>
   \<not> spec_atomic_save ''f.cp'' [WriteFile ''f.cp'' ''#:10:10'' 420]"
  using sample_dump sample_write_not_atomic by (rule conjI)

subsection \<open>Validation after a dump\<close>

lemma uploadCheckpoint_seal_Inr:
  "uploadCheckpoint_seal W cp = Inr bcp \<Longrightarrow>
   \<exists>js. w_MarshalUpload W (cp\<lparr>ucp_MD5 := ''''\<rparr>) = Inr js \<and>
        bcp = cp\<lparr>ucp_MD5 := w_md5_base64 W js\<rparr>"
  by (cases "w_MarshalUpload W (cp\<lparr>ucp_MD5 := ''''\<rparr>)")
     (simp_all add: uploadCheckpoint_seal_def)

lemma copyCheckpoint_seal_Inr:
  "copyCheckpoint_seal W cp = Inr bcp \<Longrightarrow>
   \<exists>js. w_MarshalCopy W (cp\<lparr>ccp_MD5 := ''''\<rparr>) = Inr js \<and>
        bcp = cp\<lparr>ccp_MD5 := w_md5_base64 W js\<rparr>"
  by (cases "w_MarshalCopy W (cp\<lparr>ccp_MD5 := ''''\<rparr>)")
     (simp_all add: copyCheckpoint_seal_def)

lemma uploadCheckpoint_sealed_valid:
  assumes "uploadCheckpoint_seal W cp = Inr bcp"
    and "ucp_Magic cp = uploadCpMagic"
    and "w_Stat W filePath = Inr (st_Size (ucp_FileStat cp), st_LastModified (ucp_FileStat cp))"
    and "st_MD5 (ucp_FileStat cp) = ''''"
  shows "uploadCheckpoint_isValid W bcp filePath = (True, None)"
proof -
  from uploadCheckpoint_seal_Inr [OF assms(1)] obtain js where
    js: "w_MarshalUpload W (cp\<lparr>ucp_MD5 := ''''\<rparr>) = Inr js" and
    bcp: "bcp = cp\<lparr>ucp_MD5 := w_md5_base64 W js\<rparr>"
    by blast
  show ?thesis
    unfolding bcp using js assms(2,3,4)
    by (simp add: uploadCheckpoint_isValid_def calcFileMD5_def)
qed

lemma copyCheckpoint_sealed_valid_for_download_magic:
  assumes "copyCheckpoint_seal W cp = Inr bcp"
    and "ccp_Magic cp = w_downloadCpMagic W"
    and "w_GetObjectDetailedMeta W bucketName objectKey = Inr m"
    and "w_ParseInt W (meta_ContentLength m) = Inr (os_Size (ccp_ObjStat cp))"
    and "meta_LastModified m = os_LastModified (ccp_ObjStat cp)"
    and "meta_Etag m = os_Etag (ccp_ObjStat cp)"
  shows "copyCheckpoint_isValid W bcp bucketName objectKey =
           ((True, None), [GetObjectDetailedMeta bucketName objectKey])"
proof -
  from copyCheckpoint_seal_Inr [OF assms(1)] obtain js where
    js: "w_MarshalCopy W (cp\<lparr>ccp_MD5 := ''''\<rparr>) = Inr js" and
    bcp: "bcp = cp\<lparr>ccp_MD5 := w_md5_base64 W js\<rparr>"
    by blast
  show ?thesis
    unfolding bcp using js assms(2-)
    by (simp add: copyCheckpoint_isValid_def)
qed

text \<open>
  C1 on the code. A copy checkpoint carries \<^verbatim>\<open>copyCpMagic\<close> (it is what \<^verbatim>\<open>prepare\<close> sets and
  what the tests assert), but \<^verbatim>\<open>copyCheckpoint.isValid\<close> compares the magic with
  \<^verbatim>\<open>downloadCpMagic\<close>. With the two constants distinct, the record that a dump writes is
  rejected whatever the source object's metadata: no HEAD request is even made.
\<close>

theorem copy_checkpoint_rejected_after_dump:
  assumes "copyCheckpoint_seal W cp = Inr bcp"
    and "ccp_Magic cp = copyCpMagic"
    and "w_downloadCpMagic W \<noteq> copyCpMagic"
  shows "copyCheckpoint_isValid W bcp bucketName objectKey = ((False, None), [])"
proof -
  from copyCheckpoint_seal_Inr [OF assms(1)] have "ccp_Magic bcp = ccp_Magic cp"
    by auto
  with assms(2,3) show ?thesis
    by (simp add: copyCheckpoint_isValid_def)
qed

theorem copy_checkpoint_rejected_after_dump_witness:
  "copyCheckpoint_seal sample_world sample_ccp1 = Inr (sample_ccp1\<lparr>ccp_MD5 := ''#:10''\<rparr>) \<and>
   copyCheckpoint_isValid sample_world (sample_ccp1\<lparr>ccp_MD5 := ''#:10''\<rparr>) ''sb'' ''sk'' =
     ((False, None), []) \<and>
   copyCheckpoint_isValid (sample_world\<lparr>w_downloadCpMagic := copyCpMagic\<rparr>)
       (sample_ccp1\<lparr>ccp_MD5 := ''#:10''\<rparr>) ''sb'' ''sk'' =
     ((True, None), [GetObjectDetailedMeta ''sb'' ''sk''])"
proof -
  have sealed: "copyCheckpoint_seal sample_world sample_ccp1 = Inr (sample_ccp1\<lparr>ccp_MD5 := ''#:10''\<rparr>)"
    by (simp add: copyCheckpoint_seal_def sample_world_fields sample_ccp1_def sample_ccp_def)
  have magic: "ccp_Magic sample_ccp1 = copyCpMagic"
    by (simp add: sample_ccp1_def sample_ccp_def)
  have distinct: "w_downloadCpMagic sample_world \<noteq> copyCpMagic"
    by (simp add: sample_world_fields copyCpMagic_def)
  have own: "copyCheckpoint_isValid (sample_world\<lparr>w_downloadCpMagic := copyCpMagic\<rparr>)
       (sample_ccp1\<lparr>ccp_MD5 := ''#:10''\<rparr>) ''sb'' ''sk'' =
     ((True, None), [GetObjectDetailedMeta ''sb'' ''sk''])"
    by (simp add: copyCheckpoint_isValid_def sample_world_fields sample_ccp1_def sample_ccp_def)
  from copy_checkpoint_rejected_after_dump [OF sealed magic distinct, of "''sb''" "''sk''"] sealed own
  show ?thesis by simp
qed

section \<open>The index of a completed part\<close>

lemma todoParts_from_filter:
  "n = i + length PartStat \<Longrightarrow> n \<le> length Parts \<Longrightarrow>
   todoParts_from Parts i PartStat dps =
     Some (dps @ map (\<lambda>j. Parts ! j) (filter (\<lambda>j. \<not> PartStat ! (j - i)) [i..<n]))"
proof (induction PartStat arbitrary: i dps)
  case Nil
  then show ?case by simp
next
  case (Cons ps rest)
  from Cons.prems have n: "n = Suc i + length rest" and i: "i < n" "i < length Parts"
    by simp_all
  have nth_shift: "(b # rest) ! (j - i) = rest ! (j - Suc i)" if "Suc i \<le> j" for j b
  proof -
    from that have "j - i = Suc (j - Suc i)" by arith
    then show ?thesis by simp
  qed
  have shift: "filter (\<lambda>j. \<not> (b # rest) ! (j - i)) [Suc i..<n] =
      filter (\<lambda>j. \<not> rest ! (j - Suc i)) [Suc i..<n]" for b
  proof (rule filter_cong [OF refl])
    fix j
    assume "j \<in> set [Suc i..<n]"
    then have "Suc i \<le> j" by (simp only: set_upt atLeastLessThan_iff)
    from nth_shift [OF this] show "(\<not> (b # rest) ! (j - i)) = (\<not> rest ! (j - Suc i))"
      by (simp only:)
  qed
  have upt: "[i..<n] = i # [Suc i..<n]"
    using i(1) by (rule upt_conv_Cons)
  note ih = Cons.IH [OF n Cons.prems(2)]
  show ?case
    unfolding upt using i(2) by (simp add: ih shift)
qed

lemma copyCheckpoint_todoParts_filter:
  assumes "length (ccp_PartStat cp) = length (ccp_Parts cp)"
  shows "copyCheckpoint_todoParts cp =
     Some (map (\<lambda>j. ccp_Parts cp ! j)
             (filter (\<lambda>j. \<not> ccp_PartStat cp ! j) [0..<length (ccp_Parts cp)]))"
  using todoParts_from_filter [of "length (ccp_Parts cp)" 0 "ccp_PartStat cp" "ccp_Parts cp" "[]"] assms
  by (simp add: copyCheckpoint_todoParts_def)

lemma filter_upt_nth:
  "k < length (filter P [m..<n]) \<Longrightarrow>
   m + k \<le> filter P [m..<n] ! k \<and>
   filter P [m..<n] ! k < n \<and>
   (filter P [m..<n] ! k = m + k \<longleftrightarrow> (\<forall>j. m \<le> j \<and> j \<le> m + k \<longrightarrow> P j))"
proof (induction "n - m" arbitrary: m k)
  case 0
  then show ?case by simp
next
  case (Suc d)
  then have mn: "m < n" and d: "d = n - Suc m"
    by simp_all
  then have upt: "[m..<n] = m # [Suc m..<n]"
    by (simp add: upt_conv_Cons)
  show ?case
  proof (cases "P m")
    case False
    with Suc.prems upt have k: "k < length (filter P [Suc m..<n])"
      and same: "filter P [m..<n] = filter P [Suc m..<n]"
      by simp_all
    from Suc.hyps(1) [OF d k] False show ?thesis
      unfolding same by auto
  next
    case True
    then have cons: "filter P [m..<n] = m # filter P [Suc m..<n]"
      using upt by simp
    show ?thesis
    proof (cases k)
      case 0
      with True mn show ?thesis
        unfolding cons by auto
    next
      case (Suc k')
      with Suc.prems cons have k': "k' < length (filter P [Suc m..<n])"
        by simp
      from Suc.hyps(1) [OF d k'] have
        ih: "Suc m + k' \<le> filter P [Suc m..<n] ! k'"
            "filter P [Suc m..<n] ! k' < n"
            "filter P [Suc m..<n] ! k' = Suc m + k' \<longleftrightarrow>
               (\<forall>j. Suc m \<le> j \<and> j \<le> Suc m + k' \<longrightarrow> P j)"
        by blast+
      have "(\<forall>j. m \<le> j \<and> j \<le> m + Suc k' \<longrightarrow> P j) \<longleftrightarrow>
            (\<forall>j. Suc m \<le> j \<and> j \<le> Suc m + k' \<longrightarrow> P j)"
      proof (intro iffI allI impI)
        fix j
        assume "\<forall>j. m \<le> j \<and> j \<le> m + Suc k' \<longrightarrow> P j" and "Suc m \<le> j \<and> j \<le> Suc m + k'"
        then show "P j" by simp
      next
        fix j
        assume all: "\<forall>j. Suc m \<le> j \<and> j \<le> Suc m + k' \<longrightarrow> P j" and j: "m \<le> j \<and> j \<le> m + Suc k'"
        show "P j"
        proof (cases "j = m")
          case True
          with \<open>P m\<close> show ?thesis by simp
        next
          case False
          with j have "Suc m \<le> j \<and> j \<le> Suc m + k'" by arith
          with all show ?thesis by blast
        qed
      qed
      with ih Suc show ?thesis
        unfolding cons by simp
    qed
  qed
qed


lemma copyFileWithCp_wait_out_of_range:
  assumes "completed s < length parts" and "int (length parts) < up_PartNumber part"
  shows "\<exists>s'. copyFileWithCp_wait W cpFilePath parts (Result part # ms) s = Panicked s'"
proof (cases "copyCheckpoint_update (store s) part")
  case None
  with assms(1) show ?thesis by simp
next
  case (Some ccp)
  from assms(2) have "\<not> (0 \<le> up_PartNumber part - 1 \<and> up_PartNumber part - 1 < int (length parts))"
    by simp
  with assms(1) Some show ?thesis by (auto simp: Let_def)
qed

lemma copyFileWithCp_wait_in_range:
  assumes "completed s < length parts"
    and "copyCheckpoint_update (store s) part = Some ccp"
    and "up_PartNumber part \<le> int (length parts)"
  shows "\<exists>s'. copyFileWithCp_wait W cpFilePath parts (Result part # ms) s =
                 copyFileWithCp_wait W cpFilePath parts ms s' \<and>
              completedBytes s' =
                completedBytes s +
                (cpt_End (parts ! nat (up_PartNumber part - 1)) -
                 cpt_Start (parts ! nat (up_PartNumber part - 1)) + 1)"
proof -
  from assms(2) have "0 \<le> up_PartNumber part - 1"
    by (auto simp: copyCheckpoint_update_def Let_def split: if_splits)
  with assms(3) have "0 \<le> up_PartNumber part - 1 \<and> up_PartNumber part - 1 < int (length parts)"
    by simp
  with assms(1,2) show ?thesis
    by (intro exI [of _ "s\<lparr>completed := completed s + 1, store := ccp,
          completedBytes := completedBytes s +
            (cpt_End (parts ! nat (up_PartNumber part - 1)) -
             cpt_Start (parts ! nat (up_PartNumber part - 1)) + 1),
          trace := trace s @ snd (copyCheckpoint_dump W ccp cpFilePath) @
            [Publish TransferDataEvent
               (completedBytes s +
                (cpt_End (parts ! nat (up_PartNumber part - 1)) -
                 cpt_Start (parts ! nat (up_PartNumber part - 1)) + 1))
               (os_Size (ccp_ObjStat ccp))]\<rparr>"])
       (simp add: Let_def)
qed

lemma uploadFileWithCp_wait_full_index:
  assumes "completed s < length chunks"
    and "updatePart (store s) part = Some ucp"
  shows "\<exists>s'. uploadFileWithCp_wait W cpFilePath chunks (Result part # ms) s =
                 uploadFileWithCp_wait W cpFilePath chunks ms s' \<and>
              nat (up_PartNumber part - 1) < length (ucp_Parts (store s)) \<and>
              completedBytes s' =
                completedBytes s +
                fc_Size (pt_Chunk (ucp_Parts (store s) ! nat (up_PartNumber part - 1)))"
proof -
  from assms(2) have i: "nat (up_PartNumber part - 1) < length (ucp_Parts (store s))"
    and ucp: "ucp = (store s)\<lparr>ucp_Parts := (ucp_Parts (store s))
        [nat (up_PartNumber part - 1) :=
           (ucp_Parts (store s) ! nat (up_PartNumber part - 1))
             \<lparr>pt_Part := part, pt_IsCompleted := True\<rparr>]\<rparr>"
    by (auto simp: updatePart_def Let_def split: if_splits)
  from i have "pt_Chunk (ucp_Parts ucp ! nat (up_PartNumber part - 1)) =
      pt_Chunk (ucp_Parts (store s) ! nat (up_PartNumber part - 1))"
    unfolding ucp by simp
  with assms i show ?thesis
    by (intro exI [of _ "s\<lparr>completed := completed s + 1, store := ucp,
          completedBytes := completedBytes s +
            fc_Size (pt_Chunk (ucp_Parts ucp ! nat (up_PartNumber part - 1))),
          trace := trace s @ snd (uploadCheckpoint_dump W ucp cpFilePath) @
            [Publish TransferDataEvent
               (completedBytes s +
                fc_Size (pt_Chunk (ucp_Parts ucp ! nat (up_PartNumber part - 1))))
               (st_Size (ucp_FileStat ucp))]\<rparr>"])
       (simp add: Let_def)
qed

lemma todo_numbers:
  assumes len: "length (ccp_PartStat cp) = length (ccp_Parts cp)"
    and dense: "\<forall>j < length (ccp_Parts cp). cpt_Number (ccp_Parts cp ! j) = int j + 1"
    and todo: "copyCheckpoint_todoParts cp = Some parts"
    and k: "k < length parts"
  shows "int k + 1 \<le> cpt_Number (parts ! k) \<and>
         (cpt_Number (parts ! k) = int k + 1 \<longleftrightarrow> (\<forall>j \<le> k. \<not> ccp_PartStat cp ! j))"
proof -
  define P where "P = (\<lambda>j. \<not> ccp_PartStat cp ! j)"
  define js where "js = filter P [0..<length (ccp_Parts cp)]"
  from copyCheckpoint_todoParts_filter [OF len] todo
  have parts: "parts = map (\<lambda>j. ccp_Parts cp ! j) js"
    by (simp add: js_def P_def)
  with k have kjs: "k < length (filter P [0..<length (ccp_Parts cp)])"
    by (simp add: js_def)
  from filter_upt_nth [OF kjs] have
    lower: "k \<le> js ! k" and upper: "js ! k < length (ccp_Parts cp)" and
    exact: "js ! k = k \<longleftrightarrow> (\<forall>j \<le> k. P j)"
    by (simp_all add: js_def)
  from parts k have "parts ! k = ccp_Parts cp ! (js ! k)"
    by simp
  with dense upper have number: "cpt_Number (parts ! k) = int (js ! k) + 1"
    by simp
  from lower exact show ?thesis
    unfolding number P_def by auto
qed

subsection \<open>Which part the copy coordinator counts\<close>

text \<open>
  C2, as the code has it. The waiting loop of \<^verbatim>\<open>copyFileWithCp\<close> indexes the list of
  unfinished parts by \<^verbatim>\<open>PartNumber-1\<close>. For a checkpoint with as many status flags as parts
  and with its parts numbered 1, 2, ... in order, the unfinished part at index \<open>k\<close> has a
  number of at least \<open>k+1\<close>, and it has the number \<open>k+1\<close> exactly when none of the first
  \<open>k+1\<close> parts is flagged completed. A received part whose number exceeds the length of
  the list of unfinished parts makes the run panic; one whose number is within the list has
  the size of the unfinished part at that index added, whichever part that is. The loop of
  \<^verbatim>\<open>uploadFileWithCp\<close> indexes the full \<^verbatim>\<open>Parts\<close> of the checkpoint, within its bounds.
\<close>

theorem todo_list_indexed_by_part_number:
  "(length (ccp_PartStat cp) = length (ccp_Parts cp) \<and>
    (\<forall>j < length (ccp_Parts cp). cpt_Number (ccp_Parts cp ! j) = int j + 1) \<and>
    copyCheckpoint_todoParts cp = Some todo \<and> k < length todo \<longrightarrow>
      int k + 1 \<le> cpt_Number (todo ! k) \<and>
      (cpt_Number (todo ! k) = int k + 1 \<longleftrightarrow> (\<forall>j \<le> k. \<not> ccp_PartStat cp ! j))) \<and>
   (completed c < length parts \<and> int (length parts) < up_PartNumber late \<longrightarrow>
      (\<exists>c'. copyFileWithCp_wait W cpFilePath parts (Result late # ms) c = Panicked c')) \<and>
   (completed c < length parts \<and> copyCheckpoint_update (store c) part = Some ccp \<and>
    up_PartNumber part \<le> int (length parts) \<longrightarrow>
      (\<exists>c'. copyFileWithCp_wait W cpFilePath parts (Result part # ms) c =
               copyFileWithCp_wait W cpFilePath parts ms c' \<and>
             completedBytes c' =
               completedBytes c +
               (cpt_End (parts ! nat (up_PartNumber part - 1)) -
                cpt_Start (parts ! nat (up_PartNumber part - 1)) + 1))) \<and>
   (completed u < length chunks \<and> updatePart (store u) upart = Some ucp \<longrightarrow>
      (\<exists>u'. uploadFileWithCp_wait W cpFilePath chunks (Result upart # ms) u =
               uploadFileWithCp_wait W cpFilePath chunks ms u' \<and>
             nat (up_PartNumber upart - 1) < length (ucp_Parts (store u)) \<and>
             completedBytes u' =
               completedBytes u +
               fc_Size (pt_Chunk (ucp_Parts (store u) ! nat (up_PartNumber upart - 1)))))"
  using todo_numbers [of cp todo k]
        copyFileWithCp_wait_out_of_range [of c parts late W cpFilePath ms]
        copyFileWithCp_wait_in_range [of c parts part ccp W cpFilePath ms]
        uploadFileWithCp_wait_full_index [of u chunks upart ucp W cpFilePath ms]
  by blast

lemma third_done_todoParts: "copyCheckpoint_todoParts third_done = Some third_done_todo"
  by (simp add: copyCheckpoint_todoParts_def third_done_def sample_ccp_def four_parts_def
        third_done_todo_def)

lemma third_done_dense:
  "\<forall>j < length (ccp_Parts third_done). cpt_Number (ccp_Parts third_done ! j) = int j + 1"
  by (simp add: third_done_def sample_ccp_def four_parts_def All_less_Suc numeral_eq_Suc)

theorem todo_list_indexed_by_part_number_witness:
  "copyCheckpoint_todoParts third_done = Some third_done_todo \<and>
   3 \<le> cpt_Number (third_done_todo ! 2) \<and>
   cpt_Number (third_done_todo ! 2) \<noteq> 3 \<and>
   (\<exists>c'. copyFileWithCp_wait sample_world ''k.cp'' third_done_todo [Result part4] third_done_state =
            Panicked c') \<and>
   (\<exists>c'. copyFileWithCp_wait sample_world ''k.cp'' third_done_todo [Result part2] third_done_state =
            copyFileWithCp_wait sample_world ''k.cp'' third_done_todo [] c' \<and>
          completedBytes c' = 204800)"
proof -
  have len: "length (ccp_PartStat third_done) = length (ccp_Parts third_done)"
    by (simp add: third_done_def sample_ccp_def four_parts_def)
  have k: "2 < length third_done_todo"
    by (simp add: third_done_todo_def)
  have waiting: "completed third_done_state < length third_done_todo"
    by (simp add: third_done_state_def third_done_todo_def)
  have late: "int (length third_done_todo) < up_PartNumber part4"
    by (simp add: third_done_todo_def part4_def)
  have entered: "copyCheckpoint_update (store third_done_state) part2 =
      Some (third_done\<lparr>ccp_CopyParts := [UploadPart_zero, part2,
                           \<lparr>up_PartNumber = 3, up_ETag = ''e3''\<rparr>, UploadPart_zero],
                        ccp_PartStat := [False, True, True, False]\<rparr>)"
    by (simp add: copyCheckpoint_update_def third_done_state_def third_done_def sample_ccp_def
          part2_def)
  have within: "up_PartNumber part2 \<le> int (length third_done_todo)"
    by (simp add: third_done_todo_def part2_def)
  note inst = todo_list_indexed_by_part_number
    [where cp = third_done and todo = third_done_todo and k = 2 and c = third_done_state
       and parts = third_done_todo and late = part4 and part = part2 and W = sample_world
       and cpFilePath = "''k.cp''" and ms = "[]"]
  from inst len third_done_dense third_done_todoParts k
  have a: "int 2 + 1 \<le> cpt_Number (third_done_todo ! 2) \<and>
      (cpt_Number (third_done_todo ! 2) = int 2 + 1 \<longleftrightarrow>
         (\<forall>j \<le> 2. \<not> ccp_PartStat third_done ! j))"
    by blast
  have "\<not> (\<forall>j \<le> 2. \<not> ccp_PartStat third_done ! j)"
    by (auto simp: third_done_def intro: exI [of _ 2])
  with a have b: "3 \<le> cpt_Number (third_done_todo ! 2) \<and> cpt_Number (third_done_todo ! 2) \<noteq> 3"
    by simp
  from inst waiting late
  have c: "\<exists>c'. copyFileWithCp_wait sample_world ''k.cp'' third_done_todo [Result part4]
                   third_done_state = Panicked c'"
    by blast
  from inst waiting entered within
  have "\<exists>c'. copyFileWithCp_wait sample_world ''k.cp'' third_done_todo [Result part2]
                third_done_state =
              copyFileWithCp_wait sample_world ''k.cp'' third_done_todo [] c' \<and>
              completedBytes c' =
                completedBytes third_done_state +
                (cpt_End (third_done_todo ! nat (up_PartNumber part2 - 1)) -
                 cpt_Start (third_done_todo ! nat (up_PartNumber part2 - 1)) + 1)"
    by blast
  moreover have "completedBytes third_done_state +
      (cpt_End (third_done_todo ! nat (up_PartNumber part2 - 1)) -
       cpt_Start (third_done_todo ! nat (up_PartNumber part2 - 1)) + 1) = 204800"
    by (simp add: third_done_state_def third_done_todo_def part2_def)
  ultimately have d: "\<exists>c'. copyFileWithCp_wait sample_world ''k.cp'' third_done_todo [Result part2]
                third_done_state =
              copyFileWithCp_wait sample_world ''k.cp'' third_done_todo [] c' \<and>
              completedBytes c' = 204800"
    by simp
  from third_done_todoParts b c d show ?thesis by blast
qed

text \<open>
  C2 as stated has a different part counted whenever the index is in range and the
  unfinished parts are not a prefix of all parts. With only part 3 copied, the unfinished
  parts 1, 2, 4 are not a prefix of the parts 1, 2, 3, 4; yet when part 1 arrives its index
  is in range and the part found there is part 1 itself.
\<close>

theorem same_part_counted_counterexample:
  "copyCheckpoint_todoParts third_done = Some third_done_todo \<and>
   take (length third_done_todo) (ccp_Parts third_done) \<noteq> third_done_todo \<and>
   0 \<le> up_PartNumber part1 - 1 \<and>
   up_PartNumber part1 - 1 < int (length third_done_todo) \<and>
   third_done_todo ! nat (up_PartNumber part1 - 1) =
     ccp_Parts third_done ! nat (up_PartNumber part1 - 1) \<and>
   cpt_Number (third_done_todo ! nat (up_PartNumber part1 - 1)) = up_PartNumber part1"
  by (simp add: third_done_todoParts)
     (simp add: third_done_def sample_ccp_def four_parts_def third_done_todo_def part1_def)

end
